theory Spec2Isabelle
  imports Complex_Main
begin

section \<open>The OpenCL solver backend of opm-simulators\<close>

text \<open>
  A shallow embedding of \<^verbatim>\<open>opm/simulators/linalg/bda/opencl/openclSolverBackend.cpp\<close>:
  the constructor, the state machine of \<^verbatim>\<open>solve_system\<close> and the preconditioned
  BiCGSTAB loop \<^verbatim>\<open>gpu_pbicgstab\<close>.

  Scalars of type \<^verbatim>\<open>double\<close> are modelled as \<^typ>\<open>real\<close>, so rounding, infinities
  and NaN are outside the model. The loop counter \<^verbatim>\<open>float it\<close> only takes the values
  \<open>k/2\<close>, which a float holds exactly up to \<open>2^23\<close>, where it stops advancing: the loop
  is given once with that counter (\<open>pbicgstab_loop_float\<close>, which need not return) and
  once with a counter that always advances (\<open>pbicgstab_loop\<close>), and the two agree for
  \<open>maxit < 2^23\<close>. In \<^verbatim>\<open>gpu_pbicgstab\<close> the device calls are taken to succeed;
  \<^verbatim>\<open>solve_system\<close> is also given with the iteration as a parameter, which covers an
  iteration that throws. Of the text written to \<^verbatim>\<open>OpmLog\<close> only the numbers of the
  C-style device properties are kept; the timers are not modelled.
\<close>

subsection \<open>Values thrown, OpenCL objects\<close>

text \<open>A \<^verbatim>\<open>cl::Error\<close>: the text of \<^verbatim>\<open>what()\<close> and the code of \<^verbatim>\<open>err()\<close>.\<close>

record cl_Error =
  cl_what :: string
  cl_err :: int

text \<open>
  What a \<^verbatim>\<open>try\<close> block can throw: a \<^verbatim>\<open>cl::Error\<close> raised by the OpenCL C++
  wrapper, or the \<^verbatim>\<open>std::logic_error\<close> of an \<^verbatim>\<open>OPM_THROW\<close>, with the message
  handed to the macro.
\<close>

datatype thrown = Thrown_cl cl_Error | Thrown_logic string

text \<open>What leaves a member function: always a \<^verbatim>\<open>std::logic_error\<close>.\<close>

datatype exn = Logic_error string

datatype ILUReorder = LEVEL_SCHEDULING | GRAPH_COLORING | NONE

datatype PreconditionerType = BILU0 | CPR | BISAI

text \<open>
  The OpenCL installation the constructor talks to. Each query of the C++ wrapper either
  answers or throws a \<^verbatim>\<open>cl::Error\<close>.
\<close>

record cl_Device =
  dev_name :: string
  dev_getInfo :: "cl_Error option"

record cl_Platform =
  plat_name :: string
  plat_getInfo :: "cl_Error option"
  plat_getDevices :: "cl_Error + cl_Device list"

text \<open>
  The verbose device listing also queries five properties through the C interface:
  \<^verbatim>\<open>clGetDeviceInfo(tmp_id, param, sizeof(cl_ulong), &size, 0)\<close> returns an error code
  instead of throwing and, when it succeeds, stores the answer in the local variable
  \<^verbatim>\<open>size\<close>. \<open>clGetDeviceInfo\<close> gives, for a device, a parameter and the contents of
  \<^verbatim>\<open>size\<close> before the call, the code returned and the contents of \<^verbatim>\<open>size\<close> after it;
  \<open>size_uninitialized i\<close> is the indeterminate value \<^verbatim>\<open>size\<close> has when it is declared
  in pass \<open>i\<close> of the device loop.
\<close>

datatype device_param =
    CL_DEVICE_LOCAL_MEM_SIZE
  | CL_DEVICE_GLOBAL_MEM_SIZE
  | CL_DEVICE_MAX_COMPUTE_UNITS
  | CL_DEVICE_MAX_MEM_ALLOC_SIZE
  | CL_DEVICE_MAX_WORK_GROUP_SIZE

record cl_World =
  platform_get :: "cl_Error + cl_Platform list"
  context_create :: "cl_Device \<Rightarrow> cl_Error option"
  queue_create :: "cl_Device \<Rightarrow> cl_Error option"
  kernels_init :: "cl_Device \<Rightarrow> cl_Error option"
  clGetDeviceInfo :: "cl_Device \<Rightarrow> device_param \<Rightarrow> nat \<Rightarrow> int \<times> nat"
  size_uninitialized :: "nat \<Rightarrow> nat"

text \<open>
  Calls that reach outside the object, in the order they are issued. Of the text logged
  through \<^verbatim>\<open>OpmLog::info\<close> only the device listing of the constructor is kept, and of it
  the numbers printed for the C-style properties, one list for each device (no list when
  the listing is not verbose).
\<close>

datatype buf = D_x | D_b | D_r | D_rw | D_p | D_pw | D_s | D_t | D_v

datatype event =
    Ev_prec_create PreconditionerType
  | Ev_platform_get
  | Ev_getDevices nat
  | Ev_log_devices "nat list list"
  | Ev_context
  | Ev_queue
  | Ev_kernels_init
  | Ev_initialize
  | Ev_analyze_matrix
  | Ev_update_system
  | Ev_create_preconditioner
  | Ev_copy_system_to_gpu
  | Ev_update_system_on_gpu
  | Ev_gpu_pbicgstab
  | Ev_fill buf
  | Ev_copy buf buf
  | Ev_dot buf buf
  | Ev_norm buf
  | Ev_custom buf buf buf
  | Ev_prec_apply buf buf
  | Ev_spmv buf buf
  | Ev_well_apply buf buf
  | Ev_axpy buf buf

subsection \<open>Printing an error code\<close>

text \<open>\<^verbatim>\<open>oss << error.err()\<close> prints the code in decimal.\<close>

function show_nat :: "nat \<Rightarrow> string" where
  "show_nat n =
     (if n < 10 then [''0123456789'' ! n]
      else show_nat (n div 10) @ [''0123456789'' ! (n mod 10)])"
  by pat_completeness auto
termination
  by (relation "measure id") auto

declare show_nat.simps [simp del]

definition show_int :: "int \<Rightarrow> string" where
  "show_int i = (if i < 0 then CHR ''-'' # show_nat (nat (- i)) else show_nat (nat i))"

text \<open>
  The handler of \<^verbatim>\<open>catch (const cl::Error& error)\<close> in the constructor and in
  \<^verbatim>\<open>initialize\<close>. \<^verbatim>\<open>getErrorString\<close> is declared outside this file and is a
  parameter.
\<close>

definition opencl_error_message :: "(int \<Rightarrow> string) \<Rightarrow> cl_Error \<Rightarrow> string" where
  "opencl_error_message getErrorString e =
     ''OpenCL Error: '' @ cl_what e @ ''('' @ show_int (cl_err e) @ '')'' @ [CHR 0x0A]
       @ getErrorString (cl_err e)"

definition rethrow :: "(int \<Rightarrow> string) \<Rightarrow> thrown \<Rightarrow> exn" where
  "rethrow getErrorString t =
     (case t of
        Thrown_cl e \<Rightarrow> Logic_error (opencl_error_message getErrorString e)
      | Thrown_logic m \<Rightarrow> Logic_error m)"

subsection \<open>The constructor\<close>

text \<open>The chain of \<^verbatim>\<open>linsolver.compare\<close> tests: \<open>(use_cpr, use_isai)\<close> or a throw.\<close>

definition select_linsolver :: "string \<Rightarrow> exn + bool \<times> bool" where
  "select_linsolver linsolver =
     (if linsolver = ''ilu0'' then Inr (False, False)
      else if linsolver = ''cpr_quasiimpes'' then Inr (True, False)
      else if linsolver = ''isai'' then Inr (False, True)
      else if linsolver = ''cpr_trueimpes'' then
        Inl (Logic_error ''Error openclSolver does not support --linsolver=cpr_trueimpes'')
      else Inl (Logic_error (''Error unknown value for argument --linsolver, '' @ linsolver)))"

definition select_preconditioner :: "bool \<times> bool \<Rightarrow> PreconditionerType" where
  "select_preconditioner u =
     (case u of (use_cpr, use_isai) \<Rightarrow>
        if use_cpr then CPR else if use_isai then BISAI else BILU0)"

text \<open>
  The verbose platform listing calls \<^verbatim>\<open>getInfo\<close> on every platform in order; the
  first \<^verbatim>\<open>cl::Error\<close> ends the \<^verbatim>\<open>try\<close> block.
\<close>

fun first_error :: "cl_Error option list \<Rightarrow> cl_Error option" where
  "first_error [] = None"
| "first_error (None # es) = first_error es"
| "first_error (Some e # es) = Some e"

text \<open>
  The six C-style queries made for one device and the six numbers written to the log. The
  code each call returns is discarded: \<^verbatim>\<open>size\<close> is printed whether or not the call
  stored an answer in it.
\<close>

definition c_style_properties :: "cl_World \<Rightarrow> nat \<Rightarrow> cl_Device \<Rightarrow> nat list" where
  "c_style_properties W i d =
     (let size0 = size_uninitialized W i;
          size1 = snd (clGetDeviceInfo W d CL_DEVICE_LOCAL_MEM_SIZE size0);
          size2 = snd (clGetDeviceInfo W d CL_DEVICE_GLOBAL_MEM_SIZE size1);
          size3 = snd (clGetDeviceInfo W d CL_DEVICE_MAX_COMPUTE_UNITS size2);
          size4 = snd (clGetDeviceInfo W d CL_DEVICE_MAX_MEM_ALLOC_SIZE size3);
          size5 = snd (clGetDeviceInfo W d CL_DEVICE_MAX_WORK_GROUP_SIZE size4);
          size6 = snd (clGetDeviceInfo W d CL_DEVICE_GLOBAL_MEM_SIZE size5)
      in [size1 div 1024, size2 div 1024 div 1024 div 1024, size3, size4 div 1024 div 1024,
          size5, size6 div 1024 div 1024 div 1024])"

text \<open>
  The verbose device loop from pass \<open>i\<close> on: for each device the \<^verbatim>\<open>getInfo\<close> calls,
  the first \<^verbatim>\<open>cl::Error\<close> of which ends the \<^verbatim>\<open>try\<close> block, and then the C-style
  queries.
\<close>

fun list_devices :: "cl_World \<Rightarrow> nat \<Rightarrow> cl_Device list \<Rightarrow> cl_Error + nat list list" where
  "list_devices W i [] = Inr []"
| "list_devices W i (d # ds) =
     (case dev_getInfo d of
        Some e \<Rightarrow> Inl e
      | None \<Rightarrow>
          (let props = c_style_properties W i d
           in case list_devices W (Suc i) ds of
                Inl e \<Rightarrow> Inl e
              | Inr rest \<Rightarrow> Inr (props # rest)))"

text \<open>
  The body of the \<^verbatim>\<open>try\<close> block: the calls made and either what was thrown or the one
  device kept in \<^verbatim>\<open>devices\<close>.
\<close>

definition opencl_setup ::
  "cl_World \<Rightarrow> int \<Rightarrow> nat \<Rightarrow> nat \<Rightarrow> event list \<times> (thrown + cl_Device list)" where
  "opencl_setup W verbosity platformID deviceID =
     (case platform_get W of
        Inl e \<Rightarrow> ([Ev_platform_get], Inl (Thrown_cl e))
      | Inr platforms \<Rightarrow>
          if platforms = [] then
            ([Ev_platform_get],
             Inl (Thrown_logic ''Error openclSolver is selected but no OpenCL platforms are found''))
          else
            (case (if verbosity \<ge> 1 then first_error (map plat_getInfo platforms) else None) of
               Some e \<Rightarrow> ([Ev_platform_get], Inl (Thrown_cl e))
             | None \<Rightarrow>
                 if length platforms \<le> platformID then
                   ([Ev_platform_get], Inl (Thrown_logic ''Error chosen too high OpenCL platform ID''))
                 else
                   (case plat_getInfo (platforms ! platformID) of
                      Some e \<Rightarrow> ([Ev_platform_get], Inl (Thrown_cl e))
                    | None \<Rightarrow>
                        (case plat_getDevices (platforms ! platformID) of
                           Inl e \<Rightarrow> ([Ev_platform_get, Ev_getDevices platformID], Inl (Thrown_cl e))
                         | Inr devices \<Rightarrow>
                             if devices = [] then
                               ([Ev_platform_get, Ev_getDevices platformID],
                                Inl (Thrown_logic
                                  ''Error openclSolver is selected but no OpenCL devices are found''))
                             else
                               (case (if verbosity \<ge> 1 then list_devices W 0 devices
                                      else Inr []) of
                                  Inl e \<Rightarrow>
                                    ([Ev_platform_get, Ev_getDevices platformID], Inl (Thrown_cl e))
                                | Inr listing \<Rightarrow>
                                    if length devices \<le> deviceID then
                                      ([Ev_platform_get, Ev_getDevices platformID,
                                        Ev_log_devices listing],
                                       Inl (Thrown_logic ''Error chosen too high OpenCL device ID''))
                                    else
                                      (case dev_getInfo (devices ! deviceID) of
                                         Some e \<Rightarrow>
                                           ([Ev_platform_get, Ev_getDevices platformID,
                                             Ev_log_devices listing],
                                            Inl (Thrown_cl e))
                                       | None \<Rightarrow>
                                           (let devices1 =
                                                  (if deviceID \<noteq> 0
                                                   then devices[0 := devices ! deviceID]
                                                   else devices);
                                                devices2 = take 1 devices1;
                                                d = devices2 ! 0
                                            in case context_create W d of
                                                 Some e \<Rightarrow>
                                                   ([Ev_platform_get, Ev_getDevices platformID,
                                                     Ev_log_devices listing, Ev_context],
                                                    Inl (Thrown_cl e))
                                               | None \<Rightarrow>
                                                   (case queue_create W d of
                                                      Some e \<Rightarrow>
                                                        ([Ev_platform_get, Ev_getDevices platformID,
                                                          Ev_log_devices listing, Ev_context,
                                                          Ev_queue], Inl (Thrown_cl e))
                                                    | None \<Rightarrow>
                                                        (case kernels_init W d of
                                                           Some e \<Rightarrow>
                                                             ([Ev_platform_get,
                                                               Ev_getDevices platformID,
                                                               Ev_log_devices listing,
                                                               Ev_context, Ev_queue,
                                                               Ev_kernels_init],
                                                              Inl (Thrown_cl e))
                                                         | None \<Rightarrow>
                                                             ([Ev_platform_get,
                                                               Ev_getDevices platformID,
                                                               Ev_log_devices listing,
                                                               Ev_context, Ev_queue,
                                                               Ev_kernels_init],
                                                              Inr devices2))))))))))"

subsection \<open>The solver object\<close>

type_synonym vec = "real list"

record BlockedMatrix =
  mat_Nb :: int
  mat_nnzbs :: int
  mat_block_size :: nat
  nnzValues :: "real list"
  colIndices :: "int list"
  rowPointers :: "int list"

text \<open>
  \<^verbatim>\<open>rmat\<close> is a pointer: null, the solver's own \<^verbatim>\<open>mat\<close>, or the reordered matrix
  that the preconditioner owns.
\<close>

datatype rmat_ptr = Rmat_null | Rmat_mat | Rmat_prec

text \<open>
  The members of \<^verbatim>\<open>openclSolverBackend\<close> and of its base \<^verbatim>\<open>BdaSolver\<close>. The device
  vectors \<^verbatim>\<open>d_x\<close>, \<^verbatim>\<open>d_b\<close>, ... are one store \<open>d_vec\<close> from buffer names to
  contents; the scratch buffer \<^verbatim>\<open>d_tmp\<close> of the reductions is left out. \<open>trace\<close>
  records the calls issued, oldest first.
\<close>

record solver =
  verbosity :: int
  maxit :: int
  tolerance :: real
  platformID :: nat
  deviceID :: nat
  opencl_ilu_reorder :: ILUReorder
  prec :: "PreconditionerType option"
  devices :: "cl_Device list"
  initialized :: bool
  analysis_done :: bool
  N :: int
  Nb :: int
  nnz :: int
  nnzb :: int
  mat :: BlockedMatrix
  rmat :: rmat_ptr
  rb :: vec
  toOrder :: "int list"
  fromOrder :: "int list"
  d_vec :: "buf \<Rightarrow> vec"
  d_Avals :: "real list"
  d_Acols :: "int list"
  d_Arows :: "int list"
  d_toOrder :: "int list"
  err :: int
  trace :: "event list"

definition null_matrix :: BlockedMatrix where
  "null_matrix =
     \<lparr>mat_Nb = 0, mat_nnzbs = 0, mat_block_size = 0, nnzValues = [], colIndices = [],
      rowPointers = []\<rparr>"

text \<open>
  The first constructor. The sizes are uninitialised members until \<^verbatim>\<open>initialize\<close>; the
  model sets them to 0. The flags \<^verbatim>\<open>initialized\<close> and \<^verbatim>\<open>analysis_done\<close> start false.
\<close>

definition openclSolverBackend ::
  "(int \<Rightarrow> string) \<Rightarrow> cl_World \<Rightarrow> int \<Rightarrow> int \<Rightarrow> real \<Rightarrow> nat \<Rightarrow> nat \<Rightarrow> ILUReorder \<Rightarrow> string
     \<Rightarrow> event list \<times> (exn + solver)" where
  "openclSolverBackend getErrorString W verbosity' maxit' tolerance' platformID' deviceID'
       opencl_ilu_reorder' linsolver =
     (case select_linsolver linsolver of
        Inl e \<Rightarrow> ([], Inl e)
      | Inr u \<Rightarrow>
          (let pt = select_preconditioner u;
               (evs, r) = opencl_setup W verbosity' platformID' deviceID'
           in case r of
                Inl t \<Rightarrow> (Ev_prec_create pt # evs, Inl (rethrow getErrorString t))
              | Inr devs \<Rightarrow>
                  (Ev_prec_create pt # evs,
                   Inr \<lparr>verbosity = verbosity', maxit = maxit', tolerance = tolerance',
                        platformID = platformID', deviceID = deviceID',
                        opencl_ilu_reorder = opencl_ilu_reorder', prec = Some pt,
                        devices = devs, initialized = False, analysis_done = False,
                        N = 0, Nb = 0, nnz = 0, nnzb = 0, mat = null_matrix,
                        rmat = Rmat_null, rb = [], toOrder = [], fromOrder = [],
                        d_vec = (\<lambda>_. []), d_Avals = [], d_Acols = [], d_Arows = [],
                        d_toOrder = [], err = 0, trace = Ev_prec_create pt # evs\<rparr>)))"

subsection \<open>Collaborators outside this file\<close>

text \<open>
  What one call of \<^verbatim>\<open>solve_system\<close> gets from the device and from the preconditioner
  object: the indeterminate contents of newly created buffers, whether buffer creation
  throws, the outcome of \<^verbatim>\<open>prec->analyze_matrix\<close> and what its getters then return,
  the outcome of \<^verbatim>\<open>prec->create_preconditioner\<close>, the bitwise OR of the codes returned
  by the \<^verbatim>\<open>enqueueWriteBuffer\<close> and \<^verbatim>\<open>enqueueFillBuffer\<close> calls, and the two
  operators applied in the loop: \<^verbatim>\<open>prec->apply\<close> and the kernel
  \<^verbatim>\<open>OpenclKernels::spmv\<close> (matrix values, column indices, row pointers, input
  vector, \<^verbatim>\<open>Nb\<close>, block size).
\<close>

record call_env =
  fresh_vec :: "buf \<Rightarrow> vec"
  fresh_Avals :: "real list"
  fresh_Acols :: "int list"
  fresh_Arows :: "int list"
  fresh_toOrder :: "int list"
  fresh_rb :: vec
  buffer_create :: "cl_Error option"
  prec_analyze_matrix :: bool
  prec_getToOrder :: "int list"
  prec_getFromOrder :: "int list"
  prec_getRMat :: BlockedMatrix
  prec_create_preconditioner :: bool
  enqueue_err :: int
  prec_apply :: "vec \<Rightarrow> vec"
  spmv :: "real list \<Rightarrow> int list \<Rightarrow> int list \<Rightarrow> vec \<Rightarrow> int \<Rightarrow> nat \<Rightarrow> vec"
  getErrorString :: "int \<Rightarrow> string"

text \<open>
  The caller's \<^verbatim>\<open>WellContributions\<close>: the number of wells, the reordering it was last
  told, and \<^verbatim>\<open>apply(d_x, d_y, d_toOrder)\<close>, which adds the wells' products with
  \<open>d_x\<close> into \<open>d_y\<close> and returns the new \<open>d_y\<close>.
\<close>

record WellContributions =
  getNumWells :: nat
  wc_reorder :: bool
  wc_toOrder :: "int list"
  wc_apply :: "vec \<Rightarrow> vec \<Rightarrow> int list \<Rightarrow> vec"

definition setReordering :: "int list \<Rightarrow> bool \<Rightarrow> WellContributions \<Rightarrow> WellContributions" where
  "setReordering toOrder' reorder' wc = wc\<lparr>wc_toOrder := toOrder', wc_reorder := reorder'\<rparr>"

text \<open>
  Modelled from the spec: \<^verbatim>\<open>reorderBlockedVectorByPattern\<close> is defined in
  \<^verbatim>\<open>Reorder.cpp\<close>, which is not among the sources. It permutes a vector of \<open>Nb\<close> blocks
  of \<open>block_size\<close> entries by a pattern: block \<open>i\<close> of the result is block
  \<open>order[i]\<close> of the input. The entries of the result array beyond the \<open>Nb\<close> blocks
  keep their old contents.
\<close>

definition reorderBlockedVectorByPattern ::
  "nat \<Rightarrow> int \<Rightarrow> vec \<Rightarrow> int list \<Rightarrow> vec \<Rightarrow> vec" where
  "reorderBlockedVectorByPattern block_size Nb' vector order rVector =
     map (\<lambda>k. vector ! (block_size * nat (order ! (k div block_size)) + k mod block_size))
         [0..<block_size * nat Nb']
       @ drop (block_size * nat Nb') rVector"

text \<open>Integer division of C++ truncates towards zero.\<close>

definition c_div :: "int \<Rightarrow> int \<Rightarrow> int" where
  "c_div a b = sgn a * sgn b * (\<bar>a\<bar> div \<bar>b\<bar>)"

definition log_event :: "event \<Rightarrow> solver \<Rightarrow> solver" where
  "log_event e s = s\<lparr>trace := trace s @ [e]\<rparr>"

subsection \<open>The steps of \<^verbatim>\<open>solve_system\<close>\<close>

text \<open>
  \<^verbatim>\<open>initialize\<close>: the sizes, the matrix holder and the device buffers, whose contents
  are indeterminate. A \<^verbatim>\<open>cl::Error\<close> from buffer creation is rethrown and leaves
  \<^verbatim>\<open>initialized\<close> false. \<open>block_size\<close> is the template parameter.
\<close>

definition initialize ::
  "nat \<Rightarrow> call_env \<Rightarrow> int \<Rightarrow> int \<Rightarrow> int \<Rightarrow> real list \<Rightarrow> int list \<Rightarrow> int list \<Rightarrow> solver
     \<Rightarrow> solver \<times> exn option" where
  "initialize block_size E N' nnz' dim' vals rows cols s =
     (let nnzb' = c_div (c_div nnz' (int block_size)) (int block_size);
          Nb' = c_div (N' + dim' - 1) dim';
          s1 = log_event Ev_initialize (s\<lparr>N := N', nnz := nnz', nnzb := nnzb', Nb := Nb'\<rparr>);
          s2 = s1\<lparr>mat := \<lparr>mat_Nb = Nb', mat_nnzbs = nnzb', mat_block_size = block_size,
                           nnzValues = vals, colIndices = cols, rowPointers = rows\<rparr>\<rparr>
      in case buffer_create E of
           Some e \<Rightarrow> (s2, Some (Logic_error (opencl_error_message (getErrorString E) e)))
         | None \<Rightarrow>
             (let s3 = s2\<lparr>d_vec := fresh_vec E, d_Avals := fresh_Avals E,
                          d_Acols := fresh_Acols E, d_Arows := fresh_Arows E\<rparr>;
                  s4 = (if opencl_ilu_reorder s3 \<noteq> NONE
                        then s3\<lparr>rb := fresh_rb E, d_toOrder := fresh_toOrder E\<rparr>
                        else s3)
              in (s4\<lparr>initialized := True\<rparr>, None)))"

definition analyze_matrix :: "call_env \<Rightarrow> solver \<Rightarrow> bool \<times> solver" where
  "analyze_matrix E s =
     (let success = prec_analyze_matrix E;
          s1 = log_event Ev_analyze_matrix s;
          s2 = (if opencl_ilu_reorder s1 = NONE then s1\<lparr>rmat := Rmat_mat\<rparr>
                else s1\<lparr>toOrder := prec_getToOrder E, fromOrder := prec_getFromOrder E,
                        rmat := Rmat_prec\<rparr>)
      in (success, s2\<lparr>analysis_done := True\<rparr>))"

definition update_system ::
  "nat \<Rightarrow> real list \<Rightarrow> vec \<Rightarrow> WellContributions \<Rightarrow> solver \<Rightarrow> solver \<times> WellContributions" where
  "update_system block_size vals b wellContribs s =
     (let s1 = log_event Ev_update_system (s\<lparr>mat := (mat s)\<lparr>nnzValues := vals\<rparr>\<rparr>)
      in if opencl_ilu_reorder s1 \<noteq> NONE then
           (s1\<lparr>rb := reorderBlockedVectorByPattern block_size (mat_Nb (mat s1)) b
                       (fromOrder s1) (rb s1)\<rparr>,
            setReordering (toOrder s1) True wellContribs)
         else (s1\<lparr>rb := b\<rparr>, setReordering [] False wellContribs))"

definition create_preconditioner :: "call_env \<Rightarrow> solver \<Rightarrow> bool \<times> solver" where
  "create_preconditioner E s = (prec_create_preconditioner E, log_event Ev_create_preconditioner s)"

text \<open>The matrix \<^verbatim>\<open>rmat\<close> points to; a null pointer is never dereferenced on the paths
  of \<^verbatim>\<open>solve_system\<close>.\<close>

definition rmat_deref :: "call_env \<Rightarrow> solver \<Rightarrow> BlockedMatrix" where
  "rmat_deref E s =
     (case rmat s of Rmat_null \<Rightarrow> null_matrix | Rmat_mat \<Rightarrow> mat s | Rmat_prec \<Rightarrow> prec_getRMat E)"

definition enqueueFillBuffer :: "buf \<Rightarrow> solver \<Rightarrow> solver" where
  "enqueueFillBuffer b s =
     log_event (Ev_fill b) (s\<lparr>d_vec := (d_vec s)(b := replicate (nat (N s)) 0)\<rparr>)"

definition enqueueWriteBuffer :: "buf \<Rightarrow> vec \<Rightarrow> solver \<Rightarrow> solver" where
  "enqueueWriteBuffer b host s = s\<lparr>d_vec := (d_vec s)(b := take (nat (N s)) host)\<rparr>"

definition enqueueCopyBuffer :: "buf \<Rightarrow> buf \<Rightarrow> solver \<Rightarrow> solver" where
  "enqueueCopyBuffer src dst s =
     log_event (Ev_copy src dst) (s\<lparr>d_vec := (d_vec s)(dst := take (nat (N s)) (d_vec s src))\<rparr>)"

definition copy_system_to_gpu :: "call_env \<Rightarrow> solver \<Rightarrow> solver \<times> exn option" where
  "copy_system_to_gpu E s =
     (let s0 = log_event Ev_copy_system_to_gpu s;
          s1 = s0\<lparr>d_Avals := take (nat (nnz s0)) (nnzValues (rmat_deref E s0)),
                  d_Acols := take (nat (nnzb s0)) (colIndices (rmat_deref E s0)),
                  d_Arows := take (nat (Nb s0 + 1)) (rowPointers (rmat_deref E s0))\<rparr>;
          s2 = enqueueWriteBuffer D_b (rb s1) s1;
          s3 = enqueueFillBuffer D_x s2;
          s4 = (if opencl_ilu_reorder s3 \<noteq> NONE
                then s3\<lparr>d_toOrder := take (nat (Nb s3)) (toOrder s3)\<rparr> else s3);
          s5 = s4\<lparr>err := enqueue_err E\<rparr>
      in if err s5 \<noteq> 0
         then (s5, Some (Logic_error ''openclSolverBackend OpenCL enqueueWriteBuffer error''))
         else (s5, None))"

definition update_system_on_gpu :: "call_env \<Rightarrow> solver \<Rightarrow> solver \<times> exn option" where
  "update_system_on_gpu E s =
     (let s0 = log_event Ev_update_system_on_gpu s;
          s1 = s0\<lparr>d_Avals := take (nat (nnz s0)) (nnzValues (rmat_deref E s0))\<rparr>;
          s2 = enqueueWriteBuffer D_b (rb s1) s1;
          s3 = enqueueFillBuffer D_x s2;
          s4 = s3\<lparr>err := enqueue_err E\<rparr>
      in if err s4 \<noteq> 0
         then (s4, Some (Logic_error ''openclSolverBackend OpenCL enqueueWriteBuffer error''))
         else (s4, None))"

subsection \<open>The device kernels\<close>

text \<open>
  Modelled from the spec: the kernels of \<^verbatim>\<open>OpenclKernels\<close> are defined in
  \<^verbatim>\<open>openclKernels.cpp\<close>, which is not among the sources. \<open>dot(a,b)\<close> is the inner
  product, \<open>norm(a)\<close> the Euclidean norm, \<open>axpy(a, scale, b)\<close> is \<open>b += scale*a\<close> in
  place, and the fused kernel computes \<open>p = r + beta*(p - omega*v)\<close> in one pass; each
  works on the first \<open>N\<close> entries, which is the size of every device vector.
\<close>

definition dot_k :: "vec \<Rightarrow> vec \<Rightarrow> int \<Rightarrow> real" where
  "dot_k in1 in2 n = (\<Sum>i\<leftarrow>[0..<nat n]. in1 ! i * in2 ! i)"

definition norm_k :: "vec \<Rightarrow> int \<Rightarrow> real" where
  "norm_k a n = sqrt (dot_k a a n)"

definition axpy_k :: "vec \<Rightarrow> real \<Rightarrow> vec \<Rightarrow> int \<Rightarrow> vec" where
  "axpy_k in1 a out n = map (\<lambda>i. out ! i + a * in1 ! i) [0..<nat n]"

definition custom_k :: "vec \<Rightarrow> vec \<Rightarrow> vec \<Rightarrow> real \<Rightarrow> real \<Rightarrow> int \<Rightarrow> vec" where
  "custom_k p v r omega' beta' n =
     map (\<lambda>i. r ! i + beta' * (p ! i - omega' * v ! i)) [0..<nat n]"

text \<open>The calls as the loop issues them: on named buffers of the store, each logged.\<close>

definition kernel_dot :: "buf \<Rightarrow> buf \<Rightarrow> solver \<Rightarrow> real \<times> solver" where
  "kernel_dot in1 in2 s =
     (dot_k (d_vec s in1) (d_vec s in2) (N s), log_event (Ev_dot in1 in2) s)"

definition kernel_norm :: "buf \<Rightarrow> solver \<Rightarrow> real \<times> solver" where
  "kernel_norm in1 s = (norm_k (d_vec s in1) (N s), log_event (Ev_norm in1) s)"

definition kernel_axpy :: "buf \<Rightarrow> real \<Rightarrow> buf \<Rightarrow> solver \<Rightarrow> solver" where
  "kernel_axpy in1 a out s =
     log_event (Ev_axpy in1 out)
       (s\<lparr>d_vec := (d_vec s)(out := axpy_k (d_vec s in1) a (d_vec s out) (N s))\<rparr>)"

definition kernel_custom :: "buf \<Rightarrow> buf \<Rightarrow> buf \<Rightarrow> real \<Rightarrow> real \<Rightarrow> solver \<Rightarrow> solver" where
  "kernel_custom p v r omega' beta' s =
     log_event (Ev_custom p v r)
       (s\<lparr>d_vec := (d_vec s)(p := custom_k (d_vec s p) (d_vec s v) (d_vec s r) omega' beta' (N s))\<rparr>)"

definition kernel_spmv :: "nat \<Rightarrow> call_env \<Rightarrow> buf \<Rightarrow> buf \<Rightarrow> solver \<Rightarrow> solver" where
  "kernel_spmv block_size E x b s =
     log_event (Ev_spmv x b)
       (s\<lparr>d_vec := (d_vec s)(b := spmv E (d_Avals s) (d_Acols s) (d_Arows s) (d_vec s x)
                                    (Nb s) block_size)\<rparr>)"

definition prec_apply_buf :: "call_env \<Rightarrow> buf \<Rightarrow> buf \<Rightarrow> solver \<Rightarrow> solver" where
  "prec_apply_buf E x y s =
     log_event (Ev_prec_apply x y) (s\<lparr>d_vec := (d_vec s)(y := prec_apply E (d_vec s x))\<rparr>)"

definition well_apply :: "WellContributions \<Rightarrow> buf \<Rightarrow> buf \<Rightarrow> solver \<Rightarrow> solver" where
  "well_apply wellContribs x y s =
     log_event (Ev_well_apply x y)
       (s\<lparr>d_vec := (d_vec s)(y := wc_apply wellContribs (d_vec s x) (d_vec s y) (d_toOrder s))\<rparr>)"

subsection \<open>\<^verbatim>\<open>gpu_pbicgstab\<close>\<close>

text \<open>
  The scalars of the loop that live across half-steps. \<^verbatim>\<open>rhop\<close>, \<^verbatim>\<open>beta\<close>,
  \<^verbatim>\<open>tmp1\<close> and \<^verbatim>\<open>tmp2\<close> are written before they are read in every pass and are
  local to a half-step.
\<close>

record loop_vars =
  it :: real
  rho :: real
  alpha :: real
  omega :: real
  norm_v :: real

text \<open>The result record; \<^verbatim>\<open>elapsed\<close> is a wall-clock time and is left out.\<close>

record BdaResult =
  iterations :: real
  reduction :: real
  conv_rate :: real
  converged :: bool

text \<open>The loop body up to the first convergence test.\<close>

definition first_half ::
  "nat \<Rightarrow> call_env \<Rightarrow> WellContributions \<Rightarrow> loop_vars \<times> solver \<Rightarrow> loop_vars \<times> solver" where
  "first_half block_size E wellContribs ls =
     (case ls of (l, s) \<Rightarrow>
        (let rhop = rho l;
             (rho1, s1) = kernel_dot D_rw D_r s;
             s2 = (if it l > 1
                   then (let beta1 = (rho1 / rhop) * (alpha l / omega l)
                         in kernel_custom D_p D_v D_r (omega l) beta1 s1)
                   else s1);
             s3 = prec_apply_buf E D_p D_pw s2;
             s4 = kernel_spmv block_size E D_pw D_v s3;
             s5 = (if getNumWells wellContribs > 0
                   then well_apply wellContribs D_pw D_v s4 else s4);
             (tmp1, s6) = kernel_dot D_rw D_v s5;
             alpha1 = rho1 / tmp1;
             s7 = kernel_axpy D_v (- alpha1) D_r s6;
             s8 = kernel_axpy D_pw alpha1 D_x s7;
             (norm1, s9) = kernel_norm D_r s8
         in (l\<lparr>rho := rho1, alpha := alpha1, norm_v := norm1\<rparr>, s9)))"

text \<open>The loop body after \<^verbatim>\<open>it += 0.5\<close>, up to the second convergence test.\<close>

definition second_half ::
  "nat \<Rightarrow> call_env \<Rightarrow> WellContributions \<Rightarrow> loop_vars \<times> solver \<Rightarrow> loop_vars \<times> solver" where
  "second_half block_size E wellContribs ls =
     (case ls of (l, s) \<Rightarrow>
        (let s1 = prec_apply_buf E D_r D_s s;
             s2 = kernel_spmv block_size E D_s D_t s1;
             s3 = (if getNumWells wellContribs > 0
                   then well_apply wellContribs D_s D_t s2 else s2);
             (tmp1, s4) = kernel_dot D_t D_r s3;
             (tmp2, s5) = kernel_dot D_t D_t s4;
             omega1 = tmp1 / tmp2;
             s6 = kernel_axpy D_s omega1 D_x s5;
             s7 = kernel_axpy D_t (- omega1) D_r s6;
             (norm1, s8) = kernel_norm D_r s7
         in (l\<lparr>omega := omega1, norm_v := norm1\<rparr>, s8)))"

lemma it_first_half [simp]: "it (fst (first_half bs E W ls)) = it (fst ls)"
  by (simp add: first_half_def Let_def split_def)

lemma it_second_half [simp]: "it (fst (second_half bs E W ls)) = it (fst ls)"
  by (simp add: second_half_def Let_def split_def)

text \<open>
  The counter of \<^verbatim>\<open>for (it = 0.5; it < maxit; it += 0.5)\<close> is a \<^verbatim>\<open>float\<close>, and
  \<^verbatim>\<open>it += 0.5\<close> rounds the sum to the nearest float, ties to even. The counter only
  takes values \<open>k/2\<close>. Up to \<open>2^23\<close> these are floats, so below \<open>2^23\<close> the sum is
  exact. At \<open>2^23 = 8388608\<close> the floats are the integers: \<open>2^23 + 0.5\<close> lies midway
  between two of them and is rounded to the even one, \<open>2^23\<close> itself, so the counter stops
  advancing; larger values are never reached. In the loop test \<^verbatim>\<open>it < maxit\<close> the
  conversion of \<^verbatim>\<open>maxit\<close> to \<^verbatim>\<open>float\<close> is exact for \<open>|maxit| \<le> 2^24\<close> and keeps any
  other \<^verbatim>\<open>maxit\<close> on the same side of every value of the counter, so the test is the
  comparison of the two numbers.
\<close>

definition float_add_half :: "real \<Rightarrow> real" where
  "float_add_half x = (if x < 8388608 then x + 1/2 else x)"

text \<open>
  The loop with this counter and its two \<^verbatim>\<open>break\<close>s; the argument \<open>ls\<close> holds the
  scalars and the object at the loop test. It need not return: with \<open>maxit > 2^23\<close> and
  no residual below the tolerance the counter stays at \<open>2^23\<close> and the test never fails.
\<close>

partial_function (option) pbicgstab_loop_float ::
  "nat \<Rightarrow> call_env \<Rightarrow> WellContributions \<Rightarrow> int \<Rightarrow> real \<Rightarrow> real \<Rightarrow> loop_vars \<times> solver
     \<Rightarrow> (loop_vars \<times> solver) option" where
  "pbicgstab_loop_float block_size E wellContribs maxit' tolerance' norm_0 ls =
     (if it (fst ls) < real_of_int maxit' then
        (let ls1 = first_half block_size E wellContribs ls in
         if norm_v (fst ls1) < tolerance' * norm_0 then Some ls1
         else
           (let ls2 = second_half block_size E wellContribs
                        ((fst ls1)\<lparr>it := float_add_half (it (fst ls1))\<rparr>, snd ls1) in
            if norm_v (fst ls2) < tolerance' * norm_0 then Some ls2
            else pbicgstab_loop_float block_size E wellContribs maxit' tolerance' norm_0
                   ((fst ls2)\<lparr>it := float_add_half (it (fst ls2))\<rparr>, snd ls2)))
      else Some ls)"

text \<open>
  The same loop with a counter that always advances by \<open>0.5\<close>. It always returns, and
  it is the loop above whenever \<open>maxit < 2^23\<close> (lemma \<open>float_loop_agrees\<close> below);
  the properties of the iteration are proved about it.
\<close>

function pbicgstab_loop ::
  "nat \<Rightarrow> call_env \<Rightarrow> WellContributions \<Rightarrow> int \<Rightarrow> real \<Rightarrow> real \<Rightarrow> loop_vars \<times> solver
     \<Rightarrow> loop_vars \<times> solver" where
  "pbicgstab_loop block_size E wellContribs maxit' tolerance' norm_0 ls =
     (if it (fst ls) < real_of_int maxit' then
        (let ls1 = first_half block_size E wellContribs ls in
         if norm_v (fst ls1) < tolerance' * norm_0 then ls1
         else
           (let ls2 = second_half block_size E wellContribs
                        ((fst ls1)\<lparr>it := it (fst ls1) + 1/2\<rparr>, snd ls1) in
            if norm_v (fst ls2) < tolerance' * norm_0 then ls2
            else pbicgstab_loop block_size E wellContribs maxit' tolerance' norm_0
                   ((fst ls2)\<lparr>it := it (fst ls2) + 1/2\<rparr>, snd ls2)))
      else ls)"
  by pat_completeness auto
termination
proof (relation "measure (\<lambda>(bs, E, W, m, tol, n0, ls). nat \<lceil>real_of_int m - it (fst ls)\<rceil>)",
    goal_cases)
  case 1
  show ?case by simp
next
  case (2 bs E W m tol n0 ls x xa)
  have step: "it (fst xa) + 1/2 = it (fst ls) + 1"
    using 2 by simp
  have pos: "0 < real_of_int m - it (fst ls)"
    using 2 by simp
  have "\<lceil>real_of_int m - (it (fst ls) + 1)\<rceil> = \<lceil>real_of_int m - it (fst ls)\<rceil> - 1"
    by (simp add: diff_diff_eq [symmetric])
  moreover have "0 < \<lceil>real_of_int m - it (fst ls)\<rceil>"
    using pos by simp
  ultimately show ?case
    using step by simp
qed

declare pbicgstab_loop.simps [simp del]

text \<open>The fills and copies that set the initial values, as enqueued.\<close>

definition pbicgstab_init :: "solver \<Rightarrow> solver" where
  "pbicgstab_init s =
     (let s1 = enqueueFillBuffer D_p s;
          s2 = enqueueFillBuffer D_v s1;
          s3 = enqueueCopyBuffer D_b D_r s2;
          s4 = enqueueCopyBuffer D_r D_rw s3
      in enqueueCopyBuffer D_r D_p s4)"

text \<open>
  \<^verbatim>\<open>gpu_pbicgstab\<close>: the object afterwards, and either what was thrown or the result
  record written. The loop is the one whose counter always advances, which is the loop of
  the source for \<open>maxit < 2^23\<close>. The device calls (the enqueued fills and copies,
  \<^verbatim>\<open>WaitForEvents\<close>, the kernels, \<^verbatim>\<open>prec->apply\<close> and the well apply) are taken to
  succeed; what \<^verbatim>\<open>solve_system\<close> does when one of them throws a \<^verbatim>\<open>cl::Error\<close> is
  covered by \<open>solve_system_with\<close> below. In
  \<^verbatim>\<open>std::min(it, (float)maxit)\<close> the conversion is exact for \<open>|maxit| \<le> 2^24\<close>.
\<close>

definition gpu_pbicgstab ::
  "nat \<Rightarrow> call_env \<Rightarrow> WellContributions \<Rightarrow> solver \<Rightarrow> solver \<times> (thrown + BdaResult)" where
  "gpu_pbicgstab block_size E wellContribs s =
     (let s1 = pbicgstab_init (log_event Ev_gpu_pbicgstab s)
      in if err s1 \<noteq> 0 then
           (s1, Inl (Thrown_logic ''openclSolverBackend OpenCL enqueue[Fill|Copy]Buffer error''))
         else
           (let (norm_0, s2) = kernel_norm D_r s1;
                (l, s3) = pbicgstab_loop block_size E wellContribs (maxit s2) (tolerance s2) norm_0
                            (\<lparr>it = 1/2, rho = 1, alpha = 1, omega = 1, norm_v = norm_0\<rparr>, s2)
            in (s3,
                Inr \<lparr>iterations = min (it l) (real_of_int (maxit s3)),
                     reduction = norm_v l / norm_0,
                     conv_rate = (norm_v l / norm_0) powr (1 / it l),
                     converged = (it l \<noteq> real_of_int (maxit s3) + 1/2)\<rparr>)))"

text \<open>
  The two-argument overload \<^verbatim>\<open>solve_system(wellContribs, res)\<close>: the loop inside a
  \<^verbatim>\<open>try\<close> whose handlers rethrow, a \<^verbatim>\<open>cl::Error\<close> with the message built here.
  \<open>res\<close> is the caller's record, kept when nothing is written.
\<close>

definition solve_system_error_message :: "(int \<Rightarrow> string) \<Rightarrow> cl_Error \<Rightarrow> string" where
  "solve_system_error_message getErrorString' e =
     ''openclSolverBackend::solve_system error: '' @ cl_what e @ ''('' @ show_int (cl_err e)
       @ '')'' @ [CHR 0x0A] @ getErrorString' (cl_err e)"

definition solve_system2 ::
  "nat \<Rightarrow> call_env \<Rightarrow> WellContributions \<Rightarrow> BdaResult \<Rightarrow> solver
     \<Rightarrow> solver \<times> BdaResult \<times> exn option" where
  "solve_system2 block_size E wellContribs res s =
     (case gpu_pbicgstab block_size E wellContribs s of
        (s1, Inl (Thrown_cl e)) \<Rightarrow>
          (s1, res, Some (Logic_error (solve_system_error_message (getErrorString E) e)))
      | (s1, Inl (Thrown_logic m)) \<Rightarrow> (s1, res, Some (Logic_error m))
      | (s1, Inr res1) \<Rightarrow> (s1, res1, None))"

datatype SolverStatus =
    BDA_SOLVER_SUCCESS
  | BDA_SOLVER_ANALYSIS_FAILED
  | BDA_SOLVER_CREATE_PRECONDITIONER_FAILED

text \<open>What a call of the nine-argument \<^verbatim>\<open>solve_system\<close> leaves behind.\<close>

record outcome =
  obj :: solver
  wells :: WellContributions
  result :: BdaResult
  returned :: "exn + SolverStatus"

definition solve_system ::
  "nat \<Rightarrow> call_env \<Rightarrow> int \<Rightarrow> int \<Rightarrow> int \<Rightarrow> real list \<Rightarrow> int list \<Rightarrow> int list \<Rightarrow> vec
     \<Rightarrow> WellContributions \<Rightarrow> BdaResult \<Rightarrow> solver \<Rightarrow> outcome" where
  "solve_system block_size E N' nnz' dim' vals rows cols b wellContribs res s =
     (if initialized s = False then
        (case initialize block_size E N' nnz' dim' vals rows cols s of
           (s1, Some e) \<Rightarrow> \<lparr>obj = s1, wells = wellContribs, result = res, returned = Inl e\<rparr>
         | (s1, None) \<Rightarrow>
             (let (ok, s2) = (if analysis_done s1 = False then analyze_matrix E s1
                              else (True, s1))
              in if \<not> ok then
                   \<lparr>obj = s2, wells = wellContribs, result = res,
                    returned = Inr BDA_SOLVER_ANALYSIS_FAILED\<rparr>
                 else
                   (let (s3, wc1) = update_system block_size vals b wellContribs s2;
                        (ok2, s4) = create_preconditioner E s3
                    in if \<not> ok2 then
                         \<lparr>obj = s4, wells = wc1, result = res,
                          returned = Inr BDA_SOLVER_CREATE_PRECONDITIONER_FAILED\<rparr>
                       else
                         (case copy_system_to_gpu E s4 of
                            (s5, Some e) \<Rightarrow>
                              \<lparr>obj = s5, wells = wc1, result = res, returned = Inl e\<rparr>
                          | (s5, None) \<Rightarrow>
                              (case solve_system2 block_size E wc1 res s5 of
                                 (s6, res1, Some e) \<Rightarrow>
                                   \<lparr>obj = s6, wells = wc1, result = res1, returned = Inl e\<rparr>
                               | (s6, res1, None) \<Rightarrow>
                                   \<lparr>obj = s6, wells = wc1, result = res1,
                                    returned = Inr BDA_SOLVER_SUCCESS\<rparr>)))))
      else
        (let (s3, wc1) = update_system block_size vals b wellContribs s;
             (ok2, s4) = create_preconditioner E s3
         in if \<not> ok2 then
              \<lparr>obj = s4, wells = wc1, result = res,
               returned = Inr BDA_SOLVER_CREATE_PRECONDITIONER_FAILED\<rparr>
            else
              (case update_system_on_gpu E s4 of
                 (s5, Some e) \<Rightarrow> \<lparr>obj = s5, wells = wc1, result = res, returned = Inl e\<rparr>
               | (s5, None) \<Rightarrow>
                   (case solve_system2 block_size E wc1 res s5 of
                      (s6, res1, Some e) \<Rightarrow>
                        \<lparr>obj = s6, wells = wc1, result = res1, returned = Inl e\<rparr>
                    | (s6, res1, None) \<Rightarrow>
                        \<lparr>obj = s6, wells = wc1, result = res1,
                         returned = Inr BDA_SOLVER_SUCCESS\<rparr>))))"



text \<open>
  \<^verbatim>\<open>get_result\<close>: \<^verbatim>\<open>enqueueReadBuffer\<close> copies the \<open>N\<close> entries of \<^verbatim>\<open>d_x\<close> into
  the host array it is given; \<open>x\<close> is the caller's array before the call. The new
  contents of \<open>x\<close> and the object are returned.
\<close>

definition enqueueReadBuffer :: "buf \<Rightarrow> vec \<Rightarrow> solver \<Rightarrow> vec" where
  "enqueueReadBuffer b host s = take (nat (N s)) (d_vec s b) @ drop (nat (N s)) host"

definition get_result :: "nat \<Rightarrow> vec \<Rightarrow> solver \<Rightarrow> vec \<times> solver" where
  "get_result block_size x s =
     (if opencl_ilu_reorder s \<noteq> NONE then
        (let s1 = s\<lparr>rb := enqueueReadBuffer D_x (rb s) s\<rparr>
         in (reorderBlockedVectorByPattern block_size (mat_Nb (mat s1)) (rb s1) (toOrder s1) x,
             s1))
      else (enqueueReadBuffer D_x x s, s))"

subsection \<open>Observations on a run\<close>

text \<open>
  Predicates on the event log, the stages of a call, and the parts of the object that the
  properties below speak about.
\<close>

primrec wells_after :: "event \<Rightarrow> event list \<Rightarrow> bool" where
  "wells_after prev [] = True"
| "wells_after prev (e # es) =
     ((case e of Ev_well_apply x y \<Rightarrow> prev = Ev_spmv x y | _ \<Rightarrow> True) \<and> wells_after e es)"

definition wells_only_after_spmv :: "event list \<Rightarrow> bool" where
  "wells_only_after_spmv es = wells_after Ev_gpu_pbicgstab es"

primrec spmv_followed_by_wells :: "event list \<Rightarrow> bool" where
  "spmv_followed_by_wells [] = True"
| "spmv_followed_by_wells (e # es) =
     ((case e of
         Ev_spmv x y \<Rightarrow> (case es of [] \<Rightarrow> False | e' # _ \<Rightarrow> e' = Ev_well_apply x y)
       | _ \<Rightarrow> True)
      \<and> spmv_followed_by_wells es)"

definition first_half_events :: "bool \<Rightarrow> bool \<Rightarrow> event list" where
  "first_half_events recombine has_wells =
     [Ev_dot D_rw D_r] @ (if recombine then [Ev_custom D_p D_v D_r] else [])
     @ [Ev_prec_apply D_p D_pw, Ev_spmv D_pw D_v]
     @ (if has_wells then [Ev_well_apply D_pw D_v] else [])
     @ [Ev_dot D_rw D_v, Ev_axpy D_v D_r, Ev_axpy D_pw D_x, Ev_norm D_r]"

definition second_half_events :: "bool \<Rightarrow> event list" where
  "second_half_events has_wells =
     [Ev_prec_apply D_r D_s, Ev_spmv D_s D_t]
     @ (if has_wells then [Ev_well_apply D_s D_t] else [])
     @ [Ev_dot D_t D_r, Ev_dot D_t D_t, Ev_axpy D_s D_x, Ev_axpy D_t D_r, Ev_norm D_r]"

text \<open>The events a run of the loop adds: whole half-step chunks.\<close>

definition loop_events_ok :: "bool \<Rightarrow> event list \<Rightarrow> bool" where
  "loop_events_ok w evs \<longleftrightarrow>
     (\<forall>prev. wells_after prev evs) \<and> (w \<longrightarrow> spmv_followed_by_wells evs)
     \<and> (\<not> w \<longrightarrow> (\<forall>x y. Ev_well_apply x y \<notin> set evs))
     \<and> set evs \<subseteq> set (first_half_events True True @ second_half_events True)"

definition host_part :: "solver \<Rightarrow> solver" where
  "host_part s = s\<lparr>d_vec := (\<lambda>_. []), trace := []\<rparr>"

definition loop_start :: "solver \<Rightarrow> loop_vars \<times> solver" where
  "loop_start s =
     (let (norm_0, s2) = kernel_norm D_r (pbicgstab_init (log_event Ev_gpu_pbicgstab s))
      in (\<lparr>it = 1/2, rho = 1, alpha = 1, omega = 1, norm_v = norm_0\<rparr>, s2))"

definition loop_end :: "nat \<Rightarrow> call_env \<Rightarrow> WellContributions \<Rightarrow> solver \<Rightarrow> loop_vars \<times> solver" where
  "loop_end bs E W s =
     pbicgstab_loop bs E W (maxit s) (tolerance s) (norm_v (fst (loop_start s))) (loop_start s)"

definition init_events :: "event list" where
  "init_events =
     [Ev_gpu_pbicgstab, Ev_fill D_p, Ev_fill D_v, Ev_copy D_b D_r, Ev_copy D_r D_rw,
      Ev_copy D_r D_p, Ev_norm D_r]"

definition before_update ::
  "nat \<Rightarrow> call_env \<Rightarrow> int \<Rightarrow> int \<Rightarrow> int \<Rightarrow> real list \<Rightarrow> int list \<Rightarrow> int list \<Rightarrow> solver
     \<Rightarrow> solver" where
  "before_update bs E N' nnz' dim' vals rows cols s =
     (if initialized s = False then
        (let s1 = fst (initialize bs E N' nnz' dim' vals rows cols s)
         in if analysis_done s1 = False then snd (analyze_matrix E s1) else s1)
      else s)"

definition solve_wells ::
  "nat \<Rightarrow> call_env \<Rightarrow> int \<Rightarrow> int \<Rightarrow> int \<Rightarrow> real list \<Rightarrow> int list \<Rightarrow> int list \<Rightarrow> vec
     \<Rightarrow> WellContributions \<Rightarrow> solver \<Rightarrow> WellContributions" where
  "solve_wells bs E N' nnz' dim' vals rows cols b wc s =
     snd (update_system bs vals b wc (before_update bs E N' nnz' dim' vals rows cols s))"

definition before_upload ::
  "nat \<Rightarrow> call_env \<Rightarrow> int \<Rightarrow> int \<Rightarrow> int \<Rightarrow> real list \<Rightarrow> int list \<Rightarrow> int list \<Rightarrow> vec
     \<Rightarrow> WellContributions \<Rightarrow> solver \<Rightarrow> solver" where
  "before_upload bs E N' nnz' dim' vals rows cols b wc s =
     snd (create_preconditioner E
       (fst (update_system bs vals b wc (before_update bs E N' nnz' dim' vals rows cols s))))"

definition solve_input ::
  "nat \<Rightarrow> call_env \<Rightarrow> int \<Rightarrow> int \<Rightarrow> int \<Rightarrow> real list \<Rightarrow> int list \<Rightarrow> int list \<Rightarrow> vec
     \<Rightarrow> WellContributions \<Rightarrow> solver \<Rightarrow> solver" where
  "solve_input bs E N' nnz' dim' vals rows cols b wc s =
     fst ((if initialized s = False then copy_system_to_gpu else update_system_on_gpu) E
            (before_upload bs E N' nnz' dim' vals rows cols b wc s))"

definition reaches_solve :: "call_env \<Rightarrow> solver \<Rightarrow> bool" where
  "reaches_solve E s \<longleftrightarrow>
     (initialized s \<or> (buffer_create E = None \<and> (analysis_done s \<or> prec_analyze_matrix E)))
     \<and> prec_create_preconditioner E \<and> enqueue_err E = 0"

definition new_events :: "solver \<Rightarrow> solver \<Rightarrow> event list" where
  "new_events s s' = drop (length (trace s)) (trace s')"

definition prefix_events :: "solver \<Rightarrow> event list" where
  "prefix_events s =
     (if initialized s then []
      else Ev_initialize # (if analysis_done s then [] else [Ev_analyze_matrix]))"

definition ready :: "call_env \<Rightarrow> solver \<Rightarrow> bool" where
  "ready E s \<longleftrightarrow>
     initialized s \<or> (buffer_create E = None \<and> (analysis_done s \<or> prec_analyze_matrix E))"

definition upload_events :: "solver \<Rightarrow> event list" where
  "upload_events s =
     prefix_events s @ [Ev_update_system, Ev_create_preconditioner,
       if initialized s then Ev_update_system_on_gpu else Ev_copy_system_to_gpu, Ev_fill D_x]"

text \<open>The arguments of one call of \<^verbatim>\<open>solve_system\<close>, and calls made one after another on
  the same object.\<close>

record call_args =
  a_env :: call_env
  a_N :: int
  a_nnz :: int
  a_dim :: int
  a_vals :: "real list"
  a_rows :: "int list"
  a_cols :: "int list"
  a_b :: vec
  a_wells :: WellContributions
  a_res :: BdaResult

definition solve_call :: "nat \<Rightarrow> call_args \<Rightarrow> solver \<Rightarrow> outcome" where
  "solve_call bs a s =
     solve_system bs (a_env a) (a_N a) (a_nnz a) (a_dim a) (a_vals a) (a_rows a) (a_cols a)
       (a_b a) (a_wells a) (a_res a) s"

fun solve_calls :: "nat \<Rightarrow> call_args list \<Rightarrow> solver \<Rightarrow> solver" where
  "solve_calls bs [] s = s"
| "solve_calls bs (a # as) s = solve_calls bs as (obj (solve_call bs a s))"

definition config :: "solver \<Rightarrow> int \<times> real \<times> ILUReorder" where
  "config s = (maxit s, tolerance s, opencl_ilu_reorder s)"

subsection \<open>The recurrence of the specification\<close>

text \<open>
  The recurrence as the specification writes it, on vectors with their algebra: inner
  product \<open><a,b>\<close>, Euclidean norm, sum, difference and scaling.
\<close>

definition inner_prod :: "vec \<Rightarrow> vec \<Rightarrow> real" where
  "inner_prod a b = (\<Sum>(x, y)\<leftarrow>zip a b. x * y)"

definition vnorm :: "vec \<Rightarrow> real" where
  "vnorm a = sqrt (inner_prod a a)"

definition vadd :: "vec \<Rightarrow> vec \<Rightarrow> vec" where
  "vadd a b = map (\<lambda>(x, y). x + y) (zip a b)"

definition vsub :: "vec \<Rightarrow> vec \<Rightarrow> vec" where
  "vsub a b = map (\<lambda>(x, y). x - y) (zip a b)"

definition smult :: "real \<Rightarrow> vec \<Rightarrow> vec" where
  "smult c a = map (\<lambda>x. c * x) a"

text \<open>
  The three operators of the specification's loop: the matrix product \<open>A\<cdot>\<close>,
  \<open>Precond.apply\<close>, and the accumulation \<open>v += WellContributions.apply(pw)\<close>, which
  takes \<open>pw\<close> and \<open>v\<close> and gives the new \<open>v\<close>.
\<close>

record spec_ops =
  op_A :: "vec \<Rightarrow> vec"
  op_M :: "vec \<Rightarrow> vec"
  op_W :: "vec \<Rightarrow> vec \<Rightarrow> vec"

record spec_state =
  sp_x :: vec
  sp_r :: vec
  sp_rw :: vec
  sp_p :: vec
  sp_v :: vec
  sp_rho :: real
  sp_alpha :: real
  sp_omega :: real
  sp_norm :: real
  sp_it :: real

text \<open>
  \<open>rho_prev = rho; rho = <rw, r>; if it > 1: beta = (rho/rho_prev)*(alpha/omega);
  p = r + beta*(p - omega*v); pw = Precond.apply(p); v = A\<cdot>pw; v += WellContributions.apply(pw);
  alpha = rho / <rw, v>; r -= alpha*v; x += alpha*pw; norm = ||r||\<close>
\<close>

definition spec_first_half :: "spec_ops \<Rightarrow> spec_state \<Rightarrow> spec_state" where
  "spec_first_half P st =
     (let rho_prev = sp_rho st;
          rho' = inner_prod (sp_rw st) (sp_r st);
          p = (if sp_it st > 1
               then vadd (sp_r st)
                      (smult ((rho' / rho_prev) * (sp_alpha st / sp_omega st))
                         (vsub (sp_p st) (smult (sp_omega st) (sp_v st))))
               else sp_p st);
          pw = op_M P p;
          v = op_W P pw (op_A P pw);
          alpha' = rho' / inner_prod (sp_rw st) v;
          r = vsub (sp_r st) (smult alpha' v);
          x = vadd (sp_x st) (smult alpha' pw)
      in st\<lparr>sp_x := x, sp_r := r, sp_p := p, sp_v := v, sp_rho := rho', sp_alpha := alpha',
             sp_norm := vnorm r\<rparr>)"

text \<open>
  \<open>s = Precond.apply(r); t = A\<cdot>s; t += WellContributions.apply(s);
  omega = <t,r> / <t,t>; x += omega*s; r -= omega*t; norm = ||r||\<close>
\<close>

definition spec_second_half :: "spec_ops \<Rightarrow> spec_state \<Rightarrow> spec_state" where
  "spec_second_half P st =
     (let s = op_M P (sp_r st);
          t = op_W P s (op_A P s);
          omega' = inner_prod t (sp_r st) / inner_prod t t;
          x = vadd (sp_x st) (smult omega' s);
          r = vsub (sp_r st) (smult omega' t)
      in st\<lparr>sp_x := x, sp_r := r, sp_omega := omega', sp_norm := vnorm r\<rparr>)"

text \<open>
  \<open>repeat until it >= maxit\<close>, stopping after either half-step when
  \<open>norm < tol*norm0\<close>; each half-step counts 0.5.
\<close>

function spec_loop :: "spec_ops \<Rightarrow> int \<Rightarrow> real \<Rightarrow> real \<Rightarrow> spec_state \<Rightarrow> spec_state" where
  "spec_loop P maxit' tol norm0 st =
     (if sp_it st \<ge> real_of_int maxit' then st
      else
        (let st1 = spec_first_half P st in
         if sp_norm st1 < tol * norm0 then st1
         else
           (let st2 = spec_second_half P (st1\<lparr>sp_it := sp_it st1 + 1/2\<rparr>) in
            if sp_norm st2 < tol * norm0 then st2
            else spec_loop P maxit' tol norm0 (st2\<lparr>sp_it := sp_it st2 + 1/2\<rparr>))))"
  by pat_completeness auto
termination
proof (relation "measure (\<lambda>(P, m, tol, n0, st). nat \<lceil>real_of_int m - sp_it st\<rceil>)", goal_cases)
  case 1
  show ?case by simp
next
  case (2 P m tol n0 st x xa)
  have step: "sp_it xa + 1/2 = sp_it st + 1"
    using 2 by (simp add: spec_second_half_def spec_first_half_def Let_def)
  have pos: "0 < real_of_int m - sp_it st"
    using 2 by simp
  have "\<lceil>real_of_int m - (sp_it st + 1)\<rceil> = \<lceil>real_of_int m - sp_it st\<rceil> - 1"
    by (simp add: diff_diff_eq [symmetric])
  moreover have "0 < \<lceil>real_of_int m - sp_it st\<rceil>"
    using pos by simp
  ultimately show ?case
    using step by simp
qed

text \<open>
  \<open>r = b - A\<cdot>x\<close> with \<open>x\<close> initialized to 0, that is \<open>r = b\<close>;
  \<open>rw = r; p = r; rho = alpha = omega = 1; norm0 = ||r||\<close>. The first half-step is
  number 0.5.
\<close>

definition spec_bicgstab :: "spec_ops \<Rightarrow> int \<Rightarrow> real \<Rightarrow> vec \<Rightarrow> spec_state" where
  "spec_bicgstab P maxit' tol b =
     spec_loop P maxit' tol (vnorm b)
       \<lparr>sp_x = replicate (length b) 0, sp_r = b, sp_rw = b, sp_p = b,
        sp_v = replicate (length b) 0, sp_rho = 1, sp_alpha = 1, sp_omega = 1,
        sp_norm = vnorm b, sp_it = 1/2\<rparr>"

text \<open>The operators of a run of the code, and what the specification sees of its state.\<close>

definition spec_ops_of :: "nat \<Rightarrow> call_env \<Rightarrow> WellContributions \<Rightarrow> solver \<Rightarrow> spec_ops" where
  "spec_ops_of bs E W s =
     \<lparr>op_A = (\<lambda>v. spmv E (d_Avals s) (d_Acols s) (d_Arows s) v (Nb s) bs),
      op_M = prec_apply E,
      op_W = (\<lambda>x y. wc_apply W x y (d_toOrder s))\<rparr>"

definition abstraction :: "loop_vars \<times> solver \<Rightarrow> spec_state" where
  "abstraction ls =
     \<lparr>sp_x = d_vec (snd ls) D_x, sp_r = d_vec (snd ls) D_r, sp_rw = d_vec (snd ls) D_rw,
      sp_p = d_vec (snd ls) D_p, sp_v = d_vec (snd ls) D_v, sp_rho = rho (fst ls),
      sp_alpha = alpha (fst ls), sp_omega = omega (fst ls), sp_norm = norm_v (fst ls),
      sp_it = it (fst ls)\<rparr>"

text \<open>The operators keep the length \<open>n\<close> of the vectors.\<close>

definition ops_wf :: "nat \<Rightarrow> spec_ops \<Rightarrow> bool" where
  "ops_wf n P \<longleftrightarrow>
     (\<forall>v. length v = n \<longrightarrow> length (op_A P v) = n \<and> length (op_M P v) = n)
     \<and> (\<forall>x y. length x = n \<longrightarrow> length y = n \<longrightarrow> length (op_W P x y) = n)"

definition loop_wf :: "nat \<Rightarrow> loop_vars \<times> solver \<Rightarrow> bool" where
  "loop_wf n ls \<longleftrightarrow>
     N (snd ls) = int n \<and> length (d_vec (snd ls) D_x) = n \<and> length (d_vec (snd ls) D_r) = n
     \<and> length (d_vec (snd ls) D_rw) = n \<and> length (d_vec (snd ls) D_p) = n
     \<and> length (d_vec (snd ls) D_v) = n"

subsection \<open>Concrete inputs\<close>

text \<open>An installation with one platform that has one device, and a quiet error printer.\<close>

definition example_device :: cl_Device where
  "example_device = \<lparr>dev_name = ''gpu0'', dev_getInfo = None\<rparr>"

definition example_platform :: cl_Platform where
  "example_platform =
     \<lparr>plat_name = ''ocl'', plat_getInfo = None, plat_getDevices = Inr [example_device]\<rparr>"

definition example_world :: cl_World where
  "example_world =
     \<lparr>platform_get = Inr [example_platform], context_create = (\<lambda>_. None),
      queue_create = (\<lambda>_. None), kernels_init = (\<lambda>_. None),
      clGetDeviceInfo = (\<lambda>d p size. (0, 65536)), size_uninitialized = (\<lambda>i. 3221225472)\<rparr>"

definition example_getErrorString :: "int \<Rightarrow> string" where
  "example_getErrorString c = (if c = -1001 then ''CL_PLATFORM_NOT_FOUND_KHR'' else ''UNKNOWN'')"

definition example_env :: call_env where
  "example_env =
     \<lparr>fresh_vec = (\<lambda>_. [0]), fresh_Avals = [0], fresh_Acols = [0], fresh_Arows = [0, 0],
      fresh_toOrder = [0], fresh_rb = [0], buffer_create = None, prec_analyze_matrix = True,
      prec_getToOrder = [0], prec_getFromOrder = [0], prec_getRMat = null_matrix,
      prec_create_preconditioner = True, enqueue_err = 0, prec_apply = (\<lambda>v. v),
      spmv = (\<lambda>vals cols rows x nb bsz. map (\<lambda>xi. vals ! 0 * xi) x),
      getErrorString = example_getErrorString\<rparr>"

definition example_wells :: WellContributions where
  "example_wells =
     \<lparr>getNumWells = 0, wc_reorder = False, wc_toOrder = [], wc_apply = (\<lambda>x y ord. y)\<rparr>"

definition example_res :: BdaResult where
  "example_res = \<lparr>iterations = 0, reduction = 0, conv_rate = 0, converged = False\<rparr>"

definition example_solver :: "int \<Rightarrow> solver" where
  "example_solver m =
     \<lparr>verbosity = 0, maxit = m, tolerance = 1/100, platformID = 0, deviceID = 0,
      opencl_ilu_reorder = NONE, prec = Some BILU0, devices = [example_device],
      initialized = False, analysis_done = False, N = 0, Nb = 0, nnz = 0, nnzb = 0,
      mat = null_matrix, rmat = Rmat_null, rb = [], toOrder = [], fromOrder = [],
      d_vec = (\<lambda>_. []), d_Avals = [], d_Acols = [], d_Arows = [], d_toOrder = [], err = 0,
      trace = []\<rparr>"

definition example_call :: "call_env \<Rightarrow> vec \<Rightarrow> call_args" where
  "example_call E b =
     \<lparr>a_env = E, a_N = 1, a_nnz = 1, a_dim = 1, a_vals = [2], a_rows = [0, 1], a_cols = [0],
      a_b = b, a_wells = example_wells, a_res = example_res\<rparr>"

definition example_uploaded :: "int \<Rightarrow> vec \<Rightarrow> solver" where
  "example_uploaded m b =
     (example_solver m)\<lparr>initialized := True, analysis_done := True, N := 1, Nb := 1, nnz := 1,
       nnzb := 1, d_vec := (\<lambda>_. [0])(D_b := b), d_Avals := [2], d_Acols := [0],
       d_Arows := [0, 1]\<rparr>"

definition example_wells1 :: WellContributions where
  "example_wells1 =
     \<lparr>getNumWells = 1, wc_reorder = False, wc_toOrder = [],
      wc_apply = (\<lambda>x y ord. map (\<lambda>(xi, yi). yi + 3 * xi) (zip x y))\<rparr>"

definition example_reordered :: solver where
  "example_reordered =
     (example_solver 10)\<lparr>opencl_ilu_reorder := LEVEL_SCHEDULING, initialized := True,
       analysis_done := True, N := 2, Nb := 2,
       mat := \<lparr>mat_Nb = 2, mat_nnzbs = 2, mat_block_size = 1, nnzValues = [2, 4],
               colIndices = [0, 1], rowPointers = [0, 1, 2]\<rparr>,
       rb := [0, 0], toOrder := [1, 0], fromOrder := [1, 0],
       d_vec := (\<lambda>_. [0, 0])(D_x := [7, 5])\<rparr>"

text \<open>
  A system of two unknowns with a well: the scalar CSR product for the matrix
  \<open>(1 2; 4 1)\<close>, and one well that adds \<open>3 x\<close>.
\<close>

definition example_spmv :: "real list \<Rightarrow> int list \<Rightarrow> int list \<Rightarrow> vec \<Rightarrow> int \<Rightarrow> nat \<Rightarrow> vec" where
  "example_spmv vals cols rows x nb bsz =
     map (\<lambda>i. \<Sum>k\<leftarrow>[nat (rows ! i)..<nat (rows ! (i + 1))]. vals ! k * x ! nat (cols ! k))
       [0..<nat nb]"

definition example_env2 :: call_env where
  "example_env2 = example_env\<lparr>spmv := example_spmv\<rparr>"

definition example_uploaded2 :: solver where
  "example_uploaded2 =
     (example_solver 5)\<lparr>initialized := True, analysis_done := True, N := 2, Nb := 2, nnz := 4,
       nnzb := 4, d_vec := (\<lambda>_. [0, 0])(D_b := [1, 0]), d_Avals := [1, 2, 4, 1],
       d_Acols := [0, 1, 0, 1], d_Arows := [0, 2, 4]\<rparr>"

section \<open>Properties\<close>

subsection \<open>The constructor\<close>

lemma select_linsolver_accepts:
  "\<not> isl (select_linsolver l) \<longleftrightarrow> l \<in> {''ilu0'', ''cpr_quasiimpes'', ''isai''}"
  by (simp add: select_linsolver_def)

lemma fst_opencl_setup: "\<exists>evs. fst (opencl_setup W v pid did) = Ev_platform_get # evs"
  by (simp add: opencl_setup_def Let_def split: sum.splits option.splits)

lemma ctor_trueimpes:
  "openclSolverBackend g W v m tol pid did ro ''cpr_trueimpes'' =
     ([], Inl (Logic_error ''Error openclSolver does not support --linsolver=cpr_trueimpes''))"
  by (simp add: openclSolverBackend_def select_linsolver_def)

lemma ctor_unknown:
  "l \<notin> {''ilu0'', ''cpr_quasiimpes'', ''isai'', ''cpr_trueimpes''} \<Longrightarrow>
   openclSolverBackend g W v m tol pid did ro l =
     ([], Inl (Logic_error (''Error unknown value for argument --linsolver, '' @ l)))"
  by (simp add: openclSolverBackend_def select_linsolver_def)

lemma ctor_accepted:
  assumes "select_linsolver l = Inr u"
  shows "\<exists>evs. fst (openclSolverBackend g W v m tol pid did ro l)
                 = Ev_prec_create (select_preconditioner u) # Ev_platform_get # evs"
proof -
  obtain evs where e: "fst (opencl_setup W v pid did) = Ev_platform_get # evs"
    using fst_opencl_setup by blast
  show ?thesis
    using assms e
    by (cases "opencl_setup W v pid did")
       (simp add: openclSolverBackend_def Let_def split: sum.splits)
qed

lemma select_ilu0: "select_linsolver ''ilu0'' = Inr (False, False)"
  by (simp add: select_linsolver_def)

lemma select_cpr: "select_linsolver ''cpr_quasiimpes'' = Inr (True, False)"
  by (simp add: select_linsolver_def)

lemma select_isai: "select_linsolver ''isai'' = Inr (False, True)"
  by (simp add: select_linsolver_def)

text \<open>
  C3. Constructing with \<open>linsolver = "cpr_trueimpes"\<close> always throws the same error, and
  nothing has been called by then: no preconditioner is created and no OpenCL platform
  is enumerated (the list of calls is empty). A string outside the four known values is
  rejected the same way, with a message that ends in the offending value. Exactly
  \<open>"ilu0"\<close>, \<open>"cpr_quasiimpes"\<close> and \<open>"isai"\<close> pass the test; for them the
  constructor goes on to create the BILU0, CPR or BISAI preconditioner and to enumerate
  the platforms.
\<close>

theorem linsolver_selection:
  "openclSolverBackend g W v m tol pid did ro ''cpr_trueimpes'' =
     ([], Inl (Logic_error ''Error openclSolver does not support --linsolver=cpr_trueimpes''))
   \<and> (l \<notin> {''ilu0'', ''cpr_quasiimpes'', ''isai'', ''cpr_trueimpes''} \<longrightarrow>
        openclSolverBackend g W v m tol pid did ro l =
          ([], Inl (Logic_error (''Error unknown value for argument --linsolver, '' @ l))))
   \<and> (\<not> isl (select_linsolver l) \<longleftrightarrow> l \<in> {''ilu0'', ''cpr_quasiimpes'', ''isai''})
   \<and> (\<exists>evs. fst (openclSolverBackend g W v m tol pid did ro ''ilu0'')
                = Ev_prec_create BILU0 # Ev_platform_get # evs)
   \<and> (\<exists>evs. fst (openclSolverBackend g W v m tol pid did ro ''cpr_quasiimpes'')
                = Ev_prec_create CPR # Ev_platform_get # evs)
   \<and> (\<exists>evs. fst (openclSolverBackend g W v m tol pid did ro ''isai'')
                = Ev_prec_create BISAI # Ev_platform_get # evs)"
  using ctor_trueimpes [of g W v m tol pid did ro] ctor_unknown [of l g W v m tol pid did ro]
    select_linsolver_accepts [of l]
    ctor_accepted [OF select_ilu0, of g W v m tol pid did ro]
    ctor_accepted [OF select_cpr, of g W v m tol pid did ro]
    ctor_accepted [OF select_isai, of g W v m tol pid did ro]
  by (simp add: select_preconditioner_def)

theorem linsolver_selection_witness:
  "''amg'' \<notin> {''ilu0'', ''cpr_quasiimpes'', ''isai'', ''cpr_trueimpes''}
   \<and> openclSolverBackend example_getErrorString example_world 0 200 (1/100) 0 0 NONE ''amg'' =
       ([], Inl (Logic_error ''Error unknown value for argument --linsolver, amg''))
   \<and> openclSolverBackend example_getErrorString example_world 0 200 (1/100) 0 0 NONE
         ''cpr_trueimpes'' =
       ([], Inl (Logic_error ''Error openclSolver does not support --linsolver=cpr_trueimpes''))"
  using linsolver_selection [of example_getErrorString example_world 0 200 "1/100" 0 0 NONE "''amg''"]
  by simp



















lemmas kernel_defs = kernel_dot_def kernel_norm_def kernel_axpy_def kernel_custom_def
  kernel_spmv_def prec_apply_buf_def well_apply_def log_event_def

lemma trace_first_half:
  "trace (snd (first_half bs E W ls)) =
     trace (snd ls) @ first_half_events (1 < it (fst ls)) (0 < getNumWells W)"
  by (simp add: first_half_def first_half_events_def kernel_defs Let_def split_def)

lemma trace_second_half:
  "trace (snd (second_half bs E W ls)) = trace (snd ls) @ second_half_events (0 < getNumWells W)"
  by (simp add: second_half_def second_half_events_def kernel_defs Let_def split_def)

lemma wa_first:
  "wells_after prev (first_half_events c w @ es) = wells_after (Ev_norm D_r) es"
  by (simp add: first_half_events_def)

lemma wa_second:
  "wells_after prev (second_half_events w @ es) = wells_after (Ev_norm D_r) es"
  by (simp add: second_half_events_def)

lemma sf_first:
  "spmv_followed_by_wells (first_half_events c True @ es) = spmv_followed_by_wells es"
  by (simp add: first_half_events_def)

lemma sf_second:
  "spmv_followed_by_wells (second_half_events True @ es) = spmv_followed_by_wells es"
  by (simp add: second_half_events_def)

lemma no_wells_first: "Ev_well_apply x y \<notin> set (first_half_events c False)"
  by (simp add: first_half_events_def)

lemma no_wells_second: "Ev_well_apply x y \<notin> set (second_half_events False)"
  by (simp add: second_half_events_def)

lemma loop_events_ok_Nil: "loop_events_ok w []"
  by (simp add: loop_events_ok_def)

lemma first_half_events_subset:
  "set (first_half_events c w) \<subseteq> set (first_half_events True True @ second_half_events True)"
  by (auto simp: first_half_events_def second_half_events_def)

lemma second_half_events_subset:
  "set (second_half_events w) \<subseteq> set (first_half_events True True @ second_half_events True)"
  by (auto simp: first_half_events_def second_half_events_def)

lemma loop_events_ok_first:
  "loop_events_ok w evs \<Longrightarrow> loop_events_ok w (first_half_events c w @ evs)"
  using first_half_events_subset [of c w]
  by (cases w) (simp_all add: loop_events_ok_def wa_first sf_first no_wells_first)

lemma loop_events_ok_second:
  "loop_events_ok w evs \<Longrightarrow> loop_events_ok w (second_half_events w @ evs)"
  using second_half_events_subset [of w]
  by (cases w) (simp_all add: loop_events_ok_def wa_second sf_second no_wells_second)

lemma trace_pbicgstab_loop:
  "\<exists>evs. trace (snd (pbicgstab_loop bs E W m tol n0 ls)) = trace (snd ls) @ evs
         \<and> loop_events_ok (0 < getNumWells W) evs"
proof (induction bs E W m tol n0 ls rule: pbicgstab_loop.induct)
  case (1 bs E W m tol n0 ls)
  let ?w = "0 < getNumWells W"
  let ?ls1 = "first_half bs E W ls"
  let ?ls2 = "second_half bs E W ((fst ?ls1)\<lparr>it := it (fst ?ls1) + 1/2\<rparr>, snd ?ls1)"
  let ?c1 = "first_half_events (1 < it (fst ls)) ?w"
  let ?c2 = "second_half_events ?w"
  have t1: "trace (snd ?ls1) = trace (snd ls) @ ?c1"
    by (rule trace_first_half)
  have t2: "trace (snd ?ls2) = trace (snd ls) @ ?c1 @ ?c2"
    by (simp add: trace_second_half t1)
  show ?case
  proof (cases "it (fst ls) < real_of_int m")
    case False
    then show ?thesis
      by (subst pbicgstab_loop.simps) (simp add: loop_events_ok_Nil)
  next
    case run: True
    show ?thesis
    proof (cases "norm_v (fst ?ls1) < tol * n0")
      case True
      have "loop_events_ok ?w ?c1"
        using loop_events_ok_first [OF loop_events_ok_Nil, of ?w] by simp
      with run True t1 show ?thesis
        by (subst pbicgstab_loop.simps) (simp add: Let_def)
    next
      case nb1: False
      show ?thesis
      proof (cases "norm_v (fst ?ls2) < tol * n0")
        case True
        have "loop_events_ok ?w (?c1 @ ?c2)"
          using loop_events_ok_first [OF loop_events_ok_second [OF loop_events_ok_Nil], of ?w]
          by simp
        with run nb1 True t2 show ?thesis
          by (subst pbicgstab_loop.simps) (simp add: Let_def)
      next
        case nb2: False
        from "1.IH" [OF run refl nb1 refl nb2]
        obtain evs where
          e: "trace (snd (pbicgstab_loop bs E W m tol n0
                 ((fst ?ls2)\<lparr>it := it (fst ?ls2) + 1/2\<rparr>, snd ?ls2))) = trace (snd ?ls2) @ evs"
          and ok: "loop_events_ok ?w evs"
          by auto
        have "loop_events_ok ?w (?c1 @ ?c2 @ evs)"
          using loop_events_ok_first [OF loop_events_ok_second [OF ok]] by simp
        with run nb1 nb2 e t2 show ?thesis
          by (subst pbicgstab_loop.simps) (simp add: Let_def)
      qed
    qed
  qed
qed

lemma host_first_half: "host_part (snd (first_half bs E W ls)) = host_part (snd ls)"
  by (simp add: host_part_def first_half_def kernel_defs Let_def split_def)

lemma host_second_half: "host_part (snd (second_half bs E W ls)) = host_part (snd ls)"
  by (simp add: host_part_def second_half_def kernel_defs Let_def split_def)

lemma host_fields:
  assumes "host_part s' = host_part s"
  shows "maxit s' = maxit s" "tolerance s' = tolerance s" "N s' = N s" "err s' = err s"
    "initialized s' = initialized s" "analysis_done s' = analysis_done s"
    "opencl_ilu_reorder s' = opencl_ilu_reorder s" "Nb s' = Nb s"
    "d_Avals s' = d_Avals s" "d_Acols s' = d_Acols s" "d_Arows s' = d_Arows s"
    "d_toOrder s' = d_toOrder s" "rb s' = rb s" "toOrder s' = toOrder s"
    "fromOrder s' = fromOrder s" "mat s' = mat s" "rmat s' = rmat s"
proof -
  have "maxit (host_part s') = maxit (host_part s)" using assms by simp
  then show "maxit s' = maxit s" by (simp add: host_part_def)
  have "tolerance (host_part s') = tolerance (host_part s)" using assms by simp
  then show "tolerance s' = tolerance s" by (simp add: host_part_def)
  have "N (host_part s') = N (host_part s)" using assms by simp
  then show "N s' = N s" by (simp add: host_part_def)
  have "err (host_part s') = err (host_part s)" using assms by simp
  then show "err s' = err s" by (simp add: host_part_def)
  have "initialized (host_part s') = initialized (host_part s)" using assms by simp
  then show "initialized s' = initialized s" by (simp add: host_part_def)
  have "analysis_done (host_part s') = analysis_done (host_part s)" using assms by simp
  then show "analysis_done s' = analysis_done s" by (simp add: host_part_def)
  have "opencl_ilu_reorder (host_part s') = opencl_ilu_reorder (host_part s)" using assms by simp
  then show "opencl_ilu_reorder s' = opencl_ilu_reorder s" by (simp add: host_part_def)
  have "Nb (host_part s') = Nb (host_part s)" using assms by simp
  then show "Nb s' = Nb s" by (simp add: host_part_def)
  have "d_Avals (host_part s') = d_Avals (host_part s)" using assms by simp
  then show "d_Avals s' = d_Avals s" by (simp add: host_part_def)
  have "d_Acols (host_part s') = d_Acols (host_part s)" using assms by simp
  then show "d_Acols s' = d_Acols s" by (simp add: host_part_def)
  have "d_Arows (host_part s') = d_Arows (host_part s)" using assms by simp
  then show "d_Arows s' = d_Arows s" by (simp add: host_part_def)
  have "d_toOrder (host_part s') = d_toOrder (host_part s)" using assms by simp
  then show "d_toOrder s' = d_toOrder s" by (simp add: host_part_def)
  have "rb (host_part s') = rb (host_part s)" using assms by simp
  then show "rb s' = rb s" by (simp add: host_part_def)
  have "toOrder (host_part s') = toOrder (host_part s)" using assms by simp
  then show "toOrder s' = toOrder s" by (simp add: host_part_def)
  have "fromOrder (host_part s') = fromOrder (host_part s)" using assms by simp
  then show "fromOrder s' = fromOrder s" by (simp add: host_part_def)
  have "mat (host_part s') = mat (host_part s)" using assms by simp
  then show "mat s' = mat s" by (simp add: host_part_def)
  have "rmat (host_part s') = rmat (host_part s)" using assms by simp
  then show "rmat s' = rmat s" by (simp add: host_part_def)
qed

lemma host_pbicgstab_loop:
  "host_part (snd (pbicgstab_loop bs E W m tol n0 ls)) = host_part (snd ls)"
proof (induction bs E W m tol n0 ls rule: pbicgstab_loop.induct)
  case (1 bs E W m tol n0 ls)
  let ?ls1 = "first_half bs E W ls"
  let ?ls2 = "second_half bs E W ((fst ?ls1)\<lparr>it := it (fst ?ls1) + 1/2\<rparr>, snd ?ls1)"
  have h2: "host_part (snd ?ls2) = host_part (snd ls)"
    by (simp add: host_second_half host_first_half)
  show ?case
  proof (cases "it (fst ls) < real_of_int m \<and> \<not> norm_v (fst ?ls1) < tol * n0
                \<and> \<not> norm_v (fst ?ls2) < tol * n0")
    case True
    then have "host_part (snd (pbicgstab_loop bs E W m tol n0
                 ((fst ?ls2)\<lparr>it := it (fst ?ls2) + 1/2\<rparr>, snd ?ls2))) = host_part (snd ?ls2)"
      using "1.IH" [OF _ refl _ refl] by simp
    with True show ?thesis
      by (subst pbicgstab_loop.simps) (simp add: Let_def host_first_half host_second_half)
  next
    case False
    then show ?thesis
      by (subst pbicgstab_loop.simps) (auto simp: Let_def host_first_half host_second_half)
  qed
qed

text \<open>Where the counter stands when the loop is left.\<close>

lemma pbicgstab_loop_counter:
  "it (fst ls) = real_of_int k + 1/2 \<Longrightarrow>
   (it (fst (pbicgstab_loop bs E W m tol n0 ls)) = real_of_int (max k m) + 1/2
      \<and> (if k < m then \<not> norm_v (fst (pbicgstab_loop bs E W m tol n0 ls)) < tol * n0
          else pbicgstab_loop bs E W m tol n0 ls = ls))
   \<or> (k < m \<and> norm_v (fst (pbicgstab_loop bs E W m tol n0 ls)) < tol * n0
      \<and> it (fst ls) \<le> it (fst (pbicgstab_loop bs E W m tol n0 ls))
      \<and> it (fst (pbicgstab_loop bs E W m tol n0 ls)) \<le> real_of_int m)"
proof (induction bs E W m tol n0 ls arbitrary: k rule: pbicgstab_loop.induct)
  case (1 bs E W m tol n0 ls)
  let ?ls1 = "first_half bs E W ls"
  let ?ls2 = "second_half bs E W ((fst ?ls1)\<lparr>it := it (fst ?ls1) + 1/2\<rparr>, snd ?ls1)"
  let ?ls3 = "((fst ?ls2)\<lparr>it := it (fst ?ls2) + 1/2\<rparr>, snd ?ls2)"
  have km: "it (fst ls) < real_of_int m \<longleftrightarrow> k < m"
    using "1.prems" by (simp add: of_int_less_iff [symmetric] del: of_int_less_iff) linarith
  show ?case
  proof (cases "k < m")
    case False
    then have "pbicgstab_loop bs E W m tol n0 ls = ls"
      using km by (subst pbicgstab_loop.simps) simp
    with False "1.prems" show ?thesis
      by (simp add: max_def)
  next
    case run: True
    then have run': "it (fst ls) < real_of_int m" using km by simp
    show ?thesis
    proof (cases "norm_v (fst ?ls1) < tol * n0")
      case True
      then have r: "pbicgstab_loop bs E W m tol n0 ls = ?ls1"
        using run' by (subst pbicgstab_loop.simps) (simp add: Let_def)
      show ?thesis
        using True run run' by (simp add: r)
    next
      case nb1: False
      have it2: "it (fst ?ls2) = real_of_int k + 1"
        using "1.prems" by simp
      show ?thesis
      proof (cases "norm_v (fst ?ls2) < tol * n0")
        case True
        then have r: "pbicgstab_loop bs E W m tol n0 ls = ?ls2"
          using run' nb1 by (subst pbicgstab_loop.simps) (simp add: Let_def)
        have "real_of_int k + 1 \<le> real_of_int m"
          using run by (metis of_int_1 of_int_add of_int_le_iff zless_imp_add1_zle)
        then show ?thesis
          using True run it2 "1.prems" by (simp add: r)
      next
        case nb2: False
        have r: "pbicgstab_loop bs E W m tol n0 ls = pbicgstab_loop bs E W m tol n0 ?ls3"
          using run' nb1 nb2 by (subst pbicgstab_loop.simps) (simp add: Let_def)
        have it3: "it (fst ?ls3) = real_of_int (k + 1) + 1/2"
          using it2 by simp
        note IH = "1.IH" [OF run' refl nb1 refl nb2 it3]
        have mx: "max (k + 1) m = max k m"
          using run by simp
        show ?thesis
        proof (cases "k + 1 < m")
          case True
          with IH run "1.prems" show ?thesis
            unfolding r mx by auto
        next
          case False
          then have "pbicgstab_loop bs E W m tol n0 ?ls3 = ?ls3"
            using IH by auto
          with nb2 run False it3 show ?thesis
            unfolding r by (simp add: max_def)
        qed
      qed
    qed
  qed
qed

lemma float_loop_agrees:
  assumes "m < 8388608" and "it (fst ls) = real_of_int k + 1/2"
  shows "pbicgstab_loop_float bs E W m tol n0 ls = Some (pbicgstab_loop bs E W m tol n0 ls)"
  using assms
proof (induction bs E W m tol n0 ls arbitrary: k rule: pbicgstab_loop.induct)
  case (1 bs E W m tol n0 ls)
  note fl = pbicgstab_loop_float.simps [of bs E W m tol n0 ls]
  note tl = pbicgstab_loop.simps [of bs E W m tol n0 ls]
  show ?case
  proof (cases "it (fst ls) < real_of_int m")
    case False
    then show ?thesis
      by (simp add: fl tl)
  next
    case True
    let ?ls1 = "first_half bs E W ls"
    have km: "k < m"
      using True "1.prems" by (simp add: of_int_less_iff [symmetric] del: of_int_less_iff)
    have "k \<le> 8388606"
      using km "1.prems"(1) by linarith
    then have "real_of_int k \<le> 8388606"
      by simp
    then have b: "real_of_int k + 1/2 < 8388608" "real_of_int k + 1 < 8388608"
      by linarith+
    have f1: "float_add_half (it (fst ?ls1)) = it (fst ?ls1) + 1/2"
      using b by (simp add: float_add_half_def "1.prems")
    let ?ls2 = "second_half bs E W ((fst ?ls1)\<lparr>it := it (fst ?ls1) + 1/2\<rparr>, snd ?ls1)"
    have f2: "float_add_half (it (fst ?ls2)) = it (fst ?ls2) + 1/2"
      using b by (simp add: float_add_half_def "1.prems")
    have i3: "it (fst ((fst ?ls2)\<lparr>it := it (fst ?ls2) + 1/2\<rparr>, snd ?ls2)) = real_of_int (k + 1) + 1/2"
      by (simp add: "1.prems")
    show ?thesis
    proof (cases "norm_v (fst ?ls1) < tol * n0")
      case c1: True
      then show ?thesis
        using True by (simp add: fl tl Let_def)
    next
      case c1: False
      show ?thesis
      proof (cases "norm_v (fst ?ls2) < tol * n0")
        case c2: True
        then show ?thesis
          unfolding fl tl Let_def f1 using True c1 by simp
      next
        case c2: False
        note IH = "1.IH" [OF True refl c1 refl c2 "1.prems"(1) i3]
        show ?thesis
          unfolding fl tl Let_def f1 f2 IH using True c1 c2 by simp
      qed
    qed
  qed
qed

lemmas enqueue_defs = enqueueFillBuffer_def enqueueCopyBuffer_def enqueueWriteBuffer_def

lemma host_pbicgstab_init: "host_part (pbicgstab_init s) = host_part s"
  by (simp add: host_part_def pbicgstab_init_def enqueue_defs log_event_def Let_def)

lemma host_log_event: "host_part (log_event e s) = host_part s"
  by (simp add: host_part_def log_event_def)

lemma host_loop_start: "host_part (snd (loop_start s)) = host_part s"
  by (simp add: loop_start_def kernel_norm_def host_log_event host_pbicgstab_init)

lemma trace_loop_start: "trace (snd (loop_start s)) = trace s @ init_events"
  by (simp add: loop_start_def kernel_norm_def pbicgstab_init_def enqueue_defs log_event_def
      Let_def init_events_def)

lemma it_loop_start: "it (fst (loop_start s)) = 1/2"
  by (simp add: loop_start_def kernel_norm_def)

lemma host_loop_end: "host_part (snd (loop_end bs E W s)) = host_part s"
  by (simp add: loop_end_def host_pbicgstab_loop host_loop_start)

lemma d_vec_loop_start:
  "d_vec (snd (loop_start s)) =
     (d_vec s)(D_v := replicate (nat (N s)) 0,
               D_r := take (nat (N s)) (d_vec s D_b),
               D_rw := take (nat (N s)) (d_vec s D_b),
               D_p := take (nat (N s)) (d_vec s D_b))"
  by (rule ext)
     (simp add: loop_start_def kernel_norm_def pbicgstab_init_def enqueue_defs log_event_def
      Let_def)

lemma gpu_pbicgstab_run:
  assumes "err s = 0"
  shows "gpu_pbicgstab bs E W s =
     (snd (loop_end bs E W s),
      Inr \<lparr>iterations = min (it (fst (loop_end bs E W s))) (real_of_int (maxit s)),
           reduction = norm_v (fst (loop_end bs E W s)) / norm_v (fst (loop_start s)),
           conv_rate = (norm_v (fst (loop_end bs E W s)) / norm_v (fst (loop_start s)))
                         powr (1 / it (fst (loop_end bs E W s))),
           converged = (it (fst (loop_end bs E W s)) \<noteq> real_of_int (maxit s) + 1/2)\<rparr>)"
proof -
  have e: "err (pbicgstab_init (log_event Ev_gpu_pbicgstab s)) = 0"
    using host_fields(4) [of "pbicgstab_init (log_event Ev_gpu_pbicgstab s)" s] assms
    by (simp add: host_pbicgstab_init host_log_event)
  have m1: "maxit (snd (loop_start s)) = maxit s" and t1: "tolerance (snd (loop_start s)) = tolerance s"
    using host_fields(1,2) [OF host_loop_start] by auto
  have m3: "maxit (snd (loop_end bs E W s)) = maxit s"
    using host_fields(1) [OF host_loop_end] by auto
  have ls: "loop_start s =
     (\<lparr>it = 1/2, rho = 1, alpha = 1, omega = 1,
       norm_v = fst (kernel_norm D_r (pbicgstab_init (log_event Ev_gpu_pbicgstab s)))\<rparr>,
      snd (kernel_norm D_r (pbicgstab_init (log_event Ev_gpu_pbicgstab s))))"
    by (simp add: loop_start_def split_def Let_def)
  have le: "pbicgstab_loop bs E W
              (maxit (snd (kernel_norm D_r (pbicgstab_init (log_event Ev_gpu_pbicgstab s)))))
              (tolerance (snd (kernel_norm D_r (pbicgstab_init (log_event Ev_gpu_pbicgstab s)))))
              (fst (kernel_norm D_r (pbicgstab_init (log_event Ev_gpu_pbicgstab s))))
              (\<lparr>it = 1/2, rho = 1, alpha = 1, omega = 1,
                norm_v = fst (kernel_norm D_r (pbicgstab_init (log_event Ev_gpu_pbicgstab s)))\<rparr>,
               snd (kernel_norm D_r (pbicgstab_init (log_event Ev_gpu_pbicgstab s))))
            = loop_end bs E W s"
    using m1 t1 by (simp add: loop_end_def ls)
  show ?thesis
    unfolding gpu_pbicgstab_def Let_def split_def
    using e m3 by (simp only: le if_False simp_thms) (simp add: ls)
qed

lemma gpu_pbicgstab_throw:
  assumes "err s \<noteq> 0"
  shows "snd (gpu_pbicgstab bs E W s) =
           Inl (Thrown_logic ''openclSolverBackend OpenCL enqueue[Fill|Copy]Buffer error'')"
proof -
  have e: "err (pbicgstab_init (log_event Ev_gpu_pbicgstab s)) \<noteq> 0"
    using host_fields(4) [of "pbicgstab_init (log_event Ev_gpu_pbicgstab s)" s] assms
    by (simp add: host_pbicgstab_init host_log_event)
  then show ?thesis
    by (simp add: gpu_pbicgstab_def Let_def)
qed


lemma snd_initialize:
  "snd (initialize bs E N' nnz' dim' vals rows cols s) =
     map_option (\<lambda>e. Logic_error (opencl_error_message (getErrorString E) e)) (buffer_create E)"
  by (simp add: initialize_def Let_def split: option.splits)

lemma analysis_done_initialize:
  "analysis_done (fst (initialize bs E N' nnz' dim' vals rows cols s)) = analysis_done s"
  by (simp add: initialize_def log_event_def Let_def split: option.splits)

lemma fst_analyze_matrix: "fst (analyze_matrix E s) = prec_analyze_matrix E"
  by (simp add: analyze_matrix_def Let_def)

lemma fst_create_preconditioner: "fst (create_preconditioner E s) = prec_create_preconditioner E"
  by (simp add: create_preconditioner_def)

lemma snd_copy_system_to_gpu:
  "snd (copy_system_to_gpu E s) =
     (if enqueue_err E \<noteq> 0
      then Some (Logic_error ''openclSolverBackend OpenCL enqueueWriteBuffer error'') else None)"
  by (simp add: copy_system_to_gpu_def Let_def)

lemma snd_update_system_on_gpu:
  "snd (update_system_on_gpu E s) =
     (if enqueue_err E \<noteq> 0
      then Some (Logic_error ''openclSolverBackend OpenCL enqueueWriteBuffer error'') else None)"
  by (simp add: update_system_on_gpu_def Let_def)

lemma err_copy_system_to_gpu: "err (fst (copy_system_to_gpu E s)) = enqueue_err E"
  by (simp add: copy_system_to_gpu_def Let_def)

lemma err_update_system_on_gpu: "err (fst (update_system_on_gpu E s)) = enqueue_err E"
  by (simp add: update_system_on_gpu_def Let_def)

lemma solve_system2_run:
  assumes "err s = 0"
  shows "solve_system2 bs E W res s =
     (snd (loop_end bs E W s),
      \<lparr>iterations = min (it (fst (loop_end bs E W s))) (real_of_int (maxit s)),
       reduction = norm_v (fst (loop_end bs E W s)) / norm_v (fst (loop_start s)),
       conv_rate = (norm_v (fst (loop_end bs E W s)) / norm_v (fst (loop_start s)))
                     powr (1 / it (fst (loop_end bs E W s))),
       converged = (it (fst (loop_end bs E W s)) \<noteq> real_of_int (maxit s) + 1/2)\<rparr>,
      None)"
  by (simp add: solve_system2_def gpu_pbicgstab_run [OF assms])

text \<open>The paths of \<^verbatim>\<open>solve_system\<close>, one lemma each.\<close>

lemma path_alloc_failed:
  assumes "\<not> initialized s" "buffer_create E = Some e"
  shows "solve_system bs E N' nnz' dim' vals rows cols b wc res s =
     \<lparr>obj = fst (initialize bs E N' nnz' dim' vals rows cols s), wells = wc, result = res,
      returned = Inl (Logic_error (opencl_error_message (getErrorString E) e))\<rparr>"
  using assms by (simp add: solve_system_def split_def snd_initialize)

lemma path_analysis_failed:
  assumes "\<not> initialized s" "buffer_create E = None" "\<not> analysis_done s"
    "\<not> prec_analyze_matrix E"
  shows "solve_system bs E N' nnz' dim' vals rows cols b wc res s =
     \<lparr>obj = snd (analyze_matrix E (fst (initialize bs E N' nnz' dim' vals rows cols s))),
      wells = wc, result = res, returned = Inr BDA_SOLVER_ANALYSIS_FAILED\<rparr>"
  using assms
  by (simp add: solve_system_def split_def Let_def snd_initialize analysis_done_initialize
      fst_analyze_matrix)

lemma err_solve_input:
  "err (solve_input bs E N' nnz' dim' vals rows cols b wc s) = enqueue_err E"
  by (simp add: solve_input_def err_copy_system_to_gpu err_update_system_on_gpu)

lemma path_precond_failed:
  assumes "initialized s \<or> (buffer_create E = None \<and> (analysis_done s \<or> prec_analyze_matrix E))"
    and "\<not> prec_create_preconditioner E"
  shows "solve_system bs E N' nnz' dim' vals rows cols b wc res s =
     \<lparr>obj = before_upload bs E N' nnz' dim' vals rows cols b wc s,
      wells = solve_wells bs E N' nnz' dim' vals rows cols b wc s, result = res,
      returned = Inr BDA_SOLVER_CREATE_PRECONDITIONER_FAILED\<rparr>"
proof (cases "initialized s")
  case True
  with assms show ?thesis
    by (simp add: solve_system_def split_def Let_def fst_create_preconditioner
        before_upload_def solve_wells_def before_update_def)
next
  case False
  with assms show ?thesis
    by (auto simp: solve_system_def split_def Let_def snd_initialize analysis_done_initialize
        fst_analyze_matrix fst_create_preconditioner before_upload_def solve_wells_def
        before_update_def)
qed

lemma path_upload_failed:
  assumes "initialized s \<or> (buffer_create E = None \<and> (analysis_done s \<or> prec_analyze_matrix E))"
    and "prec_create_preconditioner E" and "enqueue_err E \<noteq> 0"
  shows "solve_system bs E N' nnz' dim' vals rows cols b wc res s =
     \<lparr>obj = solve_input bs E N' nnz' dim' vals rows cols b wc s,
      wells = solve_wells bs E N' nnz' dim' vals rows cols b wc s, result = res,
      returned = Inl (Logic_error ''openclSolverBackend OpenCL enqueueWriteBuffer error'')\<rparr>"
proof (cases "initialized s")
  case True
  with assms show ?thesis
    by (simp add: solve_system_def split_def Let_def fst_create_preconditioner
        snd_update_system_on_gpu solve_input_def before_upload_def solve_wells_def
        before_update_def)
next
  case False
  with assms show ?thesis
    by (auto simp: solve_system_def split_def Let_def snd_initialize analysis_done_initialize
        fst_analyze_matrix fst_create_preconditioner snd_copy_system_to_gpu solve_input_def
        before_upload_def solve_wells_def before_update_def)
qed

lemma path_solved:
  assumes "reaches_solve E s"
  shows "solve_system bs E N' nnz' dim' vals rows cols b wc res s =
     \<lparr>obj = snd (loop_end bs E (solve_wells bs E N' nnz' dim' vals rows cols b wc s)
                   (solve_input bs E N' nnz' dim' vals rows cols b wc s)),
      wells = solve_wells bs E N' nnz' dim' vals rows cols b wc s,
      result = fst (snd (solve_system2 bs E (solve_wells bs E N' nnz' dim' vals rows cols b wc s)
                 res (solve_input bs E N' nnz' dim' vals rows cols b wc s))),
      returned = Inr BDA_SOLVER_SUCCESS\<rparr>"
proof -
  have e: "err (solve_input bs E N' nnz' dim' vals rows cols b wc s) = 0"
    using assms by (simp add: err_solve_input reaches_solve_def)
  note run = solve_system2_run [OF e]
  show ?thesis
  proof (cases "initialized s")
    case True
    with assms have c: "prec_create_preconditioner E" "enqueue_err E = 0"
      by (simp_all add: reaches_solve_def)
    have si: "solve_input bs E N' nnz' dim' vals rows cols b wc s =
        fst (update_system_on_gpu E (snd (create_preconditioner E (fst (update_system bs vals b wc s)))))"
      using True by (simp add: solve_input_def before_upload_def before_update_def)
    have sw: "solve_wells bs E N' nnz' dim' vals rows cols b wc s = snd (update_system bs vals b wc s)"
      using True by (simp add: solve_wells_def before_update_def)
    show ?thesis
      using True c run
      unfolding si sw
      by (simp add: solve_system_def split_def Let_def fst_create_preconditioner
          snd_update_system_on_gpu)
  next
    case False
    with assms have c: "prec_create_preconditioner E" "enqueue_err E = 0" "buffer_create E = None"
      "analysis_done s \<or> prec_analyze_matrix E"
      by (simp_all add: reaches_solve_def)
    let ?s1 = "fst (initialize bs E N' nnz' dim' vals rows cols s)"
    let ?s2 = "if analysis_done s = False then snd (analyze_matrix E ?s1) else ?s1"
    have bu: "before_update bs E N' nnz' dim' vals rows cols s = ?s2"
      using False by (simp add: before_update_def analysis_done_initialize Let_def)
    have si: "solve_input bs E N' nnz' dim' vals rows cols b wc s =
        fst (copy_system_to_gpu E (snd (create_preconditioner E (fst (update_system bs vals b wc ?s2)))))"
      using False by (simp add: solve_input_def before_upload_def bu)
    have sw: "solve_wells bs E N' nnz' dim' vals rows cols b wc s = snd (update_system bs vals b wc ?s2)"
      by (simp add: solve_wells_def bu)
    show ?thesis
      using False c run
      unfolding si sw
      by (auto simp: solve_system_def split_def Let_def snd_initialize analysis_done_initialize
          fst_analyze_matrix fst_create_preconditioner snd_copy_system_to_gpu)
  qed
qed

lemma new_events_append: "trace s' = trace s @ evs \<Longrightarrow> new_events s s' = evs"
  by (simp add: new_events_def)

lemma trace_initialize:
  "trace (fst (initialize bs E N' nnz' dim' vals rows cols s)) = trace s @ [Ev_initialize]"
  by (simp add: initialize_def log_event_def Let_def split: option.splits)

lemma trace_analyze_matrix: "trace (snd (analyze_matrix E s)) = trace s @ [Ev_analyze_matrix]"
  by (simp add: analyze_matrix_def log_event_def Let_def)

lemma trace_update_system:
  "trace (fst (update_system bs vals b wc s)) = trace s @ [Ev_update_system]"
  by (simp add: update_system_def log_event_def Let_def)

lemma trace_create_preconditioner:
  "trace (snd (create_preconditioner E s)) = trace s @ [Ev_create_preconditioner]"
  by (simp add: create_preconditioner_def log_event_def)

lemma trace_copy_system_to_gpu:
  "trace (fst (copy_system_to_gpu E s)) = trace s @ [Ev_copy_system_to_gpu, Ev_fill D_x]"
  by (simp add: copy_system_to_gpu_def enqueue_defs log_event_def Let_def)

lemma trace_update_system_on_gpu:
  "trace (fst (update_system_on_gpu E s)) = trace s @ [Ev_update_system_on_gpu, Ev_fill D_x]"
  by (simp add: update_system_on_gpu_def enqueue_defs log_event_def Let_def)

lemma trace_before_update:
  "trace (before_update bs E N' nnz' dim' vals rows cols s) = trace s @ prefix_events s"
  by (simp add: before_update_def prefix_events_def Let_def analysis_done_initialize
      trace_analyze_matrix trace_initialize)

lemma trace_before_upload:
  "trace (before_upload bs E N' nnz' dim' vals rows cols b wc s) =
     trace s @ prefix_events s @ [Ev_update_system, Ev_create_preconditioner]"
  by (simp add: before_upload_def trace_create_preconditioner trace_update_system
      trace_before_update)

lemma trace_solve_input:
  "trace (solve_input bs E N' nnz' dim' vals rows cols b wc s) =
     trace s @ prefix_events s @ [Ev_update_system, Ev_create_preconditioner]
       @ [if initialized s then Ev_update_system_on_gpu else Ev_copy_system_to_gpu, Ev_fill D_x]"
  by (simp add: solve_input_def trace_copy_system_to_gpu trace_update_system_on_gpu
      trace_before_upload)

lemma trace_loop_end:
  "\<exists>evs. trace (snd (loop_end bs E W s)) = trace s @ init_events @ evs
         \<and> loop_events_ok (0 < getNumWells W) evs"
  using trace_pbicgstab_loop [of bs E W "maxit s" "tolerance s" "norm_v (fst (loop_start s))"
      "loop_start s"]
  by (auto simp: loop_end_def trace_loop_start)

lemma kernel_event_facts:
  assumes "loop_events_ok w evs"
  shows "Ev_gpu_pbicgstab \<notin> set evs" "Ev_analyze_matrix \<notin> set evs" "Ev_initialize \<notin> set evs"
    "Ev_copy_system_to_gpu \<notin> set evs"
  using assms by (auto simp: loop_events_ok_def first_half_events_def second_half_events_def)

lemma initialized_initialize:
  "buffer_create E = None \<Longrightarrow> initialized (fst (initialize bs E N' nnz' dim' vals rows cols s))"
  by (simp add: initialize_def log_event_def Let_def)

lemma flags_analyze_matrix:
  "initialized (snd (analyze_matrix E s)) = initialized s"
  "analysis_done (snd (analyze_matrix E s))"
  by (simp_all add: analyze_matrix_def log_event_def Let_def)

lemma outcome_alloc_failed:
  assumes "\<not> initialized s" "buffer_create E = Some e"
  shows "returned (solve_system bs E N' nnz' dim' vals rows cols b wc res s) =
           Inl (Logic_error (opencl_error_message (getErrorString E) e))"
    and "new_events s (obj (solve_system bs E N' nnz' dim' vals rows cols b wc res s)) = [Ev_initialize]"
  using assms by (simp_all add: path_alloc_failed new_events_append trace_initialize)

lemma outcome_analysis_failed:
  assumes "\<not> initialized s" "buffer_create E = None" "\<not> analysis_done s"
    "\<not> prec_analyze_matrix E"
  shows "returned (solve_system bs E N' nnz' dim' vals rows cols b wc res s) =
           Inr BDA_SOLVER_ANALYSIS_FAILED"
    and "new_events s (obj (solve_system bs E N' nnz' dim' vals rows cols b wc res s)) =
           [Ev_initialize, Ev_analyze_matrix]"
    and "initialized (obj (solve_system bs E N' nnz' dim' vals rows cols b wc res s))"
    and "analysis_done (obj (solve_system bs E N' nnz' dim' vals rows cols b wc res s))"
  using assms
  by (simp_all add: path_analysis_failed new_events_append trace_initialize trace_analyze_matrix
      flags_analyze_matrix initialized_initialize)

lemma outcome_precond_failed:
  assumes "ready E s" "\<not> prec_create_preconditioner E"
  shows "returned (solve_system bs E N' nnz' dim' vals rows cols b wc res s) =
           Inr BDA_SOLVER_CREATE_PRECONDITIONER_FAILED"
    and "new_events s (obj (solve_system bs E N' nnz' dim' vals rows cols b wc res s)) =
           prefix_events s @ [Ev_update_system, Ev_create_preconditioner]"
  using assms
  by (simp_all add: ready_def path_precond_failed new_events_append trace_before_upload)

lemma outcome_upload_failed:
  assumes "ready E s" "prec_create_preconditioner E" "enqueue_err E \<noteq> 0"
  shows "returned (solve_system bs E N' nnz' dim' vals rows cols b wc res s) =
           Inl (Logic_error ''openclSolverBackend OpenCL enqueueWriteBuffer error'')"
    and "new_events s (obj (solve_system bs E N' nnz' dim' vals rows cols b wc res s)) =
           upload_events s"
  using assms
  by (simp_all add: ready_def path_upload_failed new_events_append trace_solve_input
      upload_events_def)

lemma reaches_solve_ready:
  "reaches_solve E s \<longleftrightarrow> ready E s \<and> prec_create_preconditioner E \<and> enqueue_err E = 0"
  by (simp add: reaches_solve_def ready_def)

lemma outcome_solved:
  assumes "reaches_solve E s"
  shows "returned (solve_system bs E N' nnz' dim' vals rows cols b wc res s) = Inr BDA_SOLVER_SUCCESS"
    and "\<exists>evs. new_events s (obj (solve_system bs E N' nnz' dim' vals rows cols b wc res s)) =
           upload_events s @ init_events @ evs
           \<and> loop_events_ok (0 < getNumWells (solve_wells bs E N' nnz' dim' vals rows cols b wc s)) evs"
proof -
  show "returned (solve_system bs E N' nnz' dim' vals rows cols b wc res s) = Inr BDA_SOLVER_SUCCESS"
    by (simp add: path_solved [OF assms])
  obtain evs where
    "trace (snd (loop_end bs E (solve_wells bs E N' nnz' dim' vals rows cols b wc s)
                   (solve_input bs E N' nnz' dim' vals rows cols b wc s))) =
       trace (solve_input bs E N' nnz' dim' vals rows cols b wc s) @ init_events @ evs"
    and "loop_events_ok (0 < getNumWells (solve_wells bs E N' nnz' dim' vals rows cols b wc s)) evs"
    using trace_loop_end by blast
  then show "\<exists>evs. new_events s (obj (solve_system bs E N' nnz' dim' vals rows cols b wc res s)) =
           upload_events s @ init_events @ evs
           \<and> loop_events_ok (0 < getNumWells (solve_wells bs E N' nnz' dim' vals rows cols b wc s)) evs"
    by (simp add: path_solved [OF assms] new_events_def trace_solve_input upload_events_def)
qed

lemma solve_system_outcomes:
  fixes bs E N' nnz' dim' vals rows cols b wc res s
  defines "out \<equiv> solve_system bs E N' nnz' dim' vals rows cols b wc res s"
  defines "new \<equiv> new_events s (obj (solve_system bs E N' nnz' dim' vals rows cols b wc res s))"
  shows
    "(returned out = Inr BDA_SOLVER_ANALYSIS_FAILED \<longleftrightarrow>
        \<not> initialized s \<and> buffer_create E = None \<and> \<not> analysis_done s \<and> \<not> prec_analyze_matrix E)
     \<and> (returned out = Inr BDA_SOLVER_CREATE_PRECONDITIONER_FAILED \<longleftrightarrow>
        ready E s \<and> \<not> prec_create_preconditioner E)
     \<and> (returned out = Inr BDA_SOLVER_SUCCESS \<longleftrightarrow>
        ready E s \<and> prec_create_preconditioner E \<and> enqueue_err E = 0)
     \<and> (isl (returned out) \<longleftrightarrow>
        (\<not> initialized s \<and> buffer_create E \<noteq> None)
        \<or> (ready E s \<and> prec_create_preconditioner E \<and> enqueue_err E \<noteq> 0))
     \<and> (returned out = Inr BDA_SOLVER_ANALYSIS_FAILED \<longrightarrow> new = [Ev_initialize, Ev_analyze_matrix])
     \<and> (returned out = Inr BDA_SOLVER_CREATE_PRECONDITIONER_FAILED \<longrightarrow>
        new = prefix_events s @ [Ev_update_system, Ev_create_preconditioner])
     \<and> (Ev_gpu_pbicgstab \<in> set new \<longleftrightarrow> returned out = Inr BDA_SOLVER_SUCCESS)
     \<and> (Ev_analyze_matrix \<in> set new \<longleftrightarrow>
        \<not> initialized s \<and> buffer_create E = None \<and> \<not> analysis_done s)
     \<and> (initialized s \<longrightarrow>
        take 2 new = [Ev_update_system, Ev_create_preconditioner]
        \<and> Ev_initialize \<notin> set new \<and> Ev_copy_system_to_gpu \<notin> set new
        \<and> (prec_create_preconditioner E \<longrightarrow>
             take 2 (drop 2 new) = [Ev_update_system_on_gpu, Ev_fill D_x]))"
proof -
  consider
    (alloc) e where "\<not> initialized s" "buffer_create E = Some e"
  | (analysis) "\<not> initialized s" "buffer_create E = None" "\<not> analysis_done s"
      "\<not> prec_analyze_matrix E"
  | (precond) "ready E s" "\<not> prec_create_preconditioner E"
  | (upload) "ready E s" "prec_create_preconditioner E" "enqueue_err E \<noteq> 0"
  | (solved) "ready E s" "prec_create_preconditioner E" "enqueue_err E = 0"
    by (cases "buffer_create E") (auto simp: ready_def)
  then show ?thesis
  proof cases
    case alloc
    have nr: "\<not> ready E s"
      using alloc by (simp add: ready_def)
    show ?thesis
      unfolding out_def new_def
      using alloc nr
      by (simp add: outcome_alloc_failed [OF alloc])
  next
    case analysis
    have nr: "\<not> ready E s"
      using analysis by (simp add: ready_def)
    show ?thesis
      unfolding out_def new_def
      using analysis nr
      by (simp add: outcome_analysis_failed [OF analysis])
  next
    case precond
    have ad: "initialized s \<or> buffer_create E = None"
      using precond by (auto simp: ready_def)
    have pa: "\<not> initialized s \<Longrightarrow> \<not> analysis_done s \<Longrightarrow> prec_analyze_matrix E"
      using precond by (auto simp: ready_def)
    show ?thesis
      unfolding out_def new_def
      using precond ad pa
      by (auto simp: outcome_precond_failed [OF precond] prefix_events_def)
  next
    case upload
    have ad: "initialized s \<or> buffer_create E = None"
      using upload by (auto simp: ready_def)
    have pa: "\<not> initialized s \<Longrightarrow> \<not> analysis_done s \<Longrightarrow> prec_analyze_matrix E"
      using upload by (auto simp: ready_def)
    show ?thesis
      unfolding out_def new_def
      using upload ad pa
      by (auto simp: outcome_upload_failed [OF upload] prefix_events_def upload_events_def)
  next
    case solved
    then have rs: "reaches_solve E s"
      by (simp add: reaches_solve_ready)
    have ad: "initialized s \<or> buffer_create E = None"
      using solved by (auto simp: ready_def)
    have pa: "\<not> initialized s \<Longrightarrow> \<not> analysis_done s \<Longrightarrow> prec_analyze_matrix E"
      using solved by (auto simp: ready_def)
    obtain evs where
      n: "new_events s (obj (solve_system bs E N' nnz' dim' vals rows cols b wc res s)) =
            upload_events s @ init_events @ evs"
      and ok: "loop_events_ok (0 < getNumWells (solve_wells bs E N' nnz' dim' vals rows cols b wc s)) evs"
      using outcome_solved(2) [OF rs] by blast
    note kf = kernel_event_facts [OF ok]
    show ?thesis
      unfolding out_def new_def n
      using solved ad pa kf
      by (auto simp: outcome_solved(1) [OF rs] prefix_events_def upload_events_def init_events_def)
  qed
qed

lemma initialized_update_system:
  "initialized (fst (update_system bs vals b wc s)) = initialized s"
  by (simp add: update_system_def log_event_def Let_def)

lemma initialized_create_preconditioner:
  "initialized (snd (create_preconditioner E s)) = initialized s"
  by (simp add: create_preconditioner_def log_event_def)

lemma initialized_update_system_on_gpu:
  "initialized (fst (update_system_on_gpu E s)) = initialized s"
  by (simp add: update_system_on_gpu_def enqueue_defs log_event_def Let_def)

lemma initialized_kept:
  assumes "initialized s"
  shows "initialized (obj (solve_system bs E N' nnz' dim' vals rows cols b wc res s))"
proof -
  have bu: "initialized (before_upload bs E N' nnz' dim' vals rows cols b wc s)"
    using assms
    by (simp add: before_upload_def before_update_def initialized_create_preconditioner
        initialized_update_system)
  have si: "initialized (solve_input bs E N' nnz' dim' vals rows cols b wc s)"
    using assms bu by (simp add: solve_input_def initialized_update_system_on_gpu)
  have r: "ready E s"
    using assms by (simp add: ready_def)
  consider (precond) "\<not> prec_create_preconditioner E"
    | (upload) "prec_create_preconditioner E" "enqueue_err E \<noteq> 0"
    | (solved) "reaches_solve E s"
    using r by (auto simp: reaches_solve_ready)
  then show ?thesis
  proof cases
    case precond
    then show ?thesis
      using assms bu by (simp add: path_precond_failed)
  next
    case upload
    then show ?thesis
      using assms si by (simp add: path_upload_failed)
  next
    case solved
    show ?thesis
      using host_fields(5) [OF host_loop_end] si by (simp add: path_solved [OF solved])
  qed
qed

lemma initialized_solve_calls: "initialized s \<Longrightarrow> initialized (solve_calls bs as s)"
  by (induction as arbitrary: s) (simp_all add: solve_call_def initialized_kept)

text \<open>
  C10. A failed analysis is not rolled back. When a call returns
  \<^verbatim>\<open>BDA_SOLVER_ANALYSIS_FAILED\<close>, the object it leaves has \<^verbatim>\<open>initialized\<close> and
  \<^verbatim>\<open>analysis_done\<close> set. After any number of further calls the object is still
  initialised, and the next call on it does not run \<^verbatim>\<open>analyze_matrix\<close>: it starts with
  \<^verbatim>\<open>update_system\<close> and \<^verbatim>\<open>create_preconditioner\<close> and, when the preconditioner is
  built and the upload succeeds, runs \<^verbatim>\<open>gpu_pbicgstab\<close> and returns success.
\<close>
theorem failed_analysis_not_rolled_back:
  assumes "returned (solve_call bs a s) = Inr BDA_SOLVER_ANALYSIS_FAILED"
  shows "initialized (obj (solve_call bs a s)) \<and> analysis_done (obj (solve_call bs a s))
    \<and> (\<forall>as a'.
          initialized (solve_calls bs as (obj (solve_call bs a s)))
          \<and> Ev_analyze_matrix
              \<notin> set (new_events (solve_calls bs as (obj (solve_call bs a s)))
                       (obj (solve_call bs a' (solve_calls bs as (obj (solve_call bs a s))))))
          \<and> take 2 (new_events (solve_calls bs as (obj (solve_call bs a s)))
                       (obj (solve_call bs a' (solve_calls bs as (obj (solve_call bs a s))))))
              = [Ev_update_system, Ev_create_preconditioner]
          \<and> (prec_create_preconditioner (a_env a') \<and> enqueue_err (a_env a') = 0 \<longrightarrow>
               returned (solve_call bs a' (solve_calls bs as (obj (solve_call bs a s))))
                 = Inr BDA_SOLVER_SUCCESS
               \<and> Ev_gpu_pbicgstab
                   \<in> set (new_events (solve_calls bs as (obj (solve_call bs a s)))
                            (obj (solve_call bs a' (solve_calls bs as (obj (solve_call bs a s))))))))"
proof -
  have c: "\<not> initialized s" "buffer_create (a_env a) = None" "\<not> analysis_done s"
    "\<not> prec_analyze_matrix (a_env a)"
    using assms solve_system_outcomes
      [of bs "a_env a" "a_N a" "a_nnz a" "a_dim a" "a_vals a" "a_rows a" "a_cols a" "a_b a"
          "a_wells a" "a_res a" s]
    by (simp_all add: solve_call_def)
  have i: "initialized (obj (solve_call bs a s))" and d: "analysis_done (obj (solve_call bs a s))"
    unfolding solve_call_def by (rule outcome_analysis_failed [OF c])+
  have later: "initialized (solve_calls bs as (obj (solve_call bs a s)))
          \<and> Ev_analyze_matrix
              \<notin> set (new_events (solve_calls bs as (obj (solve_call bs a s)))
                       (obj (solve_call bs a' (solve_calls bs as (obj (solve_call bs a s))))))
          \<and> take 2 (new_events (solve_calls bs as (obj (solve_call bs a s)))
                       (obj (solve_call bs a' (solve_calls bs as (obj (solve_call bs a s))))))
              = [Ev_update_system, Ev_create_preconditioner]
          \<and> (prec_create_preconditioner (a_env a') \<and> enqueue_err (a_env a') = 0 \<longrightarrow>
               returned (solve_call bs a' (solve_calls bs as (obj (solve_call bs a s))))
                 = Inr BDA_SOLVER_SUCCESS
               \<and> Ev_gpu_pbicgstab
                   \<in> set (new_events (solve_calls bs as (obj (solve_call bs a s)))
                            (obj (solve_call bs a' (solve_calls bs as (obj (solve_call bs a s)))))))"
    for as a'
  proof -
    let ?sk = "solve_calls bs as (obj (solve_call bs a s))"
    have k: "initialized ?sk"
      using i by (rule initialized_solve_calls)
    then have r: "ready (a_env a') ?sk"
      by (simp add: ready_def)
    show ?thesis
      using k r solve_system_outcomes
        [of bs "a_env a'" "a_N a'" "a_nnz a'" "a_dim a'" "a_vals a'" "a_rows a'" "a_cols a'"
            "a_b a'" "a_wells a'" "a_res a'" ?sk]
      by (simp add: solve_call_def)
  qed
  show ?thesis
    using i d later by blast
qed

lemma example_analysis_fails:
  "returned (solve_call 1 (example_call (example_env\<lparr>prec_analyze_matrix := False\<rparr>) [1])
               (example_solver 10)) = Inr BDA_SOLVER_ANALYSIS_FAILED"
  using solve_system_outcomes [of 1 "example_env\<lparr>prec_analyze_matrix := False\<rparr>" 1 1 1 "[2]"
        "[0, 1]" "[0]" "[1]" example_wells example_res "example_solver 10"]
  by (simp add: solve_call_def example_call_def example_env_def example_solver_def)

theorem failed_analysis_not_rolled_back_witness:
  "returned (solve_call 1 (example_call (example_env\<lparr>prec_analyze_matrix := False\<rparr>) [1])
               (example_solver 10)) = Inr BDA_SOLVER_ANALYSIS_FAILED
   \<and> initialized (obj (solve_call 1 (example_call (example_env\<lparr>prec_analyze_matrix := False\<rparr>) [1])
                         (example_solver 10)))
   \<and> analysis_done (obj (solve_call 1 (example_call (example_env\<lparr>prec_analyze_matrix := False\<rparr>) [1])
                         (example_solver 10)))
   \<and> returned (solve_call 1 (example_call example_env [1])
        (solve_calls 1 []
           (obj (solve_call 1 (example_call (example_env\<lparr>prec_analyze_matrix := False\<rparr>) [1])
                   (example_solver 10)))))
       = Inr BDA_SOLVER_SUCCESS
   \<and> Ev_analyze_matrix \<notin> set (new_events
        (solve_calls 1 []
           (obj (solve_call 1 (example_call (example_env\<lparr>prec_analyze_matrix := False\<rparr>) [1])
                   (example_solver 10))))
        (obj (solve_call 1 (example_call example_env [1])
          (solve_calls 1 []
             (obj (solve_call 1 (example_call (example_env\<lparr>prec_analyze_matrix := False\<rparr>) [1])
                     (example_solver 10)))))))"
proof -
  have p: "prec_create_preconditioner (a_env (example_call example_env [1]))
           \<and> enqueue_err (a_env (example_call example_env [1])) = 0"
    by (simp add: example_call_def example_env_def)
  show ?thesis
    using failed_analysis_not_rolled_back [OF example_analysis_fails] example_analysis_fails p
    by blast
qed


















lemma pbicgstab_loop_skip:
  "\<not> it (fst ls) < real_of_int m \<Longrightarrow> pbicgstab_loop bs E W m tol n0 ls = ls"
  by (subst pbicgstab_loop.simps) simp

lemma loop_end_nonpositive: "maxit s \<le> 0 \<Longrightarrow> loop_end bs E W s = loop_start s"
proof -
  assume "maxit s \<le> 0"
  then have "\<not> it (fst (loop_start s)) < real_of_int (maxit s)"
    by (simp add: it_loop_start)
  then show ?thesis
    by (simp add: loop_end_def pbicgstab_loop_skip)
qed

lemma trace_loop_first_chunk:
  assumes "it (fst ls) < real_of_int m"
  shows "\<exists>rest. trace (snd (pbicgstab_loop bs E W m tol n0 ls)) =
           trace (snd ls) @ first_half_events (1 < it (fst ls)) (0 < getNumWells W) @ rest"
proof -
  let ?ls1 = "first_half bs E W ls"
  let ?ls2 = "second_half bs E W ((fst ?ls1)\<lparr>it := it (fst ?ls1) + 1/2\<rparr>, snd ?ls1)"
  let ?ls3 = "((fst ?ls2)\<lparr>it := it (fst ?ls2) + 1/2\<rparr>, snd ?ls2)"
  have t1: "trace (snd ?ls1) = trace (snd ls) @ first_half_events (1 < it (fst ls)) (0 < getNumWells W)"
    by (rule trace_first_half)
  have t2: "trace (snd ?ls2) = trace (snd ?ls1) @ second_half_events (0 < getNumWells W)"
    by (simp add: trace_second_half)
  obtain evs where t3: "trace (snd (pbicgstab_loop bs E W m tol n0 ?ls3)) = trace (snd ?ls3) @ evs"
    using trace_pbicgstab_loop by blast
  have "pbicgstab_loop bs E W m tol n0 ls = ?ls1 \<or> pbicgstab_loop bs E W m tol n0 ls = ?ls2
        \<or> pbicgstab_loop bs E W m tol n0 ls = pbicgstab_loop bs E W m tol n0 ?ls3"
    using assms by (subst (1 2 3) pbicgstab_loop.simps) (simp add: Let_def)
  then show ?thesis
    using t1 t2 t3 by (elim disjE) simp_all
qed

lemma dot_k_self_nonneg: "0 \<le> dot_k a a n"
  unfolding dot_k_def by (rule sum_list_nonneg) auto

lemma norm_k_nonneg: "0 \<le> norm_k a n"
  by (simp add: norm_k_def dot_k_self_nonneg)

lemma norm_k_zero: "norm_k (replicate (nat n) 0) n = 0"
proof -
  have eq: "map (\<lambda>i. replicate (nat n) (0::real) ! i * replicate (nat n) 0 ! i) [0..<nat n]
        = map (\<lambda>i. 0) [0..<nat n]"
    by (rule map_cong) simp_all
  have "dot_k (replicate (nat n) 0) (replicate (nat n) 0) n
        = sum_list (map (\<lambda>i. 0) [0..<nat n])"
    unfolding dot_k_def by (simp only: eq)
  then have "dot_k (replicate (nat n) 0) (replicate (nat n) 0) n = 0"
    by simp
  then show ?thesis
    by (simp add: norm_k_def)
qed

lemma norm_v_first_half: "0 \<le> norm_v (fst (first_half bs E W ls))"
  by (simp add: first_half_def kernel_defs Let_def split_def norm_k_nonneg)

lemma norm_v_second_half: "0 \<le> norm_v (fst (second_half bs E W ls))"
  by (simp add: second_half_def kernel_defs Let_def split_def norm_k_nonneg)

lemma count_first_half_events:
  "count_list (first_half_events c w) (Ev_spmv D_pw D_v) = 1"
  "count_list (first_half_events c w) (Ev_spmv D_s D_t) = 0"
  by (simp_all add: first_half_events_def)

lemma count_second_half_events:
  "count_list (second_half_events w) (Ev_spmv D_pw D_v) = 0"
  "count_list (second_half_events w) (Ev_spmv D_s D_t) = 1"
  by (simp_all add: second_half_events_def)

lemma zero_norm0_loop:
  "it (fst ls) = real_of_int k + 1/2 \<Longrightarrow> n0 = 0 \<Longrightarrow>
   it (fst (pbicgstab_loop bs E W m tol n0 ls)) = real_of_int (max k m) + 1/2
   \<and> count_list (trace (snd (pbicgstab_loop bs E W m tol n0 ls))) (Ev_spmv D_pw D_v)
       = count_list (trace (snd ls)) (Ev_spmv D_pw D_v) + nat (m - k)
   \<and> count_list (trace (snd (pbicgstab_loop bs E W m tol n0 ls))) (Ev_spmv D_s D_t)
       = count_list (trace (snd ls)) (Ev_spmv D_s D_t) + nat (m - k)"
proof (induction bs E W m tol n0 ls arbitrary: k rule: pbicgstab_loop.induct)
  case (1 bs E W m tol n0 ls)
  have z: "n0 = 0" using "1.prems" by simp
  define ls1 where "ls1 = first_half bs E W ls"
  define ls2 where "ls2 = second_half bs E W ((fst ls1)\<lparr>it := it (fst ls1) + 1/2\<rparr>, snd ls1)"
  define ls3 where "ls3 = ((fst ls2)\<lparr>it := it (fst ls2) + 1/2\<rparr>, snd ls2)"
  have km: "it (fst ls) < real_of_int m \<longleftrightarrow> k < m"
    using "1.prems"(1) by (simp add: of_int_less_iff [symmetric] del: of_int_less_iff) linarith
  show ?case
  proof (cases "k < m")
    case False
    then have "pbicgstab_loop bs E W m tol n0 ls = ls"
      using km by (simp add: pbicgstab_loop_skip)
    with False "1.prems"(1) show ?thesis
      by (simp add: max_def)
  next
    case run: True
    then have run': "it (fst ls) < real_of_int m" using km by simp
    have nb1: "\<not> norm_v (fst ls1) < tol * n0"
      using norm_v_first_half [of bs E W ls] z by (simp add: ls1_def)
    have nb2: "\<not> norm_v (fst ls2) < tol * n0"
      using norm_v_second_half [of bs E W "((fst ls1)\<lparr>it := it (fst ls1) + 1/2\<rparr>, snd ls1)"] z
      by (simp add: ls2_def)
    have r: "pbicgstab_loop bs E W m tol n0 ls = pbicgstab_loop bs E W m tol n0 ls3"
      using run' nb1 nb2 unfolding ls1_def ls2_def ls3_def
      by (subst pbicgstab_loop.simps) (simp add: Let_def)
    have it3: "it (fst ls3) = real_of_int (k + 1) + 1/2"
      using "1.prems"(1) by (simp add: ls3_def ls2_def ls1_def)
    have t3: "trace (snd ls3) = trace (snd ls)
                @ first_half_events (1 < it (fst ls)) (0 < getNumWells W)
                @ second_half_events (0 < getNumWells W)"
      by (simp add: ls3_def ls2_def ls1_def trace_second_half trace_first_half)
    have IH: "it (fst (pbicgstab_loop bs E W m tol n0 ls3)) = real_of_int (max (k + 1) m) + 1/2
       \<and> count_list (trace (snd (pbicgstab_loop bs E W m tol n0 ls3))) (Ev_spmv D_pw D_v)
           = count_list (trace (snd ls3)) (Ev_spmv D_pw D_v) + nat (m - (k + 1))
       \<and> count_list (trace (snd (pbicgstab_loop bs E W m tol n0 ls3))) (Ev_spmv D_s D_t)
           = count_list (trace (snd ls3)) (Ev_spmv D_s D_t) + nat (m - (k + 1))"
      unfolding ls3_def ls2_def ls1_def
      by (rule "1.IH" [OF run' refl _ refl])
         (use nb1 nb2 it3 z in \<open>simp_all add: ls1_def ls2_def ls3_def\<close>)
    have mx: "max (k + 1) m = max k m" and n: "nat (m - (k + 1)) + 1 = nat (m - k)"
      using run by simp_all
    have c1: "count_list (trace (snd ls3)) (Ev_spmv D_pw D_v)
              = count_list (trace (snd ls)) (Ev_spmv D_pw D_v) + 1"
      and c2: "count_list (trace (snd ls3)) (Ev_spmv D_s D_t)
              = count_list (trace (snd ls)) (Ev_spmv D_s D_t) + 1"
      by (simp_all add: t3 count_first_half_events count_second_half_events)
    show ?thesis
      unfolding r using IH n by (simp only: mx c1 c2) simp
  qed
qed

lemma d_vec_log_event: "d_vec (log_event e s) = d_vec s"
  by (simp add: log_event_def)

lemma count_init_events:
  "count_list init_events (Ev_spmv x y) = 0"
  by (simp add: init_events_def)

lemma zero_rhs_loop_end:
  assumes "0 \<le> maxit s" "d_vec s D_b = replicate (nat (N s)) 0"
  shows "norm_v (fst (loop_start s)) = 0"
    and "it (fst (loop_end bs E W s)) = real_of_int (maxit s) + 1/2"
    and "count_list (new_events s (snd (loop_end bs E W s))) (Ev_spmv D_pw D_v) = nat (maxit s)"
    and "count_list (new_events s (snd (loop_end bs E W s))) (Ev_spmv D_s D_t) = nat (maxit s)"
proof -
  have n: "N (pbicgstab_init (log_event Ev_gpu_pbicgstab s)) = N s"
    using host_fields(3) [of "pbicgstab_init (log_event Ev_gpu_pbicgstab s)" s]
    by (simp add: host_pbicgstab_init host_log_event)
  have "d_vec (snd (loop_start s)) D_r = replicate (nat (N s)) 0"
    using assms(2) by (simp add: d_vec_loop_start)
  moreover have "norm_v (fst (loop_start s)) = norm_k (d_vec (snd (loop_start s)) D_r) (N s)"
    by (simp add: loop_start_def kernel_norm_def n d_vec_log_event)
  ultimately show n0: "norm_v (fst (loop_start s)) = 0"
    by (simp add: norm_k_zero)
  have i0: "it (fst (loop_start s)) = real_of_int 0 + 1/2"
    by (simp add: it_loop_start)
  note L = zero_norm0_loop [OF i0 n0, of bs E W "maxit s" "tolerance s"]
  have mx: "max 0 (maxit s) = maxit s"
    using assms(1) by simp
  show "it (fst (loop_end bs E W s)) = real_of_int (maxit s) + 1/2"
    using L by (simp add: loop_end_def n0 mx)
  have c0: "count_list (trace (snd (loop_start s))) (Ev_spmv x y) = count_list (trace s) (Ev_spmv x y)"
    for x y
    by (simp add: trace_loop_start count_init_events)
  obtain evs where e: "trace (snd (loop_end bs E W s)) = trace s @ evs"
    using trace_loop_end by blast
  have ne: "new_events s (snd (loop_end bs E W s)) = evs"
    using e by (simp add: new_events_def)
  have c: "count_list (trace (snd (loop_end bs E W s))) (Ev_spmv x y)
           = count_list (trace s) (Ev_spmv x y) + count_list evs (Ev_spmv x y)" for x y
    by (simp add: e)
  have L1: "count_list (trace (snd (loop_end bs E W s))) (Ev_spmv D_pw D_v)
       = count_list (trace s) (Ev_spmv D_pw D_v) + nat (maxit s)"
    and L2: "count_list (trace (snd (loop_end bs E W s))) (Ev_spmv D_s D_t)
       = count_list (trace s) (Ev_spmv D_s D_t) + nat (maxit s)"
    using L unfolding loop_end_def n0 c0 by simp_all
  show "count_list (new_events s (snd (loop_end bs E W s))) (Ev_spmv D_pw D_v) = nat (maxit s)"
    using L1 c [of D_pw D_v] unfolding ne by simp
  show "count_list (new_events s (snd (loop_end bs E W s))) (Ev_spmv D_s D_t) = nat (maxit s)"
    using L2 c [of D_s D_t] unfolding ne by simp
qed

lemma config_initialize: "config (fst (initialize bs E N' nnz' dim' vals rows cols s)) = config s"
  by (simp add: config_def initialize_def log_event_def Let_def split: option.splits)

lemma config_analyze_matrix: "config (snd (analyze_matrix E s)) = config s"
  by (simp add: config_def analyze_matrix_def log_event_def Let_def)

lemma config_update_system: "config (fst (update_system bs vals b wc s)) = config s"
  by (simp add: config_def update_system_def log_event_def Let_def)

lemma config_create_preconditioner: "config (snd (create_preconditioner E s)) = config s"
  by (simp add: config_def create_preconditioner_def log_event_def)

lemma config_copy_system_to_gpu: "config (fst (copy_system_to_gpu E s)) = config s"
  by (simp add: config_def copy_system_to_gpu_def enqueue_defs log_event_def Let_def)

lemma config_update_system_on_gpu: "config (fst (update_system_on_gpu E s)) = config s"
  by (simp add: config_def update_system_on_gpu_def enqueue_defs log_event_def Let_def)

lemma config_before_update:
  "config (before_update bs E N' nnz' dim' vals rows cols s) = config s"
  by (simp add: before_update_def Let_def config_analyze_matrix config_initialize)

lemma config_before_upload:
  "config (before_upload bs E N' nnz' dim' vals rows cols b wc s) = config s"
  by (simp add: before_upload_def config_create_preconditioner config_update_system
      config_before_update)

lemma config_solve_input:
  "config (solve_input bs E N' nnz' dim' vals rows cols b wc s) = config s"
  by (simp add: solve_input_def config_copy_system_to_gpu config_update_system_on_gpu
      config_before_upload)

lemma maxit_solve_input:
  "maxit (solve_input bs E N' nnz' dim' vals rows cols b wc s) = maxit s"
  using config_solve_input [of bs E N' nnz' dim' vals rows cols b wc s]
  by (simp add: config_def)

lemma trace_gpu_pbicgstab:
  "\<exists>evs. new_events s (fst (gpu_pbicgstab bs E W s)) =
           (if err s = 0 then init_events @ evs else butlast init_events)
         \<and> loop_events_ok (0 < getNumWells W) evs"
proof (cases "err s = 0")
  case True
  obtain evs where "trace (snd (loop_end bs E W s)) = trace s @ init_events @ evs"
    and "loop_events_ok (0 < getNumWells W) evs"
    using trace_loop_end by blast
  with True show ?thesis
    by (auto simp: gpu_pbicgstab_run new_events_def)
next
  case False
  have e: "err (pbicgstab_init (log_event Ev_gpu_pbicgstab s)) \<noteq> 0"
    using host_fields(4) [of "pbicgstab_init (log_event Ev_gpu_pbicgstab s)" s] False
    by (simp add: host_pbicgstab_init host_log_event)
  have "trace (pbicgstab_init (log_event Ev_gpu_pbicgstab s)) = trace s @ butlast init_events"
    by (simp add: pbicgstab_init_def enqueue_defs log_event_def Let_def init_events_def)
  with e False show ?thesis
    using loop_events_ok_Nil [of "0 < getNumWells W"]
    by (auto simp: gpu_pbicgstab_def Let_def new_events_def)
qed

text \<open>
  What the result record says for a run that starts with \<open>0 \<le> maxit < 2^23\<close>, where the
  loop with the \<^verbatim>\<open>float\<close> counter returns what \<open>loop_end\<close> describes.
\<close>

lemma convergence_report:
  assumes "err s = 0" "0 \<le> maxit s" "maxit s < 8388608"
  shows "\<exists>res. snd (gpu_pbicgstab bs E W s) = Inr res
     \<and> (converged res \<longleftrightarrow>
          0 < maxit s
          \<and> norm_v (fst (loop_end bs E W s)) < tolerance s * norm_v (fst (loop_start s)))
     \<and> (converged res \<longrightarrow> iterations res = it (fst (loop_end bs E W s)))
     \<and> (\<not> converged res \<longrightarrow> iterations res = real_of_int (maxit s))
     \<and> iterations res \<le> real_of_int (maxit s)"
proof -
  have i0: "it (fst (loop_start s)) = real_of_int 0 + 1/2"
    by (simp add: it_loop_start)
  have mx: "max 0 (maxit s) = maxit s"
    using assms(2) by simp
  note C = pbicgstab_loop_counter [OF i0, of bs E W "maxit s" "tolerance s"
      "norm_v (fst (loop_start s))", folded loop_end_def, unfolded mx]
  from C show ?thesis
  proof (elim disjE conjE)
    assume a: "it (fst (loop_end bs E W s)) = real_of_int (maxit s) + 1/2"
      and b: "if 0 < maxit s
              then \<not> norm_v (fst (loop_end bs E W s)) < tolerance s * norm_v (fst (loop_start s))
              else loop_end bs E W s = loop_start s"
    show ?thesis
      using a b assms by (auto simp: gpu_pbicgstab_run min_def split: if_splits)
  next
    assume "0 < maxit s"
      and "norm_v (fst (loop_end bs E W s)) < tolerance s * norm_v (fst (loop_start s))"
      and "it (fst (loop_end bs E W s)) \<le> real_of_int (maxit s)"
    then show ?thesis
      using assms by (auto simp: gpu_pbicgstab_run min_def)
  qed
qed

lemma negative_maxit_report:
  assumes "err s = 0" "maxit s < 0"
  shows "gpu_pbicgstab bs E W s =
     (snd (loop_start s),
      Inr \<lparr>iterations = real_of_int (maxit s),
           reduction = norm_v (fst (loop_start s)) / norm_v (fst (loop_start s)),
           conv_rate = (norm_v (fst (loop_start s)) / norm_v (fst (loop_start s))) powr 2,
           converged = True\<rparr>)"
proof -
  have le: "loop_end bs E W s = loop_start s"
    using assms(2) by (simp add: loop_end_nonpositive)
  have "min (1/2) (real_of_int (maxit s)) = real_of_int (maxit s)"
    using assms(2) by (simp add: min_def)
  moreover have "(1/2 :: real) \<noteq> real_of_int (maxit s) + 1/2"
    using assms(2) by simp
  ultimately show ?thesis
    by (simp add: gpu_pbicgstab_run [OF assms(1)] le it_loop_start)
qed

lemma example_uploaded_fields:
  "err (example_uploaded m b) = 0" "maxit (example_uploaded m b) = m"
  "N (example_uploaded m b) = 1" "d_vec (example_uploaded m b) D_b = b"
  "trace (example_uploaded m b) = []"
  by (simp_all add: example_uploaded_def example_solver_def)

lemma example_reaches_solve: "reaches_solve example_env (example_solver m)"
  by (simp add: reaches_solve_def example_env_def example_solver_def)

lemma negative_maxit_solve:
  assumes "reaches_solve E s" and "maxit s < 0"
  shows "returned (solve_system bs E N' nnz' dim' vals rows cols b wc res s) = Inr BDA_SOLVER_SUCCESS"
    and "converged (result (solve_system bs E N' nnz' dim' vals rows cols b wc res s))"
    and "iterations (result (solve_system bs E N' nnz' dim' vals rows cols b wc res s))
           = real_of_int (maxit s)"
    and "new_events s (obj (solve_system bs E N' nnz' dim' vals rows cols b wc res s))
           = upload_events s @ init_events"
proof -
  let ?si = "solve_input bs E N' nnz' dim' vals rows cols b wc s"
  let ?w = "solve_wells bs E N' nnz' dim' vals rows cols b wc s"
  have e: "err ?si = 0"
    using assms(1) by (simp add: err_solve_input reaches_solve_def)
  have m: "maxit ?si < 0"
    using assms(2) by (simp add: maxit_solve_input)
  have le: "loop_end bs E ?w ?si = loop_start ?si"
    using m by (simp add: loop_end_nonpositive)
  have tr: "trace (snd (loop_start ?si)) = trace s @ upload_events s @ init_events"
    by (simp add: trace_loop_start trace_solve_input upload_events_def)
  have mn: "min (1/2) (real_of_int (maxit s)) = real_of_int (maxit s)"
    using assms(2) by (simp add: min_def)
  have neq: "(1/2 :: real) \<noteq> real_of_int (maxit s) + 1/2"
    using assms(2) by simp
  show "returned (solve_system bs E N' nnz' dim' vals rows cols b wc res s) = Inr BDA_SOLVER_SUCCESS"
    by (simp add: path_solved [OF assms(1)])
  show "converged (result (solve_system bs E N' nnz' dim' vals rows cols b wc res s))"
    using neq
    by (simp add: path_solved [OF assms(1)] solve_system2_run [OF e] le it_loop_start
        maxit_solve_input)
  show "iterations (result (solve_system bs E N' nnz' dim' vals rows cols b wc res s))
           = real_of_int (maxit s)"
    using mn
    by (simp add: path_solved [OF assms(1)] solve_system2_run [OF e] le it_loop_start
        maxit_solve_input)
  show "new_events s (obj (solve_system bs E N' nnz' dim' vals rows cols b wc res s))
           = upload_events s @ init_events"
    by (simp add: path_solved [OF assms(1)] le tr new_events_def)
qed

text \<open>
  C5 fails on the code for a negative \<open>maxit\<close>. With \<open>maxit = -1\<close> the loop test
  \<open>0.5 < maxit\<close> is false at once: no half-step runs and no norm is compared with the
  tolerance (the calls made end with the initial \<^verbatim>\<open>norm\<close>), yet
  \<open>it != maxit + 0.5\<close> is \<open>0.5 != -0.5\<close>, so the result says \<open>converged = true\<close>,
  with \<open>iterations = -1\<close>, and \<^verbatim>\<open>solve_system\<close> returns success.
\<close>
theorem negative_maxit_reports_converged:
  "returned (solve_call 1 (example_call example_env [1]) (example_solver (- 1)))
     = Inr BDA_SOLVER_SUCCESS
   \<and> converged (result (solve_call 1 (example_call example_env [1]) (example_solver (- 1))))
   \<and> iterations (result (solve_call 1 (example_call example_env [1]) (example_solver (- 1))))
       = - 1
   \<and> new_events (example_solver (- 1))
        (obj (solve_call 1 (example_call example_env [1]) (example_solver (- 1))))
       = [Ev_initialize, Ev_analyze_matrix, Ev_update_system, Ev_create_preconditioner,
          Ev_copy_system_to_gpu, Ev_fill D_x, Ev_gpu_pbicgstab, Ev_fill D_p, Ev_fill D_v,
          Ev_copy D_b D_r, Ev_copy D_r D_rw, Ev_copy D_r D_p, Ev_norm D_r]"
proof -
  have m: "maxit (example_solver (- 1)) < 0"
    by (simp add: example_solver_def)
  have ev: "upload_events (example_solver (- 1)) @ init_events
       = [Ev_initialize, Ev_analyze_matrix, Ev_update_system, Ev_create_preconditioner,
          Ev_copy_system_to_gpu, Ev_fill D_x, Ev_gpu_pbicgstab, Ev_fill D_p, Ev_fill D_v,
          Ev_copy D_b D_r, Ev_copy D_r D_rw, Ev_copy D_r D_p, Ev_norm D_r]"
    by (simp add: upload_events_def prefix_events_def init_events_def example_solver_def)
  have mm: "maxit (example_solver (- 1)) = - 1"
    by (simp add: example_solver_def)
  show ?thesis
    unfolding solve_call_def example_call_def
    using negative_maxit_solve [OF example_reaches_solve m] ev
    by (simp add: mm)
qed

lemma wells_after_init: "wells_after prev (init_events @ evs) = wells_after (Ev_norm D_r) evs"
  by (simp add: init_events_def)

lemma sf_init: "spmv_followed_by_wells (init_events @ evs) = spmv_followed_by_wells evs"
  by (simp add: init_events_def)

lemma init_events_facts:
  "wells_after prev (butlast init_events)" "spmv_followed_by_wells (butlast init_events)"
  "Ev_well_apply x y \<notin> set init_events" "Ev_spmv x y \<notin> set init_events"
  "Ev_well_apply x y \<notin> set (butlast init_events)" "Ev_spmv x y \<notin> set (butlast init_events)"
  by (simp_all add: init_events_def)

lemma loop_events_spmv:
  assumes "loop_events_ok w evs" and "Ev_spmv x y \<in> set evs"
  shows "(x = D_pw \<and> y = D_v) \<or> (x = D_s \<and> y = D_t)"
proof -
  have "Ev_spmv x y \<in> set (first_half_events True True @ second_half_events True)"
    using assms by (auto simp: loop_events_ok_def)
  then show ?thesis
    by (simp add: first_half_events_def second_half_events_def)
qed

text \<open>
  C4 (as amended). In every run of \<^verbatim>\<open>gpu_pbicgstab\<close> a well apply is only ever issued
  directly after the \<^verbatim>\<open>spmv\<close> on the same input and output buffers, never before it and
  with no other call between the two. When there are wells (\<open>getNumWells > 0\<close>), every
  \<^verbatim>\<open>spmv\<close> is directly followed by the well apply on its buffers; when there are none,
  the guard skips the call and no well apply is issued at all. The \<^verbatim>\<open>spmv\<close> calls are on
  \<open>pw\<close> into \<open>v\<close> and on \<open>s\<close> into \<open>t\<close>.
\<close>
theorem well_apply_follows_spmv:
  "wells_only_after_spmv (new_events s (fst (gpu_pbicgstab bs E W s)))
   \<and> (0 < getNumWells W \<longrightarrow>
        spmv_followed_by_wells (new_events s (fst (gpu_pbicgstab bs E W s))))
   \<and> (getNumWells W = 0 \<longrightarrow>
        (\<forall>x y. Ev_well_apply x y \<notin> set (new_events s (fst (gpu_pbicgstab bs E W s)))))
   \<and> (\<forall>x y. Ev_spmv x y \<in> set (new_events s (fst (gpu_pbicgstab bs E W s))) \<longrightarrow>
        (x = D_pw \<and> y = D_v) \<or> (x = D_s \<and> y = D_t))"
proof -
  obtain evs where
    n: "new_events s (fst (gpu_pbicgstab bs E W s)) =
          (if err s = 0 then init_events @ evs else butlast init_events)"
    and ok: "loop_events_ok (0 < getNumWells W) evs"
    using trace_gpu_pbicgstab by blast
  have wa: "wells_after prev evs" for prev
    using ok by (simp add: loop_events_ok_def)
  have sf: "0 < getNumWells W \<Longrightarrow> spmv_followed_by_wells evs"
    using ok by (simp add: loop_events_ok_def)
  have nw: "getNumWells W = 0 \<Longrightarrow> Ev_well_apply x y \<notin> set evs" for x y
    using ok by (simp add: loop_events_ok_def)
  note sp = loop_events_spmv [OF ok]
  show ?thesis
  proof (cases "err s = 0")
    case True
    then show ?thesis
      using wa sf nw sp
      by (auto simp: n wells_only_after_spmv_def wells_after_init sf_init init_events_facts)
  next
    case False
    then show ?thesis
      by (simp add: n wells_only_after_spmv_def init_events_facts)
  qed
qed

lemma no_wells_run:
  assumes "err s = 0" and "0 < maxit s" and "getNumWells W = 0"
  shows "Ev_spmv D_pw D_v \<in> set (new_events s (fst (gpu_pbicgstab bs E W s)))"
    and "\<not> spmv_followed_by_wells (new_events s (fst (gpu_pbicgstab bs E W s)))"
proof -
  have "it (fst (loop_start s)) < real_of_int (maxit s)"
    using assms(2) by (simp add: it_loop_start)
  then obtain rest where
    "trace (snd (loop_end bs E W s)) =
       trace (snd (loop_start s))
         @ first_half_events (1 < it (fst (loop_start s))) (0 < getNumWells W) @ rest"
    unfolding loop_end_def using trace_loop_first_chunk by blast
  then have n: "new_events s (fst (gpu_pbicgstab bs E W s)) =
      init_events @ first_half_events False False @ rest"
    using assms
    by (simp add: gpu_pbicgstab_run new_events_def trace_loop_start it_loop_start)
  show "Ev_spmv D_pw D_v \<in> set (new_events s (fst (gpu_pbicgstab bs E W s)))"
    by (simp add: n first_half_events_def)
  show "\<not> spmv_followed_by_wells (new_events s (fst (gpu_pbicgstab bs E W s)))"
    by (simp add: n init_events_def first_half_events_def)
qed

text \<open>
  C4 as stated fails when there are no wells: the loop issues the \<^verbatim>\<open>spmv\<close> on \<open>pw\<close>
  and no well apply follows it.
\<close>
theorem no_wells_no_apply_counterexample:
  "getNumWells example_wells = 0
   \<and> Ev_spmv D_pw D_v
       \<in> set (new_events (example_uploaded 1 [1])
                (fst (gpu_pbicgstab 1 example_env example_wells (example_uploaded 1 [1]))))
   \<and> \<not> spmv_followed_by_wells
         (new_events (example_uploaded 1 [1])
            (fst (gpu_pbicgstab 1 example_env example_wells (example_uploaded 1 [1]))))"
proof -
  have h: "err (example_uploaded 1 [1]) = 0" "0 < maxit (example_uploaded 1 [1])"
    "getNumWells example_wells = 0"
    by (simp_all add: example_uploaded_fields example_wells_def)
  show ?thesis
    using no_wells_run [OF h] h(3) by simp
qed

theorem well_apply_follows_spmv_witness:
  "0 < getNumWells example_wells1
   \<and> spmv_followed_by_wells
       (new_events (example_uploaded 1 [1])
          (fst (gpu_pbicgstab 1 example_env example_wells1 (example_uploaded 1 [1]))))
   \<and> wells_only_after_spmv
       (new_events (example_uploaded 1 [1])
          (fst (gpu_pbicgstab 1 example_env example_wells1 (example_uploaded 1 [1]))))
   \<and> getNumWells example_wells = 0
   \<and> Ev_well_apply D_pw D_v
       \<notin> set (new_events (example_uploaded 1 [1])
                (fst (gpu_pbicgstab 1 example_env example_wells (example_uploaded 1 [1]))))"
proof -
  have h: "0 < getNumWells example_wells1" "getNumWells example_wells = 0"
    by (simp_all add: example_wells1_def example_wells_def)
  show ?thesis
    using well_apply_follows_spmv [of "example_uploaded 1 [1]" 1 example_env example_wells1]
      well_apply_follows_spmv [of "example_uploaded 1 [1]" 1 example_env example_wells] h
    by blast
qed

lemma upload_copy_system_to_gpu:
  "d_vec (fst (copy_system_to_gpu E s)) D_x = replicate (nat (N s)) 0"
  "d_vec (fst (copy_system_to_gpu E s)) D_b = take (nat (N s)) (rb s)"
  "N (fst (copy_system_to_gpu E s)) = N s" "rb (fst (copy_system_to_gpu E s)) = rb s"
  by (simp_all add: copy_system_to_gpu_def enqueue_defs log_event_def Let_def)

lemma upload_update_system_on_gpu:
  "d_vec (fst (update_system_on_gpu E s)) D_x = replicate (nat (N s)) 0"
  "d_vec (fst (update_system_on_gpu E s)) D_b = take (nat (N s)) (rb s)"
  "N (fst (update_system_on_gpu E s)) = N s" "rb (fst (update_system_on_gpu E s)) = rb s"
  by (simp_all add: update_system_on_gpu_def enqueue_defs log_event_def Let_def)

lemma upload_solve_input:
  "d_vec (solve_input bs E N' nnz' dim' vals rows cols b wc s) D_x
     = replicate (nat (N (solve_input bs E N' nnz' dim' vals rows cols b wc s))) 0"
  "d_vec (solve_input bs E N' nnz' dim' vals rows cols b wc s) D_b
     = take (nat (N (solve_input bs E N' nnz' dim' vals rows cols b wc s)))
         (rb (solve_input bs E N' nnz' dim' vals rows cols b wc s))"
  by (simp_all add: solve_input_def upload_copy_system_to_gpu upload_update_system_on_gpu)

lemma rb_update_system:
  "opencl_ilu_reorder s = NONE \<Longrightarrow> rb (fst (update_system bs vals b wc s)) = b"
  by (simp add: update_system_def log_event_def Let_def)

lemma rb_create_preconditioner: "rb (snd (create_preconditioner E s)) = rb s"
  by (simp add: create_preconditioner_def log_event_def)

lemma rb_solve_input:
  assumes "opencl_ilu_reorder s = NONE"
  shows "rb (solve_input bs E N' nnz' dim' vals rows cols b wc s) = b"
proof -
  have "config (before_update bs E N' nnz' dim' vals rows cols s) = config s"
    by (rule config_before_update)
  then have "opencl_ilu_reorder (before_update bs E N' nnz' dim' vals rows cols s) = NONE"
    using assms by (simp add: config_def)
  then show ?thesis
    by (simp add: solve_input_def before_upload_def upload_copy_system_to_gpu
        upload_update_system_on_gpu rb_create_preconditioner rb_update_system)
qed

lemma loop_start_vars:
  "fst (loop_start s) =
     \<lparr>it = 1/2, rho = 1, alpha = 1, omega = 1,
      norm_v = norm_k (d_vec (snd (loop_start s)) D_r) (N s)\<rparr>"
proof -
  have n: "N (pbicgstab_init (log_event Ev_gpu_pbicgstab s)) = N s"
    using host_fields(3) [of "pbicgstab_init (log_event Ev_gpu_pbicgstab s)" s]
    by (simp add: host_pbicgstab_init host_log_event)
  show ?thesis
    by (simp add: loop_start_def kernel_norm_def n d_vec_log_event)
qed

text \<open>
  C2. Every solve starts from the zero initial guess. Whenever \<^verbatim>\<open>solve_system\<close> gets to
  the iteration (it returns success), whatever the object held before the call, the loop
  of \<^verbatim>\<open>gpu_pbicgstab\<close> is entered with \<open>it = 0.5\<close>, \<open>rho = alpha = omega = 1\<close>, the
  buffer \<open>x\<close> filled with \<open>N\<close> zeros, \<open>r\<close> equal to the right-hand side \<open>b\<close> as it
  was uploaded (nothing is subtracted), and \<open>rw\<close> and \<open>p\<close> copies of \<open>r\<close>. Without
  reordering the uploaded right-hand side is the caller's \<open>b\<close>.
\<close>
theorem every_solve_starts_from_zero:
  assumes "returned (solve_system bs E N' nnz' dim' vals rows cols b wc res s)
             = Inr BDA_SOLVER_SUCCESS"
  shows "obj (solve_system bs E N' nnz' dim' vals rows cols b wc res s)
       = snd (pbicgstab_loop bs E (wells (solve_system bs E N' nnz' dim' vals rows cols b wc res s))
                (maxit (solve_input bs E N' nnz' dim' vals rows cols b wc s))
                (tolerance (solve_input bs E N' nnz' dim' vals rows cols b wc s))
                (norm_v (fst (loop_start (solve_input bs E N' nnz' dim' vals rows cols b wc s))))
                (loop_start (solve_input bs E N' nnz' dim' vals rows cols b wc s)))
    \<and> fst (loop_start (solve_input bs E N' nnz' dim' vals rows cols b wc s))
       = \<lparr>it = 1/2, rho = 1, alpha = 1, omega = 1,
          norm_v = norm_k
            (d_vec (snd (loop_start (solve_input bs E N' nnz' dim' vals rows cols b wc s))) D_r)
            (N (solve_input bs E N' nnz' dim' vals rows cols b wc s))\<rparr>
    \<and> d_vec (snd (loop_start (solve_input bs E N' nnz' dim' vals rows cols b wc s))) D_x
       = replicate (nat (N (solve_input bs E N' nnz' dim' vals rows cols b wc s))) 0
    \<and> d_vec (snd (loop_start (solve_input bs E N' nnz' dim' vals rows cols b wc s))) D_b
       = take (nat (N (solve_input bs E N' nnz' dim' vals rows cols b wc s)))
           (rb (solve_input bs E N' nnz' dim' vals rows cols b wc s))
    \<and> d_vec (snd (loop_start (solve_input bs E N' nnz' dim' vals rows cols b wc s))) D_r
       = d_vec (snd (loop_start (solve_input bs E N' nnz' dim' vals rows cols b wc s))) D_b
    \<and> d_vec (snd (loop_start (solve_input bs E N' nnz' dim' vals rows cols b wc s))) D_rw
       = d_vec (snd (loop_start (solve_input bs E N' nnz' dim' vals rows cols b wc s))) D_r
    \<and> d_vec (snd (loop_start (solve_input bs E N' nnz' dim' vals rows cols b wc s))) D_p
       = d_vec (snd (loop_start (solve_input bs E N' nnz' dim' vals rows cols b wc s))) D_r
    \<and> (opencl_ilu_reorder s = NONE \<longrightarrow>
         rb (solve_input bs E N' nnz' dim' vals rows cols b wc s) = b)"
proof -
  have rs: "reaches_solve E s"
    using assms solve_system_outcomes [of bs E N' nnz' dim' vals rows cols b wc res s]
    by (simp add: reaches_solve_ready)
  show ?thesis
    using rb_solve_input [of s bs E N' nnz' dim' vals rows cols b wc]
    by (simp add: path_solved [OF rs] loop_end_def loop_start_vars d_vec_loop_start
        upload_solve_input)
qed

theorem every_solve_starts_from_zero_witness:
  "returned (solve_system 1 example_env 1 1 1 [2] [0, 1] [0] [1] example_wells example_res
               (example_solver 10)) = Inr BDA_SOLVER_SUCCESS
   \<and> d_vec (snd (loop_start (solve_input 1 example_env 1 1 1 [2] [0, 1] [0] [1] example_wells
                               (example_solver 10)))) D_x
       = replicate (nat (N (solve_input 1 example_env 1 1 1 [2] [0, 1] [0] [1] example_wells
                              (example_solver 10)))) 0
   \<and> d_vec (snd (loop_start (solve_input 1 example_env 1 1 1 [2] [0, 1] [0] [1] example_wells
                               (example_solver 10)))) D_r
       = d_vec (snd (loop_start (solve_input 1 example_env 1 1 1 [2] [0, 1] [0] [1] example_wells
                               (example_solver 10)))) D_b
   \<and> opencl_ilu_reorder (example_solver 10) = NONE
   \<and> rb (solve_input 1 example_env 1 1 1 [2] [0, 1] [0] [1] example_wells (example_solver 10))
       = [1]"
proof -
  have h: "returned (solve_system 1 example_env 1 1 1 [2] [0, 1] [0] [1] example_wells example_res
               (example_solver 10)) = Inr BDA_SOLVER_SUCCESS"
    by (simp add: path_solved [OF example_reaches_solve])
  have n: "opencl_ilu_reorder (example_solver 10) = NONE"
    by (simp add: example_solver_def)
  show ?thesis
    using every_solve_starts_from_zero [OF h] h n by blast
qed

lemma reorder_length:
  "length (reorderBlockedVectorByPattern bs (int nb) v ord rv) = max (bs * nb) (length rv)"
  by (simp add: reorderBlockedVectorByPattern_def)

lemma reorder_nth:
  "k < bs * nb \<Longrightarrow>
   reorderBlockedVectorByPattern bs (int nb) v ord rv ! k
     = v ! (bs * nat (ord ! (k div bs)) + k mod bs)"
  by (simp add: reorderBlockedVectorByPattern_def nth_append)

lemma block_index:
  fixes bs t r :: nat
  assumes "r < bs"
  shows "(bs * t + r) div bs = t" and "(bs * t + r) mod bs = r"
  using assms by simp_all

lemma block_bound:
  fixes bs nb t r :: nat
  assumes "t < nb" and "r < bs"
  shows "bs * t + r < bs * nb"
proof -
  have "bs * t + r < bs * t + bs" using assms(2) by simp
  also have "\<dots> = bs * (t + 1)" by simp
  also have "\<dots> \<le> bs * nb" using assms(1) by (intro mult_le_mono2) simp
  finally show ?thesis .
qed

text \<open>Reordering by a pattern and then by its inverse gives the vector back.\<close>

lemma reorder_round_trip:
  assumes bs: "0 < bs"
    and inv: "\<forall>i<nb. 0 \<le> to ! i \<and> nat (to ! i) < nb \<and> from ! nat (to ! i) = int i"
    and ly: "length y = bs * nb" and lx: "length x = bs * nb"
    and dev: "\<forall>j<bs * nb. dx ! j = reorderBlockedVectorByPattern bs (int nb) y from rv ! j"
  shows "reorderBlockedVectorByPattern bs (int nb) dx to x = y"
proof (rule nth_equalityI)
  show "length (reorderBlockedVectorByPattern bs (int nb) dx to x) = length y"
    by (simp add: reorder_length lx ly)
next
  fix k assume "k < length (reorderBlockedVectorByPattern bs (int nb) dx to x)"
  then have k: "k < bs * nb"
    by (simp add: reorder_length lx)
  have kd: "k div bs < nb"
    using k bs by (simp add: less_mult_imp_div_less mult.commute)
  have km: "k mod bs < bs"
    using bs by simp
  let ?t = "nat (to ! (k div bs))"
  have t: "?t < nb" and f: "from ! ?t = int (k div bs)"
    using inv kd by auto
  have j: "bs * ?t + k mod bs < bs * nb"
    by (rule block_bound [OF t km])
  have "reorderBlockedVectorByPattern bs (int nb) dx to x ! k = dx ! (bs * ?t + k mod bs)"
    by (rule reorder_nth [OF k])
  also have "\<dots> = reorderBlockedVectorByPattern bs (int nb) y from rv ! (bs * ?t + k mod bs)"
    using dev j by simp
  also have "\<dots> = y ! (bs * nat (from ! ((bs * ?t + k mod bs) div bs))
                        + (bs * ?t + k mod bs) mod bs)"
    by (rule reorder_nth [OF j])
  also have "\<dots> = y ! (bs * (k div bs) + k mod bs)"
    by (simp add: block_index [OF km] f)
  also have "\<dots> = y ! k"
    by simp
  finally show "reorderBlockedVectorByPattern bs (int nb) dx to x ! k = y ! k" .
qed

text \<open>
  C6. With a reordering strategy other than \<open>none\<close>, \<^verbatim>\<open>update_system\<close> writes into
  \<open>rb\<close> the right-hand side permuted by \<open>fromOrder\<close>, and \<^verbatim>\<open>get_result\<close> reads the
  device solution into \<open>rb\<close> and permutes it by \<open>toOrder\<close> into the caller's array. With
  \<open>none\<close>, \<open>rb\<close> is the caller's \<open>b\<close> itself and the solution is read straight into
  the caller's array. In both cases the caller gets the solution in natural block order:
  when the two patterns are inverse to each other and the device holds the reordered
  layout of a vector \<open>y\<close> of \<open>Nb\<close> blocks (as \<^verbatim>\<open>update_system\<close> lays a vector out),
  \<^verbatim>\<open>get_result\<close> returns \<open>y\<close>.
\<close>
theorem solution_in_natural_order:
  "(opencl_ilu_reorder s \<noteq> NONE \<longrightarrow>
      rb (fst (update_system bs vals b wc s))
        = reorderBlockedVectorByPattern bs (mat_Nb (mat s)) b (fromOrder s) (rb s)
      \<and> fst (get_result bs x s)
        = reorderBlockedVectorByPattern bs (mat_Nb (mat s))
            (take (nat (N s)) (d_vec s D_x) @ drop (nat (N s)) (rb s)) (toOrder s) x)
   \<and> (opencl_ilu_reorder s = NONE \<longrightarrow>
      rb (fst (update_system bs vals b wc s)) = b
      \<and> fst (get_result bs x s) = take (nat (N s)) (d_vec s D_x) @ drop (nat (N s)) x)
   \<and> (0 < bs \<and> mat_Nb (mat s) = int nb \<and> N s = int (bs * nb)
       \<and> length y = bs * nb \<and> length x = bs * nb
       \<and> (if opencl_ilu_reorder s = NONE then d_vec s D_x = y
           else d_vec s D_x = reorderBlockedVectorByPattern bs (int nb) y (fromOrder s) []
                \<and> (\<forall>i<nb. 0 \<le> toOrder s ! i \<and> nat (toOrder s ! i) < nb
                            \<and> fromOrder s ! nat (toOrder s ! i) = int i))
      \<longrightarrow> fst (get_result bs x s) = y)"
proof (intro conjI impI)
  assume "opencl_ilu_reorder s \<noteq> NONE"
  then show "rb (fst (update_system bs vals b wc s))
        = reorderBlockedVectorByPattern bs (mat_Nb (mat s)) b (fromOrder s) (rb s)"
    by (simp add: update_system_def log_event_def Let_def)
next
  assume "opencl_ilu_reorder s \<noteq> NONE"
  then show "fst (get_result bs x s)
        = reorderBlockedVectorByPattern bs (mat_Nb (mat s))
            (take (nat (N s)) (d_vec s D_x) @ drop (nat (N s)) (rb s)) (toOrder s) x"
    by (simp add: get_result_def enqueueReadBuffer_def Let_def)
next
  assume "opencl_ilu_reorder s = NONE"
  then show "rb (fst (update_system bs vals b wc s)) = b"
    by (simp add: update_system_def log_event_def Let_def)
next
  assume "opencl_ilu_reorder s = NONE"
  then show "fst (get_result bs x s) = take (nat (N s)) (d_vec s D_x) @ drop (nat (N s)) x"
    by (simp add: get_result_def enqueueReadBuffer_def)
next
  assume a: "0 < bs \<and> mat_Nb (mat s) = int nb \<and> N s = int (bs * nb)
       \<and> length y = bs * nb \<and> length x = bs * nb
       \<and> (if opencl_ilu_reorder s = NONE then d_vec s D_x = y
           else d_vec s D_x = reorderBlockedVectorByPattern bs (int nb) y (fromOrder s) []
                \<and> (\<forall>i<nb. 0 \<le> toOrder s ! i \<and> nat (toOrder s ! i) < nb
                            \<and> fromOrder s ! nat (toOrder s ! i) = int i))"
  have nn: "nat (N s) = bs * nb"
    using a by (simp del: of_nat_mult)
  show "fst (get_result bs x s) = y"
  proof (cases "opencl_ilu_reorder s = NONE")
    case True
    with a nn show ?thesis
      by (simp add: get_result_def enqueueReadBuffer_def del: of_nat_mult)
  next
    case False
    with a have dx: "d_vec s D_x = reorderBlockedVectorByPattern bs (int nb) y (fromOrder s) []"
      and inv: "\<forall>i<nb. 0 \<le> toOrder s ! i \<and> nat (toOrder s ! i) < nb
                   \<and> fromOrder s ! nat (toOrder s ! i) = int i"
      by simp_all
    have ldx: "length (d_vec s D_x) = bs * nb"
      by (simp add: dx reorder_length)
    have dev: "\<forall>j<bs * nb. (take (nat (N s)) (d_vec s D_x) @ drop (nat (N s)) (rb s)) ! j
                 = reorderBlockedVectorByPattern bs (int nb) y (fromOrder s) [] ! j"
      using nn ldx dx by (simp add: nth_append)
    have "reorderBlockedVectorByPattern bs (int nb)
            (take (nat (N s)) (d_vec s D_x) @ drop (nat (N s)) (rb s)) (toOrder s) x = y"
      using a by (intro reorder_round_trip [OF _ inv _ _ dev]) simp_all
    with False a show ?thesis
      by (simp add: get_result_def enqueueReadBuffer_def Let_def del: of_nat_mult)
  qed
qed

theorem solution_in_natural_order_witness:
  "opencl_ilu_reorder example_reordered \<noteq> NONE
   \<and> d_vec example_reordered D_x
       = reorderBlockedVectorByPattern 1 2 [5, 7] (fromOrder example_reordered) []
   \<and> fst (get_result 1 [0, 0] example_reordered) = [5, 7]
   \<and> opencl_ilu_reorder (example_uploaded 10 [1]) = NONE
   \<and> rb (fst (update_system 1 [2] [1] example_wells (example_uploaded 10 [1]))) = [1]"
proof -
  have r: "opencl_ilu_reorder example_reordered \<noteq> NONE"
    by (simp add: example_reordered_def)
  have dx: "d_vec example_reordered D_x
       = reorderBlockedVectorByPattern 1 2 [5, 7] (fromOrder example_reordered) []"
    by (simp add: example_reordered_def reorderBlockedVectorByPattern_def upt_rec)
  have inv: "\<forall>i<2. 0 \<le> toOrder example_reordered ! i \<and> nat (toOrder example_reordered ! i) < 2
       \<and> fromOrder example_reordered ! nat (toOrder example_reordered ! i) = int i"
    by (simp add: example_reordered_def less_Suc_eq numeral_2_eq_2)
  have h: "0 < (1::nat) \<and> mat_Nb (mat example_reordered) = int 2
       \<and> N example_reordered = int (1 * 2)
       \<and> length [5, 7 :: real] = 1 * 2 \<and> length [0, 0 :: real] = 1 * 2
       \<and> (if opencl_ilu_reorder example_reordered = NONE then d_vec example_reordered D_x = [5, 7]
           else d_vec example_reordered D_x
                  = reorderBlockedVectorByPattern 1 (int 2) [5, 7] (fromOrder example_reordered) []
                \<and> (\<forall>i<2. 0 \<le> toOrder example_reordered ! i
                      \<and> nat (toOrder example_reordered ! i) < 2
                      \<and> fromOrder example_reordered ! nat (toOrder example_reordered ! i) = int i))"
    using r dx inv by (simp add: example_reordered_def example_solver_def)
  have g: "fst (get_result 1 [0, 0] example_reordered) = [5, 7]"
    using solution_in_natural_order [of example_reordered 1 _ _ _ "[0, 0]" 2 "[5, 7]"] h
    by blast
  have n: "opencl_ilu_reorder (example_uploaded 10 [1]) = NONE"
    by (simp add: example_uploaded_def example_solver_def)
  have u: "rb (fst (update_system 1 [2] [1] example_wells (example_uploaded 10 [1]))) = [1]"
    using solution_in_natural_order [of "example_uploaded 10 [1]" 1 "[2]" "[1]" example_wells] n
    by blast
  show ?thesis
    using r dx g n u by simp
qed

declare spec_loop.simps [simp del]

lemma dot_k_inner:
  assumes "length a = n" "length b = n"
  shows "dot_k a b (int n) = inner_prod a b"
proof -
  have "map (\<lambda>i. a ! i * b ! i) [0..<n] = map (\<lambda>(x, y). x * y) (zip a b)"
    using assms by (intro nth_equalityI) simp_all
  then show ?thesis
    by (simp add: dot_k_def inner_prod_def)
qed

lemma norm_k_vnorm: "length a = n \<Longrightarrow> norm_k a (int n) = vnorm a"
  by (simp add: norm_k_def vnorm_def dot_k_inner)

lemma axpy_k_vadd:
  assumes "length a = n" "length b = n"
  shows "axpy_k a c b (int n) = vadd b (smult c a)"
  using assms by (intro nth_equalityI) (simp_all add: axpy_k_def vadd_def smult_def)

lemma axpy_k_vsub:
  assumes "length a = n" "length b = n"
  shows "axpy_k a (- c) b (int n) = vsub b (smult c a)"
  using assms by (intro nth_equalityI) (simp_all add: axpy_k_def vsub_def smult_def)

lemma custom_k_vadd:
  assumes "length p = n" "length v = n" "length r = n"
  shows "custom_k p v r om be (int n) = vadd r (smult be (vsub p (smult om v)))"
  using assms by (intro nth_equalityI) (simp_all add: custom_k_def vadd_def vsub_def smult_def)

lemma length_vops:
  "length (vadd a b) = min (length a) (length b)" "length (vsub a b) = min (length a) (length b)"
  "length (smult c a) = length a"
  by (simp_all add: vadd_def vsub_def smult_def)

lemma spec_ops_of_host:
  "host_part s' = host_part s \<Longrightarrow> spec_ops_of bs E W s' = spec_ops_of bs E W s"
  using host_fields(8-12) [of s' s] by (simp add: spec_ops_of_def)

lemma log_event_fields: "d_vec (log_event e s) = d_vec s" "N (log_event e s) = N s"
  by (simp_all add: log_event_def)

lemma kernel_axpy_fields:
  "d_vec (kernel_axpy a c out s) = (d_vec s)(out := axpy_k (d_vec s a) c (d_vec s out) (N s))"
  "host_part (kernel_axpy a c out s) = host_part s"
  by (simp_all add: kernel_axpy_def log_event_def host_part_def)

lemma kernel_custom_fields:
  "d_vec (kernel_custom p v r om be s)
     = (d_vec s)(p := custom_k (d_vec s p) (d_vec s v) (d_vec s r) om be (N s))"
  "host_part (kernel_custom p v r om be s) = host_part s"
  by (simp_all add: kernel_custom_def log_event_def host_part_def)

lemma prec_apply_buf_fields:
  "d_vec (prec_apply_buf E x y s) = (d_vec s)(y := op_M (spec_ops_of bs E W s) (d_vec s x))"
  "host_part (prec_apply_buf E x y s) = host_part s"
  by (simp_all add: prec_apply_buf_def log_event_def host_part_def spec_ops_of_def)

lemma kernel_spmv_fields:
  "d_vec (kernel_spmv bs E x y s) = (d_vec s)(y := op_A (spec_ops_of bs E W s) (d_vec s x))"
  "host_part (kernel_spmv bs E x y s) = host_part s"
  by (simp_all add: kernel_spmv_def log_event_def host_part_def spec_ops_of_def)

lemma well_apply_fields:
  "d_vec (well_apply W x y s)
     = (d_vec s)(y := op_W (spec_ops_of bs E W s) (d_vec s x) (d_vec s y))"
  "host_part (well_apply W x y s) = host_part s"
  by (simp_all add: well_apply_def log_event_def host_part_def spec_ops_of_def)

lemma host_N: "host_part s' = host_part s \<Longrightarrow> N s' = N s"
  by (rule host_fields(3))

lemma first_half_refines:
  assumes wf: "loop_wf n ls" and ops: "ops_wf n (spec_ops_of bs E W (snd ls))"
    and nw: "getNumWells W = 0 \<longrightarrow> (\<forall>x y. op_W (spec_ops_of bs E W (snd ls)) x y = y)"
  shows "abstraction (first_half bs E W ls) =
           spec_first_half (spec_ops_of bs E W (snd ls)) (abstraction ls)"
    and "loop_wf n (first_half bs E W ls)"
proof -
  obtain l s where ls: "ls = (l, s)" by (cases ls)
  define P where "P = spec_ops_of bs E W s"
  define x r rw p v where "x = d_vec s D_x" and "r = d_vec s D_r" and "rw = d_vec s D_rw"
    and "p = d_vec s D_p" and "v = d_vec s D_v"
  have len: "length x = n" "length r = n" "length rw = n" "length p = n" "length v = n"
    and N: "N s = int n"
    using wf by (simp_all add: loop_wf_def ls x_def r_def rw_def p_def v_def)
  have opw: "ops_wf n P"
    using ops by (simp add: P_def ls)
  have nw': "getNumWells W = 0 \<Longrightarrow> op_W P a b = b" for a b
    using nw by (simp add: P_def ls)
  define rho1 where "rho1 = inner_prod rw r"
  define beta1 where "beta1 = rho1 / rho l * (alpha l / omega l)"
  define p1 where "p1 = (if it l > 1 then vadd r (smult beta1 (vsub p (smult (omega l) v))) else p)"
  define pw where "pw = op_M P p1"
  define v1 where "v1 = op_W P pw (op_A P pw)"
  define alpha1 where "alpha1 = rho1 / inner_prod rw v1"
  define r1 where "r1 = vsub r (smult alpha1 v1)"
  define x1 where "x1 = vadd x (smult alpha1 pw)"
  have lp1: "length p1 = n"
    using len by (simp add: p1_def length_vops)
  have lpw: "length pw = n"
    using opw lp1 by (simp add: pw_def ops_wf_def)
  have lv1: "length v1 = n"
    using opw lpw by (simp add: v1_def ops_wf_def)
  have lr1: "length r1 = n" and lx1: "length x1 = n"
    using len lv1 lpw by (simp_all add: r1_def x1_def length_vops)
  \<comment> \<open>the object after each call of the half-step\<close>
  define s1 where "s1 = log_event (Ev_dot D_rw D_r) s"
  define s2 where "s2 = (if 1 < it l then kernel_custom D_p D_v D_r (omega l) beta1 s1 else s1)"
  define s3 where "s3 = prec_apply_buf E D_p D_pw s2"
  define s4 where "s4 = kernel_spmv bs E D_pw D_v s3"
  define s5 where "s5 = (if 0 < getNumWells W then well_apply W D_pw D_v s4 else s4)"
  define s6 where "s6 = log_event (Ev_dot D_rw D_v) s5"
  define s7 where "s7 = kernel_axpy D_v (- alpha1) D_r s6"
  define s8 where "s8 = kernel_axpy D_pw alpha1 D_x s7"
  define s9 where "s9 = log_event (Ev_norm D_r) s8"
  have h1: "host_part s1 = host_part s"
    by (simp add: s1_def host_log_event)
  have h2: "host_part s2 = host_part s"
    by (simp add: s2_def kernel_custom_fields h1)
  have h3: "host_part s3 = host_part s"
    by (simp add: s3_def prec_apply_buf_fields(2) h2)
  have h4: "host_part s4 = host_part s"
    by (simp add: s4_def kernel_spmv_fields(2) h3)
  have h5: "host_part s5 = host_part s"
    by (simp add: s5_def well_apply_fields(2) h4)
  have h6: "host_part s6 = host_part s"
    by (simp add: s6_def host_log_event h5)
  have h7: "host_part s7 = host_part s"
    by (simp add: s7_def kernel_axpy_fields h6)
  have h8: "host_part s8 = host_part s"
    by (simp add: s8_def kernel_axpy_fields h7)
  have h9: "host_part s9 = host_part s"
    by (simp add: s9_def host_log_event h8)
  note Ns = host_N [OF h1] host_N [OF h2] host_N [OF h3] host_N [OF h4] host_N [OF h5]
    host_N [OF h6] host_N [OF h7] host_N [OF h8] host_N [OF h9]
  note Ps = spec_ops_of_host [OF h2, of bs E W] spec_ops_of_host [OF h3, of bs E W]
    spec_ops_of_host [OF h4, of bs E W]
  have d1: "d_vec s1 = d_vec s"
    by (simp add: s1_def log_event_fields)
  have d2: "d_vec s2 = (d_vec s)(D_p := p1)"
  proof (cases "1 < it l")
    case True
    then show ?thesis
      using len
      by (simp add: s2_def kernel_custom_fields d1 Ns N custom_k_vadd p1_def p_def v_def r_def)
  next
    case False
    then show ?thesis
      by (simp add: s2_def d1 p1_def p_def)
  qed
  have d3: "d_vec s3 = (d_vec s)(D_p := p1, D_pw := pw)"
    by (simp add: s3_def prec_apply_buf_fields(1) [where bs = bs and W = W] d2 Ps pw_def P_def)
  have d4: "d_vec s4 = (d_vec s)(D_p := p1, D_pw := pw, D_v := op_A P pw)"
    by (simp add: s4_def kernel_spmv_fields(1) [where W = W] d3 Ps P_def)
  have d5: "d_vec s5 = (d_vec s)(D_p := p1, D_pw := pw, D_v := v1)"
  proof (cases "0 < getNumWells W")
    case True
    then show ?thesis
      by (simp add: s5_def well_apply_fields(1) [where bs = bs and E = E] d4 Ps v1_def P_def)
  next
    case False
    then show ?thesis
      using nw' [of pw "op_A P pw"] by (simp add: s5_def d4 v1_def)
  qed
  have d6: "d_vec s6 = d_vec s5"
    by (simp add: s6_def log_event_fields)
  have d7: "d_vec s7 = (d_vec s)(D_p := p1, D_pw := pw, D_v := v1, D_r := r1)"
    using len lv1
    by (simp add: s7_def kernel_axpy_fields d6 d5 Ns N axpy_k_vsub r1_def r_def)
  have d8: "d_vec s8 = (d_vec s)(D_p := p1, D_pw := pw, D_v := v1, D_r := r1, D_x := x1)"
    using len lpw
    by (simp add: s8_def kernel_axpy_fields d7 Ns N axpy_k_vadd x1_def x_def)
  have d9: "d_vec s9 = d_vec s8"
    by (simp add: s9_def log_event_fields)
  \<comment> \<open>the three reductions\<close>
  have e1: "kernel_dot D_rw D_r s = (rho1, s1)"
    using len by (simp add: kernel_dot_def s1_def N dot_k_inner rho1_def rw_def r_def)
  have e6: "kernel_dot D_rw D_v s5 = (inner_prod rw v1, s6)"
    using len lv1 by (simp add: kernel_dot_def s6_def d5 Ns N dot_k_inner rw_def)
  have e9: "kernel_norm D_r s8 = (vnorm r1, s9)"
    using lr1 by (simp add: kernel_norm_def s9_def d8 Ns N norm_k_vnorm)
  have run: "first_half bs E W (l, s) = (l\<lparr>rho := rho1, alpha := alpha1, norm_v := vnorm r1\<rparr>, s9)"
    unfolding first_half_def
    by (simp only: prod.case Let_def e1 beta1_def [symmetric] s2_def [symmetric]
        s3_def [symmetric] s4_def [symmetric] s5_def [symmetric] e6 alpha1_def [symmetric]
        s7_def [symmetric] s8_def [symmetric] e9)
  have spec: "spec_first_half P (abstraction (l, s)) =
      \<lparr>sp_x = x1, sp_r = r1, sp_rw = rw, sp_p = p1, sp_v = v1, sp_rho = rho1,
       sp_alpha = alpha1, sp_omega = omega l, sp_norm = vnorm r1, sp_it = it l\<rparr>"
    by (simp add: spec_first_half_def abstraction_def Let_def x1_def r1_def alpha1_def v1_def
        pw_def p1_def beta1_def rho1_def x_def r_def rw_def p_def v_def)
  show "abstraction (first_half bs E W ls) =
           spec_first_half (spec_ops_of bs E W (snd ls)) (abstraction ls)"
    unfolding ls snd_conv P_def [symmetric] spec run
    by (simp add: abstraction_def d9 d8 rw_def)
  show "loop_wf n (first_half bs E W ls)"
    unfolding ls run
    using len lx1 lr1 lp1 lv1 N by (simp add: loop_wf_def d9 d8 Ns rw_def)
qed

lemma second_half_refines:
  assumes wf: "loop_wf n ls" and ops: "ops_wf n (spec_ops_of bs E W (snd ls))"
    and nw: "getNumWells W = 0 \<longrightarrow> (\<forall>x y. op_W (spec_ops_of bs E W (snd ls)) x y = y)"
  shows "abstraction (second_half bs E W ls) =
           spec_second_half (spec_ops_of bs E W (snd ls)) (abstraction ls)"
    and "loop_wf n (second_half bs E W ls)"
proof -
  obtain l s where ls: "ls = (l, s)" by (cases ls)
  define P where "P = spec_ops_of bs E W s"
  define x r where "x = d_vec s D_x" and "r = d_vec s D_r"
  have len: "length x = n" "length r = n" "length (d_vec s D_rw) = n"
    "length (d_vec s D_p) = n" "length (d_vec s D_v) = n"
    and N: "N s = int n"
    using wf by (simp_all add: loop_wf_def ls x_def r_def)
  have opw: "ops_wf n P"
    using ops by (simp add: P_def ls)
  have nw': "getNumWells W = 0 \<Longrightarrow> op_W P a b = b" for a b
    using nw by (simp add: P_def ls)
  define sv where "sv = op_M P r"
  define t where "t = op_W P sv (op_A P sv)"
  define omega1 where "omega1 = inner_prod t r / inner_prod t t"
  define x1 where "x1 = vadd x (smult omega1 sv)"
  define r1 where "r1 = vsub r (smult omega1 t)"
  have lsv: "length sv = n"
    using opw len by (simp add: sv_def ops_wf_def)
  have lt: "length t = n"
    using opw lsv by (simp add: t_def ops_wf_def)
  have lr1: "length r1 = n" and lx1: "length x1 = n"
    using len lt lsv by (simp_all add: r1_def x1_def length_vops)
  define s1 where "s1 = prec_apply_buf E D_r D_s s"
  define s2 where "s2 = kernel_spmv bs E D_s D_t s1"
  define s3 where "s3 = (if 0 < getNumWells W then well_apply W D_s D_t s2 else s2)"
  define s4 where "s4 = log_event (Ev_dot D_t D_r) s3"
  define s5 where "s5 = log_event (Ev_dot D_t D_t) s4"
  define s6 where "s6 = kernel_axpy D_s omega1 D_x s5"
  define s7 where "s7 = kernel_axpy D_t (- omega1) D_r s6"
  define s8 where "s8 = log_event (Ev_norm D_r) s7"
  have h1: "host_part s1 = host_part s"
    by (simp add: s1_def prec_apply_buf_fields(2))
  have h2: "host_part s2 = host_part s"
    by (simp add: s2_def kernel_spmv_fields(2) h1)
  have h3: "host_part s3 = host_part s"
    by (simp add: s3_def well_apply_fields(2) h2)
  have h4: "host_part s4 = host_part s"
    by (simp add: s4_def host_log_event h3)
  have h5: "host_part s5 = host_part s"
    by (simp add: s5_def host_log_event h4)
  have h6: "host_part s6 = host_part s"
    by (simp add: s6_def kernel_axpy_fields h5)
  have h7: "host_part s7 = host_part s"
    by (simp add: s7_def kernel_axpy_fields h6)
  have h8: "host_part s8 = host_part s"
    by (simp add: s8_def host_log_event h7)
  note Ns = host_N [OF h1] host_N [OF h2] host_N [OF h3] host_N [OF h4] host_N [OF h5]
    host_N [OF h6] host_N [OF h7] host_N [OF h8]
  note Ps = spec_ops_of_host [OF h1, of bs E W] spec_ops_of_host [OF h2, of bs E W]
  have d1: "d_vec s1 = (d_vec s)(D_s := sv)"
    by (simp add: s1_def prec_apply_buf_fields(1) [where bs = bs and W = W] sv_def P_def r_def)
  have d2: "d_vec s2 = (d_vec s)(D_s := sv, D_t := op_A P sv)"
    by (simp add: s2_def kernel_spmv_fields(1) [where W = W] d1 Ps P_def)
  have d3: "d_vec s3 = (d_vec s)(D_s := sv, D_t := t)"
  proof (cases "0 < getNumWells W")
    case True
    then show ?thesis
      by (simp add: s3_def well_apply_fields(1) [where bs = bs and E = E] d2 Ps t_def P_def)
  next
    case False
    then show ?thesis
      using nw' [of sv "op_A P sv"] by (simp add: s3_def d2 t_def)
  qed
  have d4: "d_vec s4 = d_vec s3" and d5: "d_vec s5 = d_vec s3"
    by (simp_all add: s4_def s5_def log_event_fields)
  have d6: "d_vec s6 = (d_vec s)(D_s := sv, D_t := t, D_x := x1)"
    using len lsv
    by (simp add: s6_def kernel_axpy_fields d5 d3 Ns N axpy_k_vadd x1_def x_def)
  have d7: "d_vec s7 = (d_vec s)(D_s := sv, D_t := t, D_x := x1, D_r := r1)"
    using len lt
    by (simp add: s7_def kernel_axpy_fields d6 Ns N axpy_k_vsub r1_def r_def)
  have d8: "d_vec s8 = d_vec s7"
    by (simp add: s8_def log_event_fields)
  have e3: "kernel_dot D_t D_r s3 = (inner_prod t r, s4)"
    using len lt by (simp add: kernel_dot_def s4_def d3 Ns N dot_k_inner r_def)
  have e4: "kernel_dot D_t D_t s4 = (inner_prod t t, s5)"
    using lt by (simp add: kernel_dot_def s5_def d4 d3 Ns N dot_k_inner)
  have e7: "kernel_norm D_r s7 = (vnorm r1, s8)"
    using lr1 by (simp add: kernel_norm_def s8_def d7 Ns N norm_k_vnorm)
  have run: "second_half bs E W (l, s) = (l\<lparr>omega := omega1, norm_v := vnorm r1\<rparr>, s8)"
    unfolding second_half_def
    by (simp only: prod.case Let_def s1_def [symmetric] s2_def [symmetric] s3_def [symmetric]
        e3 e4 omega1_def [symmetric] s6_def [symmetric] s7_def [symmetric] e7)
  have spec: "spec_second_half P (abstraction (l, s)) =
      \<lparr>sp_x = x1, sp_r = r1, sp_rw = d_vec s D_rw, sp_p = d_vec s D_p, sp_v = d_vec s D_v,
       sp_rho = rho l, sp_alpha = alpha l, sp_omega = omega1, sp_norm = vnorm r1,
       sp_it = it l\<rparr>"
    by (simp add: spec_second_half_def abstraction_def Let_def x1_def r1_def omega1_def t_def
        sv_def x_def r_def)
  show "abstraction (second_half bs E W ls) =
           spec_second_half (spec_ops_of bs E W (snd ls)) (abstraction ls)"
    unfolding ls snd_conv P_def [symmetric] spec run
    by (simp add: abstraction_def d8 d7)
  show "loop_wf n (second_half bs E W ls)"
    unfolding ls run
    using len lx1 lr1 N by (simp add: loop_wf_def d8 d7 Ns)
qed

lemma abstraction_it:
  "abstraction ((fst ls)\<lparr>it := c\<rparr>, snd ls) = (abstraction ls)\<lparr>sp_it := c\<rparr>"
  by (simp add: abstraction_def)

lemma abstraction_fields:
  "sp_it (abstraction ls) = it (fst ls)" "sp_norm (abstraction ls) = norm_v (fst ls)"
  by (simp_all add: abstraction_def)

lemma loop_wf_it: "loop_wf n ((fst ls)\<lparr>it := c\<rparr>, snd ls) = loop_wf n ls"
  by (simp add: loop_wf_def)

lemma pbicgstab_loop_refines:
  assumes "loop_wf n ls" and "spec_ops_of bs E W (snd ls) = P" and "ops_wf n P"
    and "getNumWells W = 0 \<longrightarrow> (\<forall>x y. op_W P x y = y)"
  shows "abstraction (pbicgstab_loop bs E W m tol n0 ls) = spec_loop P m tol n0 (abstraction ls)"
  using assms
proof (induction bs E W m tol n0 ls rule: pbicgstab_loop.induct)
  case (1 bs E W m tol n0 ls)
  define ls1 where "ls1 = first_half bs E W ls"
  define ls1' where "ls1' = ((fst ls1)\<lparr>it := it (fst ls1) + 1/2\<rparr>, snd ls1)"
  define ls2 where "ls2 = second_half bs E W ls1'"
  define ls3 where "ls3 = ((fst ls2)\<lparr>it := it (fst ls2) + 1/2\<rparr>, snd ls2)"
  note wf = "1.prems"(1) and P = "1.prems"(2) and opw = "1.prems"(3) and nw = "1.prems"(4)
  define st where "st = abstraction ls"
  define st1 where "st1 = spec_first_half P st"
  define st1' where "st1' = st1\<lparr>sp_it := sp_it st1 + 1/2\<rparr>"
  define st2 where "st2 = spec_second_half P st1'"
  define st3 where "st3 = st2\<lparr>sp_it := sp_it st2 + 1/2\<rparr>"
  have a1: "abstraction ls1 = st1" and w1: "loop_wf n ls1"
    unfolding ls1_def st1_def st_def
    using first_half_refines [of n ls bs E W] wf opw nw by (simp_all add: P)
  have P1: "spec_ops_of bs E W (snd ls1') = P"
    using spec_ops_of_host [OF host_first_half, of bs E W bs E W ls] P
    by (simp add: ls1'_def ls1_def)
  have w1': "loop_wf n ls1'"
    using w1 by (simp add: ls1'_def loop_wf_it)
  have a1': "abstraction ls1' = st1'"
    unfolding st1'_def a1 [symmetric]
    by (simp add: ls1'_def abstraction_it abstraction_fields)
  have a2: "abstraction ls2 = st2" and w2: "loop_wf n ls2"
    unfolding ls2_def st2_def a1' [symmetric]
    using second_half_refines [of n ls1' bs E W] w1' opw nw
    by (simp_all add: P1)
  have P3: "spec_ops_of bs E W (snd ls3) = P"
    using spec_ops_of_host [OF host_second_half, of bs E W bs E W ls1'] P1
    by (simp add: ls3_def ls2_def)
  have w3: "loop_wf n ls3"
    using w2 by (simp add: ls3_def loop_wf_it)
  have a3: "abstraction ls3 = st3"
    unfolding st3_def a2 [symmetric]
    by (simp add: ls3_def abstraction_it abstraction_fields)
  have a0: "abstraction ls = st"
    by (simp add: st_def)
  have n1: "sp_norm st1 = norm_v (fst ls1)" and n2: "sp_norm st2 = norm_v (fst ls2)"
    and i0: "sp_it st = it (fst ls)"
    unfolding a1 [symmetric] a2 [symmetric] st_def by (simp_all add: abstraction_fields)
  have code: "pbicgstab_loop bs E W m tol n0 ls =
      (if it (fst ls) < real_of_int m then
         if norm_v (fst ls1) < tol * n0 then ls1
         else if norm_v (fst ls2) < tol * n0 then ls2
         else pbicgstab_loop bs E W m tol n0 ls3
       else ls)"
    unfolding ls1_def ls1'_def ls2_def ls3_def
    by (subst pbicgstab_loop.simps) (simp add: Let_def)
  have spec: "spec_loop P m tol n0 st =
      (if real_of_int m \<le> sp_it st then st
       else if sp_norm st1 < tol * n0 then st1
       else if sp_norm st2 < tol * n0 then st2
       else spec_loop P m tol n0 st3)"
    unfolding st1_def st1'_def st2_def st3_def
    by (subst spec_loop.simps) (simp add: Let_def)
  show ?case
  proof (cases "it (fst ls) < real_of_int m \<and> \<not> norm_v (fst ls1) < tol * n0
                \<and> \<not> norm_v (fst ls2) < tol * n0")
    case True
    have IH: "abstraction (pbicgstab_loop bs E W m tol n0 ls3) = spec_loop P m tol n0 (abstraction ls3)"
      unfolding ls3_def ls2_def ls1'_def ls1_def
      by (rule "1.IH" [OF _ refl _ refl])
         (use True w3 P3 opw nw in \<open>simp_all add: ls1_def ls1'_def ls2_def ls3_def\<close>)
    have "abstraction (pbicgstab_loop bs E W m tol n0 ls) = spec_loop P m tol n0 st3"
      using True by (simp add: code IH a3)
    moreover have "spec_loop P m tol n0 st = spec_loop P m tol n0 st3"
      using True by (subst spec) (simp add: n1 n2 i0)
    ultimately show ?thesis
      by (simp add: st_def)
  next
    case False
    have "abstraction (pbicgstab_loop bs E W m tol n0 ls) = spec_loop P m tol n0 st"
      using False
      by (subst spec, subst code) (auto simp: n1 n2 i0 a1 a2 a0 not_less not_le)
    then show ?thesis
      by (simp add: st_def)
  qed
qed

lemma example2_ops:
  "op_A (spec_ops_of 1 example_env2 example_wells1 example_uploaded2) [u, v]
     = [u + 2 * v, 4 * u + v]"
  "op_M (spec_ops_of 1 example_env2 example_wells1 example_uploaded2) x = x"
  "op_W (spec_ops_of 1 example_env2 example_wells1 example_uploaded2) [a, b] [c, d]
     = [c + 3 * a, d + 3 * b]"
  by (simp_all add: spec_ops_of_def example_env2_def example_env_def example_wells1_def
      example_uploaded2_def example_solver_def example_spmv_def eval_nat_numeral)

lemma example2_spec_run:
  "spec_bicgstab (spec_ops_of 1 example_env2 example_wells1 example_uploaded2) 5 (1/100) [1, 0]
     = \<lparr>sp_x = [1/2, - (1/2)], sp_r = [0, 0], sp_rw = [1, 0], sp_p = [1/2, - (3/5)],
        sp_v = [4/5, - (2/5)], sp_rho = 2/5, sp_alpha = 1/2, sp_omega = 1/5, sp_norm = 0,
        sp_it = 3/2\<rparr>"
proof -
  define P where "P = spec_ops_of 1 example_env2 example_wells1 example_uploaded2"
  note ops = example2_ops [folded P_def]
  note alg = inner_prod_def vnorm_def vadd_def vsub_def smult_def
  let ?st0 = "\<lparr>sp_x = [0, 0], sp_r = [1, 0], sp_rw = [1, 0], sp_p = [1, 0], sp_v = [0, 0],
      sp_rho = 1, sp_alpha = 1, sp_omega = 1, sp_norm = 1, sp_it = 1/2\<rparr> :: spec_state"
  let ?st1 = "\<lparr>sp_x = [1/4, 0], sp_r = [0, - 1], sp_rw = [1, 0], sp_p = [1, 0], sp_v = [4, 4],
      sp_rho = 1, sp_alpha = 1/4, sp_omega = 1, sp_norm = 1, sp_it = 1/2\<rparr> :: spec_state"
  let ?st1' = "\<lparr>sp_x = [1/4, 0], sp_r = [0, - 1], sp_rw = [1, 0], sp_p = [1, 0], sp_v = [4, 4],
      sp_rho = 1, sp_alpha = 1/4, sp_omega = 1, sp_norm = 1, sp_it = 1\<rparr> :: spec_state"
  let ?st2 = "\<lparr>sp_x = [1/4, - (1/5)], sp_r = [2/5, - (1/5)], sp_rw = [1, 0], sp_p = [1, 0],
      sp_v = [4, 4], sp_rho = 1, sp_alpha = 1/4, sp_omega = 1/5, sp_norm = sqrt (1/5),
      sp_it = 1\<rparr> :: spec_state"
  let ?st2' = "\<lparr>sp_x = [1/4, - (1/5)], sp_r = [2/5, - (1/5)], sp_rw = [1, 0], sp_p = [1, 0],
      sp_v = [4, 4], sp_rho = 1, sp_alpha = 1/4, sp_omega = 1/5, sp_norm = sqrt (1/5),
      sp_it = 3/2\<rparr> :: spec_state"
  let ?st3 = "\<lparr>sp_x = [1/2, - (1/2)], sp_r = [0, 0], sp_rw = [1, 0], sp_p = [1/2, - (3/5)],
      sp_v = [4/5, - (2/5)], sp_rho = 2/5, sp_alpha = 1/2, sp_omega = 1/5, sp_norm = 0,
      sp_it = 3/2\<rparr> :: spec_state"
  have n0: "vnorm [1, 0] = 1"
    by (simp add: alg)
  have s1: "spec_first_half P ?st0 = ?st1"
    by (simp add: spec_first_half_def Let_def ops alg)
  have s2: "spec_second_half P ?st1' = ?st2"
    by (simp add: spec_second_half_def Let_def ops alg)
  have s3: "spec_first_half P ?st2' = ?st3"
    by (simp add: spec_first_half_def Let_def ops alg)
  have "(1/100)\<^sup>2 \<le> (1/5 :: real)"
    by (simp add: power2_eq_square)
  then have "1/100 \<le> sqrt (1/5)"
    by (rule real_le_rsqrt)
  then have c2: "\<not> sqrt (1/5) < 1/100"
    by (simp only: not_less)
  have l0: "spec_loop P 5 (1/100) 1 ?st0 = spec_loop P 5 (1/100) 1 ?st2'"
    by (subst spec_loop.simps) (use c2 in \<open>simp add: s1 s2 Let_def\<close>)
  have l2: "spec_loop P 5 (1/100) 1 ?st2' = ?st3"
    by (subst spec_loop.simps) (simp add: s3 Let_def)
  show ?thesis
    unfolding P_def [symmetric] spec_bicgstab_def n0
    using l0 l2 by simp
qed

text \<open>
  C1. \<^verbatim>\<open>gpu_pbicgstab\<close> implements the preconditioned BiCGSTAB recurrence of the
  specification. Started with \<open>x = 0\<close> on vectors of length \<open>N\<close>, with operators that
  keep that length and a well apply that adds nothing when there are no wells, the loop
  leaves in \<open>x\<close>, \<open>r\<close>, \<open>rw\<close>, \<open>p\<close>, \<open>v\<close> and in \<open>rho\<close>, \<open>alpha\<close>,
  \<open>omega\<close>, the norm and the counter \<open>it\<close> exactly what the recurrence
  \<open>spec_bicgstab\<close> computes: \<open>rho = <rw,r>\<close>; \<open>p = r + beta*(p - omega*v)\<close> with
  \<open>beta = (rho/rho_prev)*(alpha/omega)\<close> only when \<open>it > 1\<close>; \<open>pw\<close> the
  preconditioned \<open>p\<close>; \<open>v = A*pw\<close> plus the wells; \<open>alpha = rho/<rw,v>\<close>;
  \<open>r -= alpha*v\<close>, \<open>x += alpha*pw\<close>; then \<open>s\<close> the preconditioned \<open>r\<close>;
  \<open>t = A*s\<close> plus the wells; \<open>omega = <t,r>/<t,t>\<close>; \<open>x += omega*s\<close>,
  \<open>r -= omega*t\<close>; the counter advancing by 0.5 per half-step. The result record is
  computed from the recurrence's final counter and norm. This holds for \<open>maxit < 2^23\<close>,
  where the \<^verbatim>\<open>float\<close> counter of the source is exact: the loop with that counter
  returns, and returns the state described.
\<close>
theorem gpu_pbicgstab_implements_recurrence:
  assumes "err s = 0" and "N s = int n" and "length (d_vec s D_b) = n"
    and "d_vec s D_x = replicate n 0"
    and "ops_wf n (spec_ops_of bs E W s)"
    and "getNumWells W = 0 \<longrightarrow> (\<forall>x y. wc_apply W x y (d_toOrder s) = y)"
    and "maxit s < 8388608"
  shows "pbicgstab_loop_float bs E W (maxit s) (tolerance s) (norm_v (fst (loop_start s)))
           (loop_start s)
       = Some (loop_end bs E W s)
    \<and> abstraction (loop_end bs E W s)
       = spec_bicgstab (spec_ops_of bs E W s) (maxit s) (tolerance s) (d_vec s D_b)
    \<and> fst (gpu_pbicgstab bs E W s) = snd (loop_end bs E W s)
    \<and> snd (gpu_pbicgstab bs E W s)
       = Inr \<lparr>iterations =
                min (sp_it (spec_bicgstab (spec_ops_of bs E W s) (maxit s) (tolerance s)
                             (d_vec s D_b)))
                    (real_of_int (maxit s)),
              reduction =
                sp_norm (spec_bicgstab (spec_ops_of bs E W s) (maxit s) (tolerance s)
                           (d_vec s D_b))
                / vnorm (d_vec s D_b),
              conv_rate =
                (sp_norm (spec_bicgstab (spec_ops_of bs E W s) (maxit s) (tolerance s)
                            (d_vec s D_b))
                 / vnorm (d_vec s D_b))
                powr (1 / sp_it (spec_bicgstab (spec_ops_of bs E W s) (maxit s) (tolerance s)
                                   (d_vec s D_b))),
              converged =
                (sp_it (spec_bicgstab (spec_ops_of bs E W s) (maxit s) (tolerance s)
                          (d_vec s D_b))
                 \<noteq> real_of_int (maxit s) + 1/2)\<rparr>"
proof -
  define b where "b = d_vec s D_b"
  define P where "P = spec_ops_of bs E W s"
  have lb: "length b = n" and tb: "take n b = b"
    using assms(3) by (simp_all add: b_def)
  have Nn: "nat (N s) = n"
    using assms(2) by simp
  have dv: "d_vec (snd (loop_start s)) =
      (d_vec s)(D_v := replicate n 0, D_r := b, D_rw := b, D_p := b)"
    by (simp add: d_vec_loop_start Nn b_def [symmetric] tb)
  have N0: "N (snd (loop_start s)) = int n"
    using host_N [OF host_loop_start, of s] assms(2) by simp
  have nv: "norm_v (fst (loop_start s)) = vnorm b"
    using lb by (simp add: loop_start_vars dv assms(2) norm_k_vnorm)
  have wf: "loop_wf n (loop_start s)"
    using lb assms(4) by (simp add: loop_wf_def N0 dv)
  have P0: "spec_ops_of bs E W (snd (loop_start s)) = P"
    unfolding P_def by (rule spec_ops_of_host [OF host_loop_start])
  have nw: "getNumWells W = 0 \<longrightarrow> (\<forall>x y. op_W P x y = y)"
    using assms(6) by (simp add: P_def spec_ops_of_def)
  have opw: "ops_wf n P"
    using assms(5) by (simp add: P_def)
  have a0: "abstraction (loop_start s) =
      \<lparr>sp_x = replicate (length b) 0, sp_r = b, sp_rw = b, sp_p = b,
       sp_v = replicate (length b) 0, sp_rho = 1, sp_alpha = 1, sp_omega = 1,
       sp_norm = vnorm b, sp_it = 1/2\<rparr>"
    using nv by (simp add: abstraction_def dv assms(4) lb loop_start_vars)
  have fin: "abstraction (loop_end bs E W s) = spec_bicgstab P (maxit s) (tolerance s) b"
    unfolding loop_end_def spec_bicgstab_def nv a0 [symmetric]
    by (rule pbicgstab_loop_refines [OF wf P0 opw nw])
  have f: "it (fst (loop_end bs E W s)) = sp_it (spec_bicgstab P (maxit s) (tolerance s) b)"
    "norm_v (fst (loop_end bs E W s)) = sp_norm (spec_bicgstab P (maxit s) (tolerance s) b)"
    unfolding fin [symmetric] by (simp_all add: abstraction_fields)
  have i0: "it (fst (loop_start s)) = real_of_int 0 + 1/2"
    by (simp add: it_loop_start)
  have fl: "pbicgstab_loop_float bs E W (maxit s) (tolerance s) (norm_v (fst (loop_start s)))
           (loop_start s)
       = Some (loop_end bs E W s)"
    unfolding loop_end_def by (rule float_loop_agrees [OF assms(7) i0])
  show ?thesis
    unfolding P_def [symmetric] b_def [symmetric]
    by (simp add: fl [unfolded nv] fin gpu_pbicgstab_run [OF assms(1)] f nv)
qed

theorem gpu_pbicgstab_implements_recurrence_witness:
  "err example_uploaded2 = 0 \<and> N example_uploaded2 = int 2
   \<and> length (d_vec example_uploaded2 D_b) = 2
   \<and> d_vec example_uploaded2 D_x = replicate 2 0
   \<and> ops_wf 2 (spec_ops_of 1 example_env2 example_wells1 example_uploaded2)
   \<and> 0 < getNumWells example_wells1
   \<and> maxit example_uploaded2 < 8388608
   \<and> pbicgstab_loop_float 1 example_env2 example_wells1 5 (1/100) 1 (loop_start example_uploaded2)
       = Some (loop_end 1 example_env2 example_wells1 example_uploaded2)
   \<and> abstraction (loop_end 1 example_env2 example_wells1 example_uploaded2)
       = \<lparr>sp_x = [1/2, - (1/2)], sp_r = [0, 0], sp_rw = [1, 0], sp_p = [1/2, - (3/5)],
          sp_v = [4/5, - (2/5)], sp_rho = 2/5, sp_alpha = 1/2, sp_omega = 1/5, sp_norm = 0,
          sp_it = 3/2\<rparr>
   \<and> d_vec (fst (gpu_pbicgstab 1 example_env2 example_wells1 example_uploaded2)) D_x
       = [1/2, - (1/2)]
   \<and> snd (gpu_pbicgstab 1 example_env2 example_wells1 example_uploaded2)
       = Inr \<lparr>iterations = 3/2, reduction = 0, conv_rate = 0, converged = True\<rparr>"
proof -
  have h: "err example_uploaded2 = 0" "N example_uploaded2 = int 2"
    "length (d_vec example_uploaded2 D_b) = 2"
    "d_vec example_uploaded2 D_x = replicate 2 0"
    by (simp_all add: example_uploaded2_def example_solver_def eval_nat_numeral)
  have o: "ops_wf 2 (spec_ops_of 1 example_env2 example_wells1 example_uploaded2)"
    by (simp add: ops_wf_def spec_ops_of_def example_env2_def example_env_def example_wells1_def
        example_uploaded2_def example_solver_def example_spmv_def)
  have g: "0 < getNumWells example_wells1"
    by (simp add: example_wells1_def)
  then have w: "getNumWells example_wells1 = 0 \<longrightarrow>
      (\<forall>x y. wc_apply example_wells1 x y (d_toOrder example_uploaded2) = y)"
    by simp
  have m: "maxit example_uploaded2 = 5" "tolerance example_uploaded2 = 1/100"
    "d_vec example_uploaded2 D_b = [1, 0]"
    by (simp_all add: example_uploaded2_def example_solver_def)
  have mb: "maxit example_uploaded2 < 8388608"
    by (simp add: m)
  have n0: "vnorm [1, 0] = 1"
    by (simp add: vnorm_def inner_prod_def)
  have nv: "norm_v (fst (loop_start example_uploaded2)) = 1"
    by (simp add: loop_start_vars d_vec_loop_start m h(2) norm_k_def dot_k_def eval_nat_numeral)
  note T = gpu_pbicgstab_implements_recurrence [OF h o w mb, unfolded m example2_spec_run nv n0]
  have x: "d_vec (fst (gpu_pbicgstab 1 example_env2 example_wells1 example_uploaded2)) D_x
       = [1/2, - (1/2)]"
    using T by (simp add: abstraction_def)
  have r: "snd (gpu_pbicgstab 1 example_env2 example_wells1 example_uploaded2)
       = Inr \<lparr>iterations = 3/2, reduction = 0, conv_rate = 0, converged = True\<rparr>"
    using T by simp
  show ?thesis
    using h o g mb T x r by simp
qed

text \<open>
  With the zero right-hand side on the device and \<open>0 \<le> maxit < 2^23\<close> the initial norm
  \<open>norm_0\<close> is 0, so the strict test \<open>norm < tolerance * norm_0\<close> holds for no residual;
  the loop returns after all \<open>maxit\<close> pairs of half-steps (each issues one \<^verbatim>\<open>spmv\<close> on
  \<open>pw\<close> and one on \<open>s\<close>) and the result says \<open>converged = false\<close> with
  \<open>iterations = maxit\<close>.
\<close>

lemma zero_rhs_exhausts_maxit:
  assumes "err s = 0" and "0 \<le> maxit s" and "d_vec s D_b = replicate (nat (N s)) 0"
    and "maxit s < 8388608"
  shows "norm_v (fst (loop_start s)) = 0
    \<and> (\<forall>a. \<not> norm_k a (N s) < tolerance s * norm_v (fst (loop_start s)))
    \<and> pbicgstab_loop_float bs E W (maxit s) (tolerance s) (norm_v (fst (loop_start s)))
          (loop_start s) = Some (loop_end bs E W s)
    \<and> (\<exists>res. snd (gpu_pbicgstab bs E W s) = Inr res \<and> \<not> converged res
              \<and> iterations res = real_of_int (maxit s))
    \<and> count_list (new_events s (fst (gpu_pbicgstab bs E W s))) (Ev_spmv D_pw D_v) = nat (maxit s)
    \<and> count_list (new_events s (fst (gpu_pbicgstab bs E W s))) (Ev_spmv D_s D_t) = nat (maxit s)"
proof -
  note Z = zero_rhs_loop_end [OF assms(2,3)]
  have t: "\<not> norm_k a (N s) < tolerance s * norm_v (fst (loop_start s))" for a
    using norm_k_nonneg [of a "N s"] by (simp add: Z(1))
  have m: "min (real_of_int (maxit s) + 1/2) (real_of_int (maxit s)) = real_of_int (maxit s)"
    by (simp add: min_def)
  have i0: "it (fst (loop_start s)) = real_of_int 0 + 1/2"
    by (simp add: it_loop_start)
  have fl: "pbicgstab_loop_float bs E W (maxit s) (tolerance s) (norm_v (fst (loop_start s)))
          (loop_start s) = Some (loop_end bs E W s)"
    unfolding loop_end_def by (rule float_loop_agrees [OF assms(4) i0])
  show ?thesis
    using Z t by (simp add: fl [unfolded Z(1)] gpu_pbicgstab_run [OF assms(1)] m)
qed

lemma zero_rhs_exhausts_maxit_example:
  "norm_v (fst (loop_start (example_uploaded 2 [0]))) = 0
   \<and> count_list (new_events (example_uploaded 2 [0])
        (fst (gpu_pbicgstab 1 example_env example_wells (example_uploaded 2 [0]))))
        (Ev_spmv D_pw D_v) = 2"
proof -
  have h: "err (example_uploaded 2 [0]) = 0" "0 \<le> maxit (example_uploaded 2 [0])"
    "d_vec (example_uploaded 2 [0]) D_b = replicate (nat (N (example_uploaded 2 [0]))) 0"
    "maxit (example_uploaded 2 [0]) < 8388608"
    by (simp_all add: example_uploaded_fields)
  show ?thesis
    using zero_rhs_exhausts_maxit [OF h, of 1 example_env example_wells]
    by (simp add: example_uploaded_fields)
qed

lemma rb_solved:
  assumes "reaches_solve E s" and "opencl_ilu_reorder s = NONE"
  shows "rb (obj (solve_system bs E N' nnz' dim' vals rows cols b wc res s)) = b"
  using host_fields(13) [OF host_loop_end] rb_solve_input [OF assms(2)]
  by (simp add: path_solved [OF assms(1)])

text \<open>
  C9 fails on the code for a negative \<open>maxit\<close>. With the zero right-hand side and
  \<open>maxit = -1\<close> the loop test \<open>0.5 < maxit\<close> is false at once: no pair of half-steps
  runs (the calls made end with the initial \<^verbatim>\<open>norm\<close>, and no \<^verbatim>\<open>spmv\<close> is among
  them), yet \<open>it != maxit + 0.5\<close> is \<open>0.5 != -0.5\<close>, so the result says
  \<open>converged = true\<close>, with \<open>iterations = -1\<close>, and \<^verbatim>\<open>solve_system\<close> returns
  success.
\<close>
theorem zero_rhs_converged_without_iterating:
  "rb (obj (solve_call 1 (example_call example_env [0]) (example_solver (- 1)))) = [0]
   \<and> returned (solve_call 1 (example_call example_env [0]) (example_solver (- 1)))
       = Inr BDA_SOLVER_SUCCESS
   \<and> converged (result (solve_call 1 (example_call example_env [0]) (example_solver (- 1))))
   \<and> iterations (result (solve_call 1 (example_call example_env [0]) (example_solver (- 1))))
       = - 1
   \<and> new_events (example_solver (- 1))
        (obj (solve_call 1 (example_call example_env [0]) (example_solver (- 1))))
       = [Ev_initialize, Ev_analyze_matrix, Ev_update_system, Ev_create_preconditioner,
          Ev_copy_system_to_gpu, Ev_fill D_x, Ev_gpu_pbicgstab, Ev_fill D_p, Ev_fill D_v,
          Ev_copy D_b D_r, Ev_copy D_r D_rw, Ev_copy D_r D_p, Ev_norm D_r]"
proof -
  have m: "maxit (example_solver (- 1)) < 0"
    by (simp add: example_solver_def)
  have ev: "upload_events (example_solver (- 1)) @ init_events
       = [Ev_initialize, Ev_analyze_matrix, Ev_update_system, Ev_create_preconditioner,
          Ev_copy_system_to_gpu, Ev_fill D_x, Ev_gpu_pbicgstab, Ev_fill D_p, Ev_fill D_v,
          Ev_copy D_b D_r, Ev_copy D_r D_rw, Ev_copy D_r D_p, Ev_norm D_r]"
    by (simp add: upload_events_def prefix_events_def init_events_def example_solver_def)
  have mm: "maxit (example_solver (- 1)) = - 1"
    by (simp add: example_solver_def)
  have ro: "opencl_ilu_reorder (example_solver (- 1)) = NONE"
    by (simp add: example_solver_def)
  show ?thesis
    unfolding solve_call_def example_call_def
    using negative_maxit_solve [OF example_reaches_solve m] ev
      rb_solved [OF example_reaches_solve ro]
    by (simp add: mm)
qed

end
